theory Spec2Isabelle
  imports Complex_Main "HOL-Library.Word"
begin

unbundle bit_operations_syntax

section \<open>Single-precision numbers\<close>

text \<open>
  The device code computes in C \<^verbatim>\<open>float\<close>.  A value is a finite number, one of the two
  infinities, or NaN.  The special values follow IEEE 754: an operation on NaN gives NaN,
  \<open>\<infinity> - \<infinity>\<close> and \<open>\<infinity> * 0\<close> give NaN, every comparison with NaN is false.  A finite result
  whose magnitude reaches the binary32 overflow threshold \<open>2^128 - 2^103\<close> becomes an
  infinity, and one whose magnitude is at most \<open>2^-150\<close>, half the smallest subnormal number,
  becomes zero.  The rounding of the mantissa of a result between these bounds and the
  sign of zero are not modelled: such a result is kept exact.  No theorem below depends on
  the exactness of such a result.
\<close>

datatype float = Finite real | PInf | NInf | NaN

definition round_to_float :: "real \<Rightarrow> float" where
  "round_to_float r =
     (if 2 ^ 128 - 2 ^ 103 \<le> r then PInf
      else if r \<le> - (2 ^ 128 - 2 ^ 103) then NInf
      else if \<bar>r\<bar> \<le> 1 / 2 ^ 150 then Finite 0
      else Finite r)"

fun fadd :: "float \<Rightarrow> float \<Rightarrow> float" where
  "fadd (Finite a) (Finite b) = round_to_float (a + b)"
| "fadd NaN _ = NaN"
| "fadd _ NaN = NaN"
| "fadd PInf NInf = NaN"
| "fadd NInf PInf = NaN"
| "fadd PInf _ = PInf"
| "fadd _ PInf = PInf"
| "fadd NInf _ = NInf"
| "fadd _ NInf = NInf"

fun fneg :: "float \<Rightarrow> float" where
  "fneg (Finite a) = Finite (- a)"
| "fneg PInf = NInf"
| "fneg NInf = PInf"
| "fneg NaN = NaN"

fun fmul :: "float \<Rightarrow> float \<Rightarrow> float" where
  "fmul (Finite a) (Finite b) = round_to_float (a * b)"
| "fmul NaN _ = NaN"
| "fmul _ NaN = NaN"
| "fmul PInf (Finite b) = (if b = 0 then NaN else if 0 < b then PInf else NInf)"
| "fmul NInf (Finite b) = (if b = 0 then NaN else if 0 < b then NInf else PInf)"
| "fmul (Finite a) PInf = (if a = 0 then NaN else if 0 < a then PInf else NInf)"
| "fmul (Finite a) NInf = (if a = 0 then NaN else if 0 < a then NInf else PInf)"
| "fmul PInf PInf = PInf"
| "fmul PInf NInf = NInf"
| "fmul NInf PInf = NInf"
| "fmul NInf NInf = PInf"

fun fless :: "float \<Rightarrow> float \<Rightarrow> bool" where
  "fless (Finite a) (Finite b) = (a < b)"
| "fless NaN _ = False"
| "fless _ NaN = False"
| "fless PInf _ = False"
| "fless _ NInf = False"
| "fless NInf _ = True"
| "fless _ PInf = True"

fun fless_eq :: "float \<Rightarrow> float \<Rightarrow> bool" where
  "fless_eq (Finite a) (Finite b) = (a \<le> b)"
| "fless_eq NaN _ = False"
| "fless_eq _ NaN = False"
| "fless_eq NInf _ = True"
| "fless_eq _ PInf = True"
| "fless_eq PInf _ = False"
| "fless_eq _ NInf = False"

fun fdiv :: "float \<Rightarrow> float \<Rightarrow> float" where
  "fdiv (Finite a) (Finite b) =
     (if b = 0 then (if a = 0 then NaN else if 0 < a then PInf else NInf)
      else round_to_float (a / b))"
| "fdiv NaN _ = NaN"
| "fdiv _ NaN = NaN"
| "fdiv (Finite a) PInf = Finite 0"
| "fdiv (Finite a) NInf = Finite 0"
| "fdiv PInf (Finite b) = (if 0 \<le> b then PInf else NInf)"
| "fdiv NInf (Finite b) = (if 0 \<le> b then NInf else PInf)"
| "fdiv PInf PInf = NaN"
| "fdiv PInf NInf = NaN"
| "fdiv NInf PInf = NaN"
| "fdiv NInf NInf = NaN"

instantiation float :: "{zero, one, plus, minus, uminus, times, inverse, ord}"
begin
definition zero_float :: float where "zero_float = Finite 0"
definition one_float :: float where "one_float = Finite 1"
definition plus_float :: "float \<Rightarrow> float \<Rightarrow> float" where "plus_float = fadd"
definition uminus_float :: "float \<Rightarrow> float" where "uminus_float = fneg"
definition minus_float :: "float \<Rightarrow> float \<Rightarrow> float" where "minus_float a b = fadd a (fneg b)"
definition times_float :: "float \<Rightarrow> float \<Rightarrow> float" where "times_float = fmul"
definition divide_float :: "float \<Rightarrow> float \<Rightarrow> float" where "divide_float = fdiv"
definition inverse_float :: "float \<Rightarrow> float" where "inverse_float a = fdiv (Finite 1) a"
definition less_float :: "float \<Rightarrow> float \<Rightarrow> bool" where "less_float = fless"
definition less_eq_float :: "float \<Rightarrow> float \<Rightarrow> bool" where "less_eq_float = fless_eq"
instance ..
end

text \<open>
  C's \<^verbatim>\<open>fmax\<close>: when one argument is NaN the other is returned.
\<close>

fun fmax :: "float \<Rightarrow> float \<Rightarrow> float" where
  "fmax NaN b = b"
| "fmax a NaN = a"
| "fmax a b = (if a < b then b else a)"

text \<open>
  Modelled from the spec: the intrinsic \<^verbatim>\<open>__frsqrt_rn\<close> is the device's reciprocal square
  root (the spec: "reciprocal-square-root approximations"); its definition is not in the
  sources.  Its special values are IEEE's: NaN for a negative argument, infinity at zero,
  zero at infinity.
\<close>

fun frsqrt_rn :: "float \<Rightarrow> float" where
  "frsqrt_rn (Finite a) =
     (if a < 0 then NaN else if a = 0 then PInf else round_to_float (1 / sqrt a))"
| "frsqrt_rn PInf = Finite 0"
| "frsqrt_rn NInf = NaN"
| "frsqrt_rn NaN = NaN"

section \<open>Vector types (vectype\_ops.hpp)\<close>

text \<open>
  \<^verbatim>\<open>float3\<close> and \<^verbatim>\<open>float4\<close> are the device's structs of three and four floats, with fields
  \<^verbatim>\<open>x\<close>, \<^verbatim>\<open>y\<close>, \<^verbatim>\<open>z\<close> (and \<^verbatim>\<open>w\<close>).  The fields carry the struct's name as a prefix here, so that
  \<open>x\<close>, \<open>y\<close> and \<open>z\<close> remain variables.
\<close>

record float3 =
  f3_x :: float
  f3_y :: float
  f3_z :: float

record float4 =
  f4_x :: float
  f4_y :: float
  f4_z :: float
  f4_w :: float

definition make_float3 :: "float \<Rightarrow> float \<Rightarrow> float \<Rightarrow> float3" where
  "make_float3 a b c = \<lparr>f3_x = a, f3_y = b, f3_z = c\<rparr>"

definition make_float3_s :: "float \<Rightarrow> float3" where
  "make_float3_s s = make_float3 s s s"

definition make_float3_4 :: "float4 \<Rightarrow> float3" where
  "make_float3_4 a = make_float3 (f4_x a) (f4_y a) (f4_z a)"

text \<open>
  The componentwise operators on \<^verbatim>\<open>float3\<close> of the device's vector header, which
  the sources use (\<^verbatim>\<open>b - a\<close> in \<^verbatim>\<open>dist3\<close>) and do not define.
\<close>

definition float3_add :: "float3 \<Rightarrow> float3 \<Rightarrow> float3" where
  "float3_add a b = make_float3 (f3_x a + f3_x b) (f3_y a + f3_y b) (f3_z a + f3_z b)"

definition float3_sub :: "float3 \<Rightarrow> float3 \<Rightarrow> float3" where
  "float3_sub a b = make_float3 (f3_x a - f3_x b) (f3_y a - f3_y b) (f3_z a - f3_z b)"

definition float3_mul :: "float3 \<Rightarrow> float3 \<Rightarrow> float3" where
  "float3_mul a b = make_float3 (f3_x a * f3_x b) (f3_y a * f3_y b) (f3_z a * f3_z b)"

definition float3_scale :: "float3 \<Rightarrow> float \<Rightarrow> float3" where
  "float3_scale a s = make_float3 (f3_x a * s) (f3_y a * s) (f3_z a * s)"

definition float3_scale_l :: "float \<Rightarrow> float3 \<Rightarrow> float3" where
  "float3_scale_l s a = make_float3 (s * f3_x a) (s * f3_y a) (s * f3_z a)"

definition norm2 :: "float3 \<Rightarrow> float" where
  "norm2 a = f3_x a * f3_x a + f3_y a * f3_y a + f3_z a * f3_z a"

definition iprod :: "float3 \<Rightarrow> float3 \<Rightarrow> float" where
  "iprod a b = f3_x a * f3_x b + f3_y a * f3_y b + f3_z a * f3_z b"

definition cprod :: "float3 \<Rightarrow> float3 \<Rightarrow> float3" where
  "cprod a b =
     \<lparr>f3_x = f3_y a * f3_z b - f3_z a * f3_y b,
      f3_y = f3_z a * f3_x b - f3_x a * f3_z b,
      f3_z = f3_x a * f3_y b - f3_y a * f3_x b\<rparr>"

definition cos_angle :: "float3 \<Rightarrow> float3 \<Rightarrow> float" where
  "cos_angle a b =
     (let ipa = norm2 a;
          ipb = norm2 b;
          ip = iprod a b;
          ipab = ipa * ipb;
          cosval = (if ipab > 0 then ip * frsqrt_rn ipab else 1)
      in if cosval > 1 then 1
         else if cosval < - 1 then - 1
         else cosval)"

subsection \<open>The packed vector \<^verbatim>\<open>fast_float3\<close>\<close>

text \<open>
  \<^verbatim>\<open>Native_float2_\<close> is the compiler's two-lane vector; its \<open>*\<close>, \<open>+\<close> and \<open>-\<close> work lane by
  lane, and an operation with a scalar applies the scalar to both lanes.
\<close>

type_synonym Native_float2 = "float \<times> float"

definition nf2_mul :: "Native_float2 \<Rightarrow> Native_float2 \<Rightarrow> Native_float2" where
  "nf2_mul p q = (fst p * fst q, snd p * snd q)"

definition nf2_add :: "Native_float2 \<Rightarrow> Native_float2 \<Rightarrow> Native_float2" where
  "nf2_add p q = (fst p + fst q, snd p + snd q)"

definition nf2_sub :: "Native_float2 \<Rightarrow> Native_float2 \<Rightarrow> Native_float2" where
  "nf2_sub p q = (fst p - fst q, snd p - snd q)"

definition nf2_scale :: "Native_float2 \<Rightarrow> float \<Rightarrow> Native_float2" where
  "nf2_scale p s = (fst p * s, snd p * s)"

definition nf2_scale_l :: "float \<Rightarrow> Native_float2 \<Rightarrow> Native_float2" where
  "nf2_scale_l s p = (s * fst p, s * snd p)"

text \<open>
  The struct is a union of the packed pair \<^verbatim>\<open>{dxy, dz}\<close> and the plain fields
  \<^verbatim>\<open>{x, y, z}\<close> over the same twelve bytes: \<^verbatim>\<open>x\<close> and \<^verbatim>\<open>y\<close> are the two lanes of
  \<^verbatim>\<open>dxy\<close>, and \<^verbatim>\<open>z\<close> is \<^verbatim>\<open>dz\<close>.
\<close>

record fast_float3 =
  dxy :: Native_float2
  dz :: float

definition ff3_x :: "fast_float3 \<Rightarrow> float" where
  "ff3_x a = fst (dxy a)"

definition ff3_y :: "fast_float3 \<Rightarrow> float" where
  "ff3_y a = snd (dxy a)"

definition ff3_z :: "fast_float3 \<Rightarrow> float" where
  "ff3_z a = dz a"

text \<open>The two constructors, and the conversion operator to \<^verbatim>\<open>float3\<close>.\<close>

definition fast_float3_xyz :: "float \<Rightarrow> float \<Rightarrow> float \<Rightarrow> fast_float3" where
  "fast_float3_xyz a b c = \<lparr>dxy = (a, b), dz = c\<rparr>"

definition fast_float3_xy_z :: "Native_float2 \<Rightarrow> float \<Rightarrow> fast_float3" where
  "fast_float3_xy_z p c = \<lparr>dxy = p, dz = c\<rparr>"

definition to_float3 :: "fast_float3 \<Rightarrow> float3" where
  "to_float3 a = \<lparr>f3_x = ff3_x a, f3_y = ff3_y a, f3_z = ff3_z a\<rparr>"

definition ff3_mul :: "fast_float3 \<Rightarrow> fast_float3 \<Rightarrow> fast_float3" where
  "ff3_mul a b = fast_float3_xy_z (nf2_mul (dxy a) (dxy b)) (dz a * dz b)"

definition ff3_scale :: "fast_float3 \<Rightarrow> float \<Rightarrow> fast_float3" where
  "ff3_scale a s = fast_float3_xy_z (nf2_scale (dxy a) s) (dz a * s)"

definition ff3_scale_l :: "float \<Rightarrow> fast_float3 \<Rightarrow> fast_float3" where
  "ff3_scale_l s a = fast_float3_xy_z (nf2_scale_l s (dxy a)) (s * dz a)"

definition ff3_add :: "fast_float3 \<Rightarrow> fast_float3 \<Rightarrow> fast_float3" where
  "ff3_add a b = fast_float3_xy_z (nf2_add (dxy a) (dxy b)) (dz a + dz b)"

definition ff3_sub :: "fast_float3 \<Rightarrow> fast_float3 \<Rightarrow> fast_float3" where
  "ff3_sub a b = fast_float3_xy_z (nf2_sub (dxy a) (dxy b)) (dz a - dz b)"

definition make_fast_float3 :: "float \<Rightarrow> fast_float3" where
  "make_fast_float3 s = fast_float3_xyz s s s"

definition make_fast_float3_4 :: "float4 \<Rightarrow> fast_float3" where
  "make_fast_float3_4 a = fast_float3_xyz (f4_x a) (f4_y a) (f4_z a)"

definition norm2_fast :: "fast_float3 \<Rightarrow> float" where
  "norm2_fast a = (let b = ff3_mul a a in ff3_x b + ff3_y b + ff3_z b)"

section \<open>Host-side data management (nbnxm\_gpu\_data\_mgmt.cpp)\<close>

subsection \<open>Fatal errors and device buffers\<close>

text \<open>
  \<^verbatim>\<open>gmx_incons\<close> and \<^verbatim>\<open>GMX_THROW\<close> end the run; a function that can reach one returns a sum
  whose left side is the error.  Dereferencing the pair list of a locality that
  \<^verbatim>\<open>gpu_init\<close> never allocated (a null pointer) is an error of its own.
\<close>

datatype fatal = Incons string | InconsistentInputError string | NullPointer

text \<open>
  A device buffer is a null pointer or an array of cells; a cell that was allocated and
  never written holds no defined content (\<open>None\<close>).  Operations issued on one stream take
  effect in the order of issue, so each is modelled by its effect on the buffer.
\<close>

datatype 'a DeviceBuffer = nullptr | Buffer "'a option list"

fun cells :: "'a DeviceBuffer \<Rightarrow> 'a option list" where
  "cells nullptr = []"
| "cells (Buffer cs) = cs"

text \<open>
  Modelled from the spec: the buffer primitives of \<^verbatim>\<open>devicebuffer.h\<close>, which is not in the
  sources ("Each buffer supports: reallocate-to-at-least(n), upload-from-host(range),
  zero-fill(range), and free"; "reallocation preserves no data").  An upload or a
  zero-fill writes the cells of its range that exist and leaves every other cell as it is.
\<close>

definition allocateDeviceBuffer :: "nat \<Rightarrow> 'a DeviceBuffer" where
  "allocateDeviceBuffer n = Buffer (replicate n None)"

definition freeDeviceBuffer :: "'a DeviceBuffer \<Rightarrow> 'a DeviceBuffer" where
  "freeDeviceBuffer b = nullptr"

fun copyToDeviceBuffer :: "'a DeviceBuffer \<Rightarrow> 'a list \<Rightarrow> nat \<Rightarrow> nat \<Rightarrow> 'a DeviceBuffer" where
  "copyToDeviceBuffer nullptr hostBuffer startingOffset numValues = nullptr"
| "copyToDeviceBuffer (Buffer cs) hostBuffer startingOffset numValues =
     Buffer (map (\<lambda>k. if startingOffset \<le> k \<and> k < startingOffset + numValues
                            \<and> k - startingOffset < length hostBuffer
                         then Some (hostBuffer ! (k - startingOffset))
                         else cs ! k)
                 [0..<length cs])"

fun clearDeviceBufferAsync :: "'a \<Rightarrow> 'a DeviceBuffer \<Rightarrow> nat \<Rightarrow> nat \<Rightarrow> 'a DeviceBuffer" where
  "clearDeviceBufferAsync zero_bits nullptr startingOffset numValues = nullptr"
| "clearDeviceBufferAsync zero_bits (Buffer cs) startingOffset numValues =
     Buffer (map (\<lambda>k. if startingOffset \<le> k \<and> k < startingOffset + numValues
                         then Some zero_bits
                         else cs ! k)
                 [0..<length cs])"


text \<open>
  Modelled from the spec: \<^verbatim>\<open>reallocateDeviceBuffer\<close> ("explicit capacity tracking (current
  logical size vs. allocated capacity) to avoid reallocation on every step; growth uses an
  over-allocation policy"; "shrinking logical size never triggers a free").  It returns
  the buffer, the logical size and the capacity.  The over-allocation policy
  \<open>over_alloc_large\<close> is a parameter: its macro is not in the sources.
\<close>

definition reallocateDeviceBuffer ::
  "(nat \<Rightarrow> nat) \<Rightarrow> 'a DeviceBuffer \<Rightarrow> nat \<Rightarrow> int \<Rightarrow> 'a DeviceBuffer \<times> int \<times> int" where
  "reallocateDeviceBuffer over_alloc_large buffer numValues currentMaxNumValues =
     (if int numValues > currentMaxNumValues
      then (allocateDeviceBuffer (over_alloc_large numValues), int numValues,
            int (over_alloc_large numValues))
      else (buffer, int numValues, currentMaxNumValues))"

subsection \<open>Kernel flavours and their selection\<close>

datatype ElecType = ElecCut | ElecRF | ElecEwaldTab | ElecEwaldTabTwin | ElecEwaldAna | ElecEwaldAnaTwin

datatype VdwType = VdwCut | VdwCutCombGeom | VdwCutCombLB | VdwFSwitch | VdwPSwitch
  | VdwEwaldGeom | VdwEwaldLB

text \<open>
  Modelled from the spec: \<^verbatim>\<open>useLjCombRule\<close> is declared outside the sources ("uploads
  atom-type or LJ-combination parameters depending on the active VdW kernel mode"); the
  modes with combination-rule parameters are the two combination-rule cut-off kernels.
\<close>

definition useLjCombRule :: "VdwType \<Rightarrow> bool" where
  "useLjCombRule vdwType = (vdwType = VdwCutCombGeom \<or> vdwType = VdwCutCombLB)"

text \<open>
  The build selects one GPU backend; with CUDA the default Ewald kernel depends on the
  device's compute capability.  The environment is a map from variable names to values,
  and \<^verbatim>\<open>getenv(name) != nullptr\<close> asks whether the name is set.
\<close>

datatype gpu_backend = GMX_GPU_CUDA | GMX_GPU_HIP | GMX_GPU_OTHER

record DeviceInformation =
  prop_major :: int
  prop_minor :: int

record interaction_const_t =
  rcoulomb :: float
  rvdw :: float

text \<open>C's \<open>!=\<close> on floats: NaN differs from everything, itself included.\<close>

definition float_neq :: "float \<Rightarrow> float \<Rightarrow> bool" where
  "float_neq a b = (a = NaN \<or> b = NaN \<or> a \<noteq> b)"

definition nbnxn_gpu_pick_ewald_kernel_type ::
  "gpu_backend \<Rightarrow> (string \<Rightarrow> string option) \<Rightarrow> interaction_const_t \<Rightarrow> DeviceInformation
   \<Rightarrow> fatal + ElecType" where
  "nbnxn_gpu_pick_ewald_kernel_type backend getenv ic deviceInfo =
     (let bTwinCut = float_neq (rcoulomb ic) (rvdw ic);
          forceAnalyticalEwald = (getenv ''GMX_GPU_NB_ANA_EWALD'' \<noteq> None);
          forceTabulatedEwald = (getenv ''GMX_GPU_NB_TAB_EWALD'' \<noteq> None);
          forceTwinCutoffEwald = (getenv ''GMX_GPU_NB_EWALD_TWINCUT'' \<noteq> None)
      in if forceAnalyticalEwald \<and> forceTabulatedEwald
         then Inl (Incons (''Both analytical and tabulated Ewald GPU non-bonded kernels ''
                           @ ''requested through environment variables.''))
         else
           let c_useTabulatedEwaldDefault =
                 (case backend of
                    GMX_GPU_CUDA \<Rightarrow>
                      (prop_major deviceInfo = 7 \<and> prop_minor deviceInfo = 0)
                      \<or> (prop_major deviceInfo = 8 \<and> prop_minor deviceInfo = 0)
                  | GMX_GPU_HIP \<Rightarrow> True
                  | GMX_GPU_OTHER \<Rightarrow> False);
               bUseAnalyticalEwald =
                 (if forceAnalyticalEwald then True
                  else if forceTabulatedEwald then False
                  else \<not> c_useTabulatedEwaldDefault)
           in if \<not> bTwinCut \<and> \<not> forceTwinCutoffEwald
              then Inr (if bUseAnalyticalEwald then ElecEwaldAna else ElecEwaldTab)
              else Inr (if bUseAnalyticalEwald then ElecEwaldAnaTwin else ElecEwaldTabTwin))"

subsection \<open>Pair lists\<close>

text \<open>
  The entries of the host and device pair lists.  \<^verbatim>\<open>imei\<close> holds, per warp of a cluster
  pair, the interaction mask and the index of the exclusion masks.
\<close>

record nbnxn_sci_t =
  sci :: int
  shift :: int
  cj4_ind_start :: int
  cj4_length :: int

record nbnxn_im_ei_t =
  imask :: "32 word"
  excl_ind :: int

record nbnxn_cj4_t =
  cj :: "int list"
  imei :: "nbnxn_im_ei_t list"

record nbnxn_excl_t =
  pair :: "32 word list"

record NbnxnPairlistGpu =
  na_ci :: int
  h_sci :: "nbnxn_sci_t list"
  h_cj4 :: "nbnxn_cj4_t list"
  h_excl :: "nbnxn_excl_t list"

record gpu_plist =
  na_c :: int
  nsci :: int
  sci_nalloc :: int
  d_sci :: "nbnxn_sci_t DeviceBuffer"
  ncj4 :: int
  cj4_nalloc :: int
  d_cj4 :: "nbnxn_cj4_t DeviceBuffer"
  nimask :: int
  imask_nalloc :: int
  d_imask :: "32 word DeviceBuffer"
  nexcl :: int
  excl_nalloc :: int
  d_excl :: "nbnxn_excl_t DeviceBuffer"
  haveFreshList :: bool
  rollingPruningNumParts :: int
  rollingPruningPart :: int

definition init_plist :: "gpu_plist" where
  "init_plist =
     \<lparr>na_c = - 1, nsci = - 1, sci_nalloc = - 1, d_sci = nullptr,
      ncj4 = - 1, cj4_nalloc = - 1, d_cj4 = nullptr,
      nimask = - 1, imask_nalloc = - 1, d_imask = nullptr,
      nexcl = - 1, excl_nalloc = - 1, d_excl = nullptr,
      haveFreshList = False, rollingPruningNumParts = 0, rollingPruningPart = 0\<rparr>"

subsection \<open>Atom data and the top-level handle\<close>

type_synonym Float2 = "float \<times> float"

record NBAtomDataGpu =
  numTypes :: int
  numAtoms :: int
  numAtomsLocal :: int
  numAtomsAlloc :: int
  xq :: "float4 DeviceBuffer"
  d_f :: "float3 DeviceBuffer"
  atomTypes :: "int DeviceBuffer"
  ljComb :: "Float2 DeviceBuffer"
  eLJ :: "float DeviceBuffer"
  eElec :: "float DeviceBuffer"
  fShift :: "float3 DeviceBuffer"

record NBParamGpu =
  vdwType :: VdwType
  elecType :: ElecType
  epsfac :: float
  rcoulomb_sq :: float
  rvdw_sq :: float
  two_k_rf :: float
  ewald_beta :: float
  sh_ewald :: float
  c_rf :: float
  rlistOuter_sq :: float
  ewaldcoeff_lj :: float
  repulsion_shift_cpot :: float
  dispersion_shift_cpot :: float

text \<open>The host staging area the shift forces and energies are downloaded to.\<close>

record NBStagingData =
  h_eLJ :: "float option"
  h_eElec :: "float option"
  h_fShift :: "float3 option list"

datatype InteractionLocality = Local | NonLocal

record NbnxmGpu =
  bUseTwoStreams :: bool
  bNonLocalStreamDoneMarked :: bool
  atdat :: NBAtomDataGpu
  nbparam :: NBParamGpu
  plist :: "InteractionLocality \<Rightarrow> gpu_plist option"
  nbst :: NBStagingData
  haveWork :: "InteractionLocality \<Rightarrow> bool"
  bDoTime :: bool
  didPairlistH2D :: "InteractionLocality \<Rightarrow> bool"

text \<open>
  The build's constants that the sources use and do not define: the two over-allocation
  policies, the number of mask words per cluster pair and the number of shift vectors.
\<close>

record build_constants =
  over_alloc_small :: "int \<Rightarrow> int"
  over_alloc_large :: "nat \<Rightarrow> nat"
  c_nbnxnGpuClusterpairSplit :: nat
  c_numShiftVectors :: nat

subsection \<open>\<^verbatim>\<open>gpu_init_pairlist\<close>\<close>

definition gpu_init_pairlist ::
  "build_constants \<Rightarrow> NbnxmGpu \<Rightarrow> NbnxnPairlistGpu \<Rightarrow> InteractionLocality \<Rightarrow> fatal + NbnxmGpu" where
  "gpu_init_pairlist bc nb h_plist iloc =
     (case plist nb iloc of
        None \<Rightarrow> Inl NullPointer
      | Some d_plist0 \<Rightarrow>
          if \<not> na_c d_plist0 < 0 \<and> na_c d_plist0 \<noteq> na_ci h_plist
          then Inl (Incons ''In init_plist: the #atoms per cell has changed'')
          else
            let timed = (bDoTime nb \<and> h_sci h_plist \<noteq> []);
                d_plist1 = (if na_c d_plist0 < 0 then d_plist0\<lparr>na_c := na_ci h_plist\<rparr>
                            else d_plist0);
                (sci_b, sci_n, sci_cap) =
                   reallocateDeviceBuffer (over_alloc_large bc) (d_sci d_plist1)
                     (length (h_sci h_plist)) (sci_nalloc d_plist1);
                (cj4_b, cj4_n, cj4_cap) =
                   reallocateDeviceBuffer (over_alloc_large bc) (d_cj4 d_plist1)
                     (length (h_cj4 h_plist)) (cj4_nalloc d_plist1);
                (imask_b, imask_n, imask_cap) =
                   reallocateDeviceBuffer (over_alloc_large bc) (d_imask d_plist1)
                     (length (h_cj4 h_plist) * c_nbnxnGpuClusterpairSplit bc)
                     (imask_nalloc d_plist1);
                (excl_b, excl_n, excl_cap) =
                   reallocateDeviceBuffer (over_alloc_large bc) (d_excl d_plist1)
                     (length (h_excl h_plist)) (excl_nalloc d_plist1);
                d_plist2 = d_plist1
                  \<lparr>d_sci := copyToDeviceBuffer sci_b (h_sci h_plist) 0 (length (h_sci h_plist)),
                   nsci := sci_n, sci_nalloc := sci_cap,
                   d_cj4 := copyToDeviceBuffer cj4_b (h_cj4 h_plist) 0 (length (h_cj4 h_plist)),
                   ncj4 := cj4_n, cj4_nalloc := cj4_cap,
                   d_imask := imask_b, nimask := imask_n, imask_nalloc := imask_cap,
                   d_excl := copyToDeviceBuffer excl_b (h_excl h_plist) 0 (length (h_excl h_plist)),
                   nexcl := excl_n, excl_nalloc := excl_cap,
                   haveFreshList := True\<rparr>
            in Inr (nb\<lparr>plist := (plist nb)(iloc := Some d_plist2),
                       didPairlistH2D :=
                         (if timed then (didPairlistH2D nb)(iloc := True) else didPairlistH2D nb)\<rparr>))"

subsection \<open>\<^verbatim>\<open>setupGpuShortRangeWork\<close> and \<^verbatim>\<open>haveGpuShortRangeWork\<close>\<close>

text \<open>
  The bonded-forces collaborator is a pointer that may be null; when it is not, only the
  answer of its \<^verbatim>\<open>haveInteractions()\<close> matters.
\<close>

definition setupGpuShortRangeWork ::
  "NbnxmGpu \<Rightarrow> bool option \<Rightarrow> InteractionLocality \<Rightarrow> fatal + NbnxmGpu" where
  "setupGpuShortRangeWork nb listedForcesGpu iLocality =
     (case plist nb iLocality of
        None \<Rightarrow> Inl NullPointer
      | Some pl \<Rightarrow>
          Inr (nb\<lparr>haveWork := (haveWork nb)
                 (iLocality := (nsci pl \<noteq> 0
                                \<or> (case listedForcesGpu of None \<Rightarrow> False
                                    | Some haveInteractions \<Rightarrow> haveInteractions)))\<rparr>))"

definition haveGpuShortRangeWork :: "NbnxmGpu \<Rightarrow> InteractionLocality \<Rightarrow> bool" where
  "haveGpuShortRangeWork nb interactionLocality = haveWork nb interactionLocality"

subsection \<open>\<^verbatim>\<open>initAtomdataFirst\<close>, \<^verbatim>\<open>gpu_init_atomdata\<close> and \<^verbatim>\<open>gpu_clear_outputs\<close>\<close>

text \<open>
  The multi-slot accumulators of \<^verbatim>\<open>nbnxm_hip_types.h\<close>, where
  \<^verbatim>\<open>GMX_ENABLE_MEMORY_MULTIPLIER\<close> is defined: 64 slots, and one more element in front.
\<close>

definition c_clEnergyMemoryMultiplier :: "32 word" where
  "c_clEnergyMemoryMultiplier = 64"

definition c_clShiftMemoryMultiplier :: "32 word" where
  "c_clShiftMemoryMultiplier = 64"

definition c_clEnergyMemorySize :: "32 word" where
  "c_clEnergyMemorySize =
     (if c_clEnergyMemoryMultiplier = 1 then 1 else c_clEnergyMemoryMultiplier + 1)"

definition c_clShiftMemorySize :: "32 word" where
  "c_clShiftMemorySize =
     (if c_clShiftMemoryMultiplier = 1 then 1 else c_clShiftMemoryMultiplier + 1)"

definition zero_float3 :: float3 where
  "zero_float3 = make_float3 0 0 0"

definition initAtomdataFirst :: "build_constants \<Rightarrow> int \<Rightarrow> NBAtomDataGpu" where
  "initAtomdataFirst bc numTypes0 =
     \<lparr>numTypes = numTypes0,
      numAtoms = - 1,
      numAtomsLocal = 0,
      numAtomsAlloc = - 1,
      xq = nullptr,
      d_f = nullptr,
      atomTypes = nullptr,
      ljComb = nullptr,
      eLJ = clearDeviceBufferAsync 0
              (allocateDeviceBuffer (unat c_clEnergyMemorySize)) 0 (unat c_clEnergyMemorySize),
      eElec = clearDeviceBufferAsync 0
              (allocateDeviceBuffer (unat c_clEnergyMemorySize)) 0 (unat c_clEnergyMemorySize),
      fShift = clearDeviceBufferAsync zero_float3
              (allocateDeviceBuffer (unat c_clShiftMemorySize * c_numShiftVectors bc))
              0 (unat c_clShiftMemorySize * c_numShiftVectors bc)\<rparr>"

text \<open>The host's atom data: the atom counts, the per-atom parameters and the force output.\<close>

record nbnxn_atomdata_t =
  nbat_numAtoms :: int
  natoms_local :: int
  params_type :: "int list"
  params_lj_comb :: "Float2 list"
  out_f :: "float3 option list"

definition gpu_init_atomdata :: "build_constants \<Rightarrow> NbnxmGpu \<Rightarrow> nbnxn_atomdata_t \<Rightarrow> NbnxmGpu" where
  "gpu_init_atomdata bc nb nbat =
     (let atdat0 = atdat nb;
          numAtoms0 = nbat_numAtoms nbat;
          realloced = (numAtoms0 > numAtomsAlloc atdat0);
          atdat1 =
            (if realloced
             then
               let numAlloc = over_alloc_small bc numAtoms0;
                   freed =
                     (if numAtomsAlloc atdat0 \<noteq> - 1
                      then
                        (if useLjCombRule (vdwType (nbparam nb))
                         then atdat0\<lparr>d_f := freeDeviceBuffer (d_f atdat0),
                                     xq := freeDeviceBuffer (xq atdat0),
                                     ljComb := freeDeviceBuffer (ljComb atdat0)\<rparr>
                         else atdat0\<lparr>d_f := freeDeviceBuffer (d_f atdat0),
                                     xq := freeDeviceBuffer (xq atdat0),
                                     atomTypes := freeDeviceBuffer (atomTypes atdat0)\<rparr>)
                      else atdat0);
                   allocated =
                     (if useLjCombRule (vdwType (nbparam nb))
                      then freed\<lparr>d_f := allocateDeviceBuffer (nat numAlloc),
                                  xq := allocateDeviceBuffer (nat numAlloc),
                                  ljComb := allocateDeviceBuffer (nat numAlloc)\<rparr>
                      else freed\<lparr>d_f := allocateDeviceBuffer (nat numAlloc),
                                  xq := allocateDeviceBuffer (nat numAlloc),
                                  atomTypes := allocateDeviceBuffer (nat numAlloc)\<rparr>)
               in allocated\<lparr>numAtomsAlloc := numAlloc\<rparr>
             else atdat0);
          atdat2 = atdat1\<lparr>numAtoms := numAtoms0, numAtomsLocal := natoms_local nbat\<rparr>;
          atdat3 =
            (if realloced
             then atdat2\<lparr>d_f := clearDeviceBufferAsync zero_float3 (d_f atdat2) 0
                                    (nat (numAtomsAlloc atdat2))\<rparr>
             else atdat2);
          atdat4 =
            (if useLjCombRule (vdwType (nbparam nb))
             then atdat3\<lparr>ljComb := copyToDeviceBuffer (ljComb atdat3) (params_lj_comb nbat) 0
                                       (nat numAtoms0)\<rparr>
             else atdat3\<lparr>atomTypes := copyToDeviceBuffer (atomTypes atdat3) (params_type nbat) 0
                                          (nat numAtoms0)\<rparr>)
      in nb\<lparr>atdat := atdat4\<rparr>)"


subsection \<open>The kernel's accumulator slots (nbnxm\_hip\_kernel.hpp)\<close>


definition shift_index_base :: "build_constants \<Rightarrow> 32 word \<Rightarrow> 32 word" where
  "shift_index_base bc bidx =
     of_nat (c_numShiftVectors bc) * (1 + (bidx AND (c_clShiftMemoryMultiplier - 1)))"

text \<open>
  Modelled from the spec: \<^verbatim>\<open>reduce_energy_warp_shfl\<close> is not in the sources ("reduce the
  per-group LJ and electrostatic energy sums across the full group and atomically add into
  global energy accumulators").  \<open>E_lj\<close> and \<open>E_el\<close> are the block's reduced sums; the
  atomic addition goes to the element the kernel's pointers \<^verbatim>\<open>e_lj\<close> and \<^verbatim>\<open>e_el\<close> address.
\<close>

fun atomicAdd :: "float DeviceBuffer \<Rightarrow> nat \<Rightarrow> float \<Rightarrow> float DeviceBuffer" where
  "atomicAdd nullptr k v = nullptr"
| "atomicAdd (Buffer cs) k v =
     Buffer (if k < length cs then cs[k := map_option (\<lambda>old. old + v) (cs ! k)] else cs)"


subsection \<open>\<^verbatim>\<open>gpu_launch_cpyback\<close>\<close>






subsection \<open>The summation of the slots\<close>






subsection \<open>\<^verbatim>\<open>gpu_init\<close>\<close>

text \<open>
  The handle as \<^verbatim>\<open>gpu_init\<close> leaves it: the local pair list always, the non-local one only
  with two streams, each from \<^verbatim>\<open>init_plist\<close>; the atom data from
  \<^verbatim>\<open>initAtomdataFirst\<close>; the pinned staging area allocated and not yet written.  The kernel
  flavours that \<^verbatim>\<open>initNbparam\<close> selects are passed in.
\<close>

definition gpu_init :: "build_constants \<Rightarrow> NBParamGpu \<Rightarrow> int \<Rightarrow> bool \<Rightarrow> bool \<Rightarrow> NbnxmGpu" where
  "gpu_init bc nbp numTypes0 bLocalAndNonlocal doTime =
     \<lparr>bUseTwoStreams = bLocalAndNonlocal,
      bNonLocalStreamDoneMarked = False,
      atdat = initAtomdataFirst bc numTypes0,
      nbparam = nbp,
      plist = (\<lambda>iloc. if iloc = Local \<or> bLocalAndNonlocal then Some init_plist else None),
      nbst = \<lparr>h_eLJ = None, h_eElec = None, h_fShift = replicate (c_numShiftVectors bc) None\<rparr>,
      haveWork = (\<lambda>iloc. False),
      bDoTime = doTime,
      didPairlistH2D = (\<lambda>iloc. False)\<rparr>"

section \<open>The force kernel (nbnxm\_hip\_kernel.hpp)\<close>

subsection \<open>Flavours, constants and device functions\<close>

text \<open>
  The kernel is compiled once per flavour; the flavour is the set of macros defined at the
  inclusion: one electrostatics macro, at most one Lennard-Jones macro (none is the plain
  cut-off with the parameter table), and the flags for the twin cut-off, the energies and
  the pruning.  The convenience macros follow as in the head of the file.
\<close>

datatype EL_macro = EL_CUTOFF | EL_RF | EL_EWALD_ANA | EL_EWALD_TAB

datatype LJ_macro = LJ_NONE | LJ_COMB_GEOM | LJ_COMB_LB | LJ_FORCE_SWITCH | LJ_POT_SWITCH
  | LJ_EWALD_COMB_GEOM | LJ_EWALD_COMB_LB

record kernel_flavour =
  EL :: EL_macro
  LJ :: LJ_macro
  VDW_CUTOFF_CHECK :: bool
  CALC_ENERGIES :: bool
  PRUNE_NBL :: bool

definition EL_EWALD_ANY :: "kernel_flavour \<Rightarrow> bool" where
  "EL_EWALD_ANY fl = (EL fl = EL_EWALD_ANA \<or> EL fl = EL_EWALD_TAB)"

definition LJ_EWALD :: "kernel_flavour \<Rightarrow> bool" where
  "LJ_EWALD fl = (LJ fl = LJ_EWALD_COMB_GEOM \<or> LJ fl = LJ_EWALD_COMB_LB)"

definition EXCLUSION_FORCES :: "kernel_flavour \<Rightarrow> bool" where
  "EXCLUSION_FORCES fl =
     (EL_EWALD_ANY fl \<or> EL fl = EL_RF \<or> LJ_EWALD fl \<or> (EL fl = EL_CUTOFF \<and> CALC_ENERGIES fl))"

definition LJ_COMB :: "kernel_flavour \<Rightarrow> bool" where
  "LJ_COMB fl = (LJ fl = LJ_COMB_GEOM \<or> LJ fl = LJ_COMB_LB)"

text \<open>
  The constants the kernel uses and the sources do not define: the cluster layout, the
  warp layout, the index of the central shift, the floor of the squared distance, and
  three numeric constants.  \<^verbatim>\<open>NTHREAD_Z\<close> is 1 in the source.
\<close>

record kernel_constants =
  c_clSize :: nat
  c_nbnxnGpuNumClusterPerSupercluster :: nat
  c_nbnxnGpuJgroupSize :: nat
  warpSize :: nat
  c_subWarp :: nat
  c_centralShiftIndex :: int
  c_nbnxnMinDistanceSquared :: float
  c_oneSixth :: float
  c_oneTwelveth :: float
  M_FLOAT_1_SQRTPI :: float

definition NTHREAD_Z :: nat where
  "NTHREAD_Z = 1"

text \<open>
  The device functions the kernel calls and the sources do not define: the intrinsic
  \<^verbatim>\<open>__frsqrt_rn\<close>, \<^verbatim>\<open>erff\<close>, and the helpers of \<^verbatim>\<open>nbnxm_hip_kernel_utils.hpp\<close>.  A helper
  that writes through a pointer returns the new content instead; the last argument of
  \<^verbatim>\<open>calculate_lj_ewald_comb_LB_F_E\<close> is the energy the pointer addresses, or \<open>None\<close>
  for the null pointer.
\<close>

record kernel_utils =
  frsqrt :: "float \<Rightarrow> float"
  erff :: "float \<Rightarrow> float"
  pmecorrF :: "float \<Rightarrow> float"
  interpolate_coulomb_force_r :: "NBParamGpu \<Rightarrow> float \<Rightarrow> float"
  fetch_nbfp_c6_c12 :: "NBParamGpu \<Rightarrow> int \<Rightarrow> Float2"
  convert_sigma_epsilon_to_c6_c12 :: "float \<Rightarrow> float \<Rightarrow> Float2"
  calculate_force_switch_F :: "NBParamGpu \<Rightarrow> Float2 \<Rightarrow> float \<Rightarrow> float \<Rightarrow> float \<Rightarrow> float"
  calculate_force_switch_F_E ::
    "NBParamGpu \<Rightarrow> Float2 \<Rightarrow> float \<Rightarrow> float \<Rightarrow> float \<Rightarrow> float \<Rightarrow> float \<times> float"
  calculate_lj_ewald_comb_geom_F ::
    "NBParamGpu \<Rightarrow> int \<Rightarrow> int \<Rightarrow> float \<Rightarrow> float \<Rightarrow> float \<Rightarrow> float \<Rightarrow> float \<Rightarrow> float"
  calculate_lj_ewald_comb_geom_F_E ::
    "NBParamGpu \<Rightarrow> int \<Rightarrow> int \<Rightarrow> float \<Rightarrow> float \<Rightarrow> float \<Rightarrow> float \<Rightarrow> float \<Rightarrow> float \<Rightarrow> float
     \<Rightarrow> float \<times> float"
  calculate_lj_ewald_comb_LB_F_E ::
    "NBParamGpu \<Rightarrow> int \<Rightarrow> int \<Rightarrow> float \<Rightarrow> float \<Rightarrow> float \<Rightarrow> float \<Rightarrow> float \<Rightarrow> float
     \<Rightarrow> float option \<Rightarrow> float \<times> float option"
  calculate_potential_switch_F :: "NBParamGpu \<Rightarrow> float \<Rightarrow> float \<Rightarrow> float \<Rightarrow> float \<Rightarrow> float"
  calculate_potential_switch_F_E ::
    "NBParamGpu \<Rightarrow> float \<Rightarrow> float \<Rightarrow> float \<Rightarrow> float \<Rightarrow> float \<times> float"

text \<open>
  The kernel's arguments.  The device arrays are borrowed views that the kernel reads by
  index; \<^verbatim>\<open>pl_sci\<close> is the sorted list when there is one.
\<close>

record kernel_args =
  k_xq :: "int \<Rightarrow> float4"
  k_atom_types :: "int \<Rightarrow> int"
  k_lj_comb :: "int \<Rightarrow> Float2"
  k_shift_vec :: "int \<Rightarrow> float3"
  k_ntypes :: int
  k_nbparam :: NBParamGpu
  pl_sci :: "nat \<Rightarrow> nbnxn_sci_t"
  pl_cj4 :: "int \<Rightarrow> nbnxn_cj4_t"
  k_excl :: "int \<Rightarrow> nbnxn_excl_t"
  bCalcFshift :: bool

subsection \<open>One atom pair\<close>

text \<open>
  A thread is the pair of \<^verbatim>\<open>tidxi\<close> and \<^verbatim>\<open>tidxj\<close>; it owns atom \<^verbatim>\<open>tidxi\<close> of each i-cluster
  and atom \<^verbatim>\<open>tidxj\<close> of the j-cluster.  The shared buffers hold what the threads loaded
  before the barrier: the i-atoms' negated and shifted positions with the scaled charge,
  their types and their combination parameters.
\<close>

definition xqib :: "kernel_constants \<Rightarrow> kernel_args \<Rightarrow> nbnxn_sci_t \<Rightarrow> nat \<Rightarrow> nat \<Rightarrow> float4" where
  "xqib kc args nb_sci tj ti =
     (let ci = sci nb_sci * int (c_nbnxnGpuNumClusterPerSupercluster kc) + int tj;
          ai = ci * int (c_clSize kc) + int ti;
          shiftv = k_shift_vec args (shift nb_sci);
          xqbuf = k_xq args ai
      in \<lparr>f4_x = - (f4_x xqbuf + f3_x shiftv),
          f4_y = - (f4_y xqbuf + f3_y shiftv),
          f4_z = - (f4_z xqbuf + f3_z shiftv),
          f4_w = f4_w xqbuf * epsfac (k_nbparam args)\<rparr>)"

definition atom_index_i :: "kernel_constants \<Rightarrow> nbnxn_sci_t \<Rightarrow> nat \<Rightarrow> nat \<Rightarrow> int" where
  "atom_index_i kc nb_sci i ti =
     (sci nb_sci * int (c_nbnxnGpuNumClusterPerSupercluster kc) + int i) * int (c_clSize kc)
       + int ti"

definition atib :: "kernel_constants \<Rightarrow> kernel_args \<Rightarrow> nbnxn_sci_t \<Rightarrow> nat \<Rightarrow> nat \<Rightarrow> int" where
  "atib kc args nb_sci tj ti = k_atom_types args (atom_index_i kc nb_sci tj ti)"

definition ljcpib :: "kernel_constants \<Rightarrow> kernel_args \<Rightarrow> nbnxn_sci_t \<Rightarrow> nat \<Rightarrow> nat \<Rightarrow> Float2" where
  "ljcpib kc args nb_sci tj ti = k_lj_comb args (atom_index_i kc nb_sci tj ti)"

definition atom_index_j :: "kernel_constants \<Rightarrow> int \<Rightarrow> nat \<Rightarrow> int" where
  "atom_index_j kc cj0 tj = cj0 * int (c_clSize kc) + int tj"

text \<open>
  The distance vector of the pair of atom \<open>ti\<close> of i-cluster \<open>i\<close> and atom \<open>tj\<close> of
  j-cluster \<open>cj0\<close> (\<^verbatim>\<open>xi + xj\<close>, with the sign in the preload), and its squared length.
\<close>

definition pair_rv ::
  "kernel_constants \<Rightarrow> kernel_args \<Rightarrow> nbnxn_sci_t \<Rightarrow> int \<Rightarrow> nat \<Rightarrow> nat \<times> nat \<Rightarrow> fast_float3" where
  "pair_rv kc args nb_sci cj0 i lane =
     (let xi = make_fast_float3_4 (xqib kc args nb_sci i (fst lane));
          xj = make_fast_float3_4 (k_xq args (atom_index_j kc cj0 (snd lane)))
      in ff3_add xi xj)"

definition pair_r2 ::
  "kernel_constants \<Rightarrow> kernel_args \<Rightarrow> nbnxn_sci_t \<Rightarrow> int \<Rightarrow> nat \<Rightarrow> nat \<times> nat \<Rightarrow> float" where
  "pair_r2 kc args nb_sci cj0 i lane = norm2_fast (pair_rv kc args nb_sci cj0 i lane)"

text \<open>The exclusion bit of the pair, as a float: \<^verbatim>\<open>(wexcl >> (jm * 8 + i)) & 1\<close>.\<close>

definition int_bit_of :: "kernel_constants \<Rightarrow> 32 word \<Rightarrow> nat \<Rightarrow> nat \<Rightarrow> float" where
  "int_bit_of kc wexcl jm i =
     (if drop_bit (jm * c_nbnxnGpuNumClusterPerSupercluster kc + i) wexcl AND 1 = 1
      then 1 else 0)"

definition nonSelfInteraction :: "kernel_constants \<Rightarrow> nbnxn_sci_t \<Rightarrow> nat \<times> nat \<Rightarrow> bool" where
  "nonSelfInteraction kc nb_sci lane =
     (\<not> (shift nb_sci = c_centralShiftIndex kc \<and> snd lane \<le> fst lane))"

text \<open>
  The cut-off and exclusion check.  With exclusion forces the pair passes inside the
  cut-off unless it is a pair of a cluster with itself that is to be skipped; without them
  the truth value of the comparison is multiplied by the exclusion bit, and the pair passes
  when the product is not zero.
\<close>

definition cutoff_and_exclusion_check ::
  "kernel_constants \<Rightarrow> kernel_flavour \<Rightarrow> kernel_args \<Rightarrow> nbnxn_sci_t \<Rightarrow> int \<Rightarrow> nat \<Rightarrow> 32 word
   \<Rightarrow> nat \<Rightarrow> nat \<times> nat \<Rightarrow> bool" where
  "cutoff_and_exclusion_check kc fl args nb_sci cj0 jm wexcl i lane =
     (let ci = sci nb_sci * int (c_nbnxnGpuNumClusterPerSupercluster kc) + int i;
          r2 = pair_r2 kc args nb_sci cj0 i lane;
          int_bit = int_bit_of kc wexcl jm i
      in if EXCLUSION_FORCES fl
         then r2 < rcoulomb_sq (k_nbparam args)
              \<and> ci \<noteq> (if nonSelfInteraction kc nb_sci lane then - 1 else cj0)
         else float_neq ((if r2 < rcoulomb_sq (k_nbparam args) then 1 else 0) * int_bit) 0)"

text \<open>
  The body of the check computes, for a pair that passed, the scalar \<^verbatim>\<open>F_invr\<close> and the
  two energy terms of the pair.  It is split where the source clamps the squared distance:
  \<^verbatim>\<open>r2 = fmax(r2, c_nbnxnMinDistanceSquared)\<close> replaces \<^verbatim>\<open>r2\<close>, and everything that depends
  on the distance comes after and sees the clamped value; the parameter loads that precede
  the clamp in the source do not read \<^verbatim>\<open>r2\<close>.
\<close>

definition pair_after_clamp ::
  "kernel_constants \<Rightarrow> kernel_utils \<Rightarrow> kernel_flavour \<Rightarrow> NBParamGpu \<Rightarrow> int
   \<Rightarrow> float \<Rightarrow> float \<Rightarrow> int \<Rightarrow> int \<Rightarrow> Float2 \<Rightarrow> Float2 \<Rightarrow> float \<Rightarrow> float
   \<Rightarrow> float \<times> float \<times> float" where
  "pair_after_clamp kc ku fl nbp ntypes qi qj_f typei typej ljcp_i ljcp_j r2 int_bit =
     (let sigma = fst ljcp_i + fst ljcp_j;
          epsilon = snd ljcp_i * snd ljcp_j;
          c6c12 =
            (if \<not> LJ_COMB fl then fetch_nbfp_c6_c12 ku nbp (ntypes * typei + typej)
             else if LJ fl = LJ_COMB_GEOM
             then (fst ljcp_i * fst ljcp_j, snd ljcp_i * snd ljcp_j)
             else convert_sigma_epsilon_to_c6_c12 ku sigma epsilon);
          inv_r = frsqrt ku r2;
          inv_r2 = inv_r * inv_r;
          lje_coeff2 = ewaldcoeff_lj nbp * ewaldcoeff_lj nbp;
          lje_coeff6_6 = lje_coeff2 * lje_coeff2 * lje_coeff2 * c_oneSixth kc;
          (F1, E1) =
            (if LJ fl \<noteq> LJ_COMB_LB \<or> CALC_ENERGIES fl
             then
               let inv_r6_0 = inv_r2 * inv_r2 * inv_r2;
                   inv_r6 = (if EXCLUSION_FORCES fl then inv_r6_0 * int_bit else inv_r6_0)
               in (inv_r6 * (snd c6c12 * inv_r6 - fst c6c12) * inv_r2,
                   int_bit
                   * (snd c6c12 * (inv_r6 * inv_r6 + repulsion_shift_cpot nbp)
                        * c_oneTwelveth kc
                      - fst c6c12 * (inv_r6 + dispersion_shift_cpot nbp) * c_oneSixth kc))
             else
               let sig_r = sigma * inv_r;
                   sig_r2 = sig_r * sig_r;
                   sig_r6_0 = sig_r2 * sig_r2 * sig_r2;
                   sig_r6 = (if EXCLUSION_FORCES fl then sig_r6_0 * int_bit else sig_r6_0)
               in (epsilon * sig_r6 * (sig_r6 - 1) * inv_r2, 0));
          (F2, E2) =
            (if LJ fl = LJ_FORCE_SWITCH
             then (if CALC_ENERGIES fl
                   then calculate_force_switch_F_E ku nbp c6c12 inv_r r2 F1 E1
                   else (calculate_force_switch_F ku nbp c6c12 inv_r r2 F1, E1))
             else (F1, E1));
          (F3, E3) =
            (if LJ fl = LJ_EWALD_COMB_GEOM
             then (if CALC_ENERGIES fl
                   then calculate_lj_ewald_comb_geom_F_E ku nbp typei typej r2 inv_r2
                          lje_coeff2 lje_coeff6_6 int_bit F2 E2
                   else (calculate_lj_ewald_comb_geom_F ku nbp typei typej r2 inv_r2
                           lje_coeff2 lje_coeff6_6 F2, E2))
             else if LJ fl = LJ_EWALD_COMB_LB
             then (let (F, E) =
                         (if CALC_ENERGIES fl
                          then calculate_lj_ewald_comb_LB_F_E ku nbp typei typej r2 inv_r2
                                 lje_coeff2 lje_coeff6_6 int_bit F2 (Some E2)
                          else calculate_lj_ewald_comb_LB_F_E ku nbp typei typej r2 inv_r2
                                 lje_coeff2 lje_coeff6_6 0 F2 None)
                   in (F, case E of None \<Rightarrow> E2 | Some e \<Rightarrow> e))
             else (F2, E2));
          (F4, E4) =
            (if LJ fl = LJ_POT_SWITCH
             then (if CALC_ENERGIES fl
                   then calculate_potential_switch_F_E ku nbp inv_r r2 F3 E3
                   else (calculate_potential_switch_F ku nbp inv_r r2 F3 E3, E3))
             else (F3, E3));
          vdw_in_range = (if r2 < rvdw_sq nbp then 1 else 0);
          F5 = (if VDW_CUTOFF_CHECK fl then F4 * vdw_in_range else F4);
          E_lj_p = (if VDW_CUTOFF_CHECK fl \<and> CALC_ENERGIES fl then E4 * vdw_in_range else E4);
          beta2 = ewald_beta nbp * ewald_beta nbp;
          beta3 = ewald_beta nbp * ewald_beta nbp * ewald_beta nbp;
          F_invr =
            (case EL fl of
               EL_CUTOFF \<Rightarrow>
                 (if EXCLUSION_FORCES fl then F5 + qi * qj_f * int_bit * inv_r2 * inv_r
                  else F5 + qi * qj_f * inv_r2 * inv_r)
             | EL_RF \<Rightarrow> F5 + qi * qj_f * (int_bit * inv_r2 * inv_r - two_k_rf nbp)
             | EL_EWALD_ANA \<Rightarrow>
                 F5 + qi * qj_f * (int_bit * inv_r2 * inv_r + pmecorrF ku (beta2 * r2) * beta3)
             | EL_EWALD_TAB \<Rightarrow>
                 F5 + qi * qj_f
                      * (int_bit * inv_r2 - interpolate_coulomb_force_r ku nbp (r2 * inv_r))
                      * inv_r);
          E_el_p =
            (case EL fl of
               EL_CUTOFF \<Rightarrow> qi * qj_f * (int_bit * inv_r - c_rf nbp)
             | EL_RF \<Rightarrow>
                 qi * qj_f
                 * (int_bit * inv_r + Finite (1 / 2) * two_k_rf nbp * r2 - c_rf nbp)
             | EL_EWALD_ANA \<Rightarrow>
                 qi * qj_f
                 * (inv_r * (int_bit - erff ku (r2 * inv_r * ewald_beta nbp))
                    - int_bit * sh_ewald nbp)
             | EL_EWALD_TAB \<Rightarrow>
                 qi * qj_f
                 * (inv_r * (int_bit - erff ku (r2 * inv_r * ewald_beta nbp))
                    - int_bit * sh_ewald nbp))
      in (F_invr, E_lj_p, E_el_p))"

definition pair_interaction ::
  "kernel_constants \<Rightarrow> kernel_utils \<Rightarrow> kernel_flavour \<Rightarrow> NBParamGpu \<Rightarrow> int
   \<Rightarrow> float \<Rightarrow> float \<Rightarrow> int \<Rightarrow> int \<Rightarrow> Float2 \<Rightarrow> Float2 \<Rightarrow> float \<Rightarrow> float
   \<Rightarrow> float \<times> float \<times> float" where
  "pair_interaction kc ku fl nbp ntypes qi qj_f typei typej ljcp_i ljcp_j r2 int_bit =
     pair_after_clamp kc ku fl nbp ntypes qi qj_f typei typej ljcp_i ljcp_j
       (fmax r2 (c_nbnxnMinDistanceSquared kc)) int_bit"

text \<open>The pair's scalars from the thread's data, and the force vector \<^verbatim>\<open>f_ij = rv * F_invr\<close>.\<close>

definition pair_scalars ::
  "kernel_constants \<Rightarrow> kernel_utils \<Rightarrow> kernel_flavour \<Rightarrow> kernel_args \<Rightarrow> nbnxn_sci_t \<Rightarrow> int
   \<Rightarrow> nat \<Rightarrow> 32 word \<Rightarrow> nat \<Rightarrow> nat \<times> nat \<Rightarrow> float \<times> float \<times> float" where
  "pair_scalars kc ku fl args nb_sci cj0 jm wexcl i lane =
     pair_interaction kc ku fl (k_nbparam args) (k_ntypes args)
       (f4_w (xqib kc args nb_sci i (fst lane)))
       (f4_w (k_xq args (atom_index_j kc cj0 (snd lane))))
       (atib kc args nb_sci i (fst lane))
       (k_atom_types args (atom_index_j kc cj0 (snd lane)))
       (ljcpib kc args nb_sci i (fst lane))
       (k_lj_comb args (atom_index_j kc cj0 (snd lane)))
       (pair_r2 kc args nb_sci cj0 i lane)
       (int_bit_of kc wexcl jm i)"

definition pair_f_ij ::
  "kernel_constants \<Rightarrow> kernel_utils \<Rightarrow> kernel_flavour \<Rightarrow> kernel_args \<Rightarrow> nbnxn_sci_t \<Rightarrow> int
   \<Rightarrow> nat \<Rightarrow> 32 word \<Rightarrow> nat \<Rightarrow> nat \<times> nat \<Rightarrow> fast_float3" where
  "pair_f_ij kc ku fl args nb_sci cj0 jm wexcl i lane =
     ff3_scale (pair_rv kc args nb_sci cj0 i lane)
       (fst (pair_scalars kc ku fl args nb_sci cj0 jm wexcl i lane))"

subsection \<open>One thread: the loop over the i-clusters\<close>

text \<open>
  The registers of a thread that live across the loops: the interaction mask and the
  exclusion word of the current cj4 entry, the j-force and i-force accumulators and the
  energy sums.
\<close>

record regs =
  r_imask :: "32 word"
  r_wexcl :: "32 word"
  r_fcj_buf :: fast_float3
  r_fci_buf :: "fast_float3 list"
  r_E_lj :: float
  r_E_el :: float

definition lanes :: "kernel_constants \<Rightarrow> (nat \<times> nat) list" where
  "lanes kc =
     concat (map (\<lambda>tj. map (\<lambda>ti. (ti, tj)) [0..<c_clSize kc]) [0..<c_clSize kc])"

definition tidx_of :: "kernel_constants \<Rightarrow> nat \<times> nat \<Rightarrow> nat" where
  "tidx_of kc lane = snd lane * c_clSize kc + fst lane"

definition widx_of :: "kernel_constants \<Rightarrow> nat \<times> nat \<Rightarrow> nat" where
  "widx_of kc lane =
     (if c_clSize kc * c_clSize kc = warpSize kc then 0 else tidx_of kc lane div c_subWarp kc)"

text \<open>
  Modelled from the spec: the warp vote \<^verbatim>\<open>__nb_any\<close> is not in the sources (the kernel's
  comment: "If none of the atoms pairs are in cutoff range, the bit corresponding to the
  current cluster-pair in imask gets set to 0").  It is true when the predicate holds on
  some thread of the caller's warp.
\<close>

definition nb_any :: "kernel_constants \<Rightarrow> nat \<times> nat \<Rightarrow> (nat \<times> nat \<Rightarrow> bool) \<Rightarrow> bool" where
  "nb_any kc lane P = list_ex (\<lambda>l. widx_of kc l = widx_of kc lane \<and> P l) (lanes kc)"

text \<open>
  One pass of the loop over \<open>i\<close>, for one thread: the state is the registers and the
  mask bit \<^verbatim>\<open>mask_ji\<close>.
\<close>

definition i_iter ::
  "kernel_constants \<Rightarrow> kernel_utils \<Rightarrow> kernel_flavour \<Rightarrow> kernel_args \<Rightarrow> nbnxn_sci_t
   \<Rightarrow> nat \<times> nat \<Rightarrow> int \<Rightarrow> nat \<Rightarrow> nat \<Rightarrow> regs \<times> 32 word \<Rightarrow> regs \<times> 32 word" where
  "i_iter kc ku fl args nb_sci lane cj0 jm i s =
     (let rg = fst s; mask_ji = snd s in
      if r_imask rg AND mask_ji \<noteq> 0
      then
        let rg1 =
              (if PRUNE_NBL fl
                  \<and> \<not> nb_any kc lane
                        (\<lambda>l. pair_r2 kc args nb_sci cj0 i l < rlistOuter_sq (k_nbparam args))
               then rg\<lparr>r_imask := r_imask rg AND NOT mask_ji\<rparr>
               else rg);
            rg2 =
              (if cutoff_and_exclusion_check kc fl args nb_sci cj0 jm (r_wexcl rg) i lane
               then
                 let sc = pair_scalars kc ku fl args nb_sci cj0 jm (r_wexcl rg) i lane;
                     f_ij = pair_f_ij kc ku fl args nb_sci cj0 jm (r_wexcl rg) i lane
                 in rg1
                    \<lparr>r_fcj_buf := ff3_add (r_fcj_buf rg1) f_ij,
                     r_fci_buf := (r_fci_buf rg1)[i := ff3_sub (r_fci_buf rg1 ! i) f_ij],
                     r_E_lj := (if CALC_ENERGIES fl then r_E_lj rg1 + fst (snd sc)
                                else r_E_lj rg1),
                     r_E_el := (if CALC_ENERGIES fl then r_E_el rg1 + snd (snd sc)
                                else r_E_el rg1)\<rparr>
               else rg1)
        in (rg2, mask_ji + mask_ji)
      else (rg, mask_ji + mask_ji))"

definition superClInteractionMask :: "kernel_constants \<Rightarrow> 32 word" where
  "superClInteractionMask kc = push_bit (c_nbnxnGpuNumClusterPerSupercluster kc) 1 - 1"

definition maskSet :: "kernel_constants \<Rightarrow> 32 word \<Rightarrow> nat \<Rightarrow> bool" where
  "maskSet kc imask0 jm =
     (imask0 AND push_bit (jm * c_nbnxnGpuNumClusterPerSupercluster kc)
                   (superClInteractionMask kc) \<noteq> 0)"

text \<open>
  One pass of the loop over \<open>jm\<close>, for one thread, up to the reduction of the j-forces:
  when no bit of the j-cluster is set the pass is skipped; otherwise the j-force
  accumulator is zeroed and the loop over \<open>i\<close> runs.
\<close>

definition jm_pass ::
  "kernel_constants \<Rightarrow> kernel_utils \<Rightarrow> kernel_flavour \<Rightarrow> kernel_args \<Rightarrow> nbnxn_sci_t
   \<Rightarrow> nbnxn_cj4_t \<Rightarrow> nat \<Rightarrow> nat \<times> nat \<Rightarrow> regs \<Rightarrow> regs" where
  "jm_pass kc ku fl args nb_sci cj4e jm lane rg =
     (if maskSet kc (r_imask rg) jm
      then fst (foldl (\<lambda>s i. i_iter kc ku fl args nb_sci lane (cj cj4e ! jm) jm i s)
                  (rg\<lparr>r_fcj_buf := make_fast_float3 0\<rparr>,
                   push_bit (jm * c_nbnxnGpuNumClusterPerSupercluster kc) 1)
                  [0..<c_nbnxnGpuNumClusterPerSupercluster kc])
      else rg)"

subsection \<open>The thread block\<close>

text \<open>
  The threads of a block run the same loops; the sources make every trip count and every
  condition but the innermost check uniform over a warp.  The state of the block is the
  registers of every thread and the global memory the kernel writes: the forces, the shift
  forces and the masks of the cj4 entries.
\<close>

record block_state =
  b_regs :: "nat \<times> nat \<Rightarrow> regs"
  g_f :: "int \<Rightarrow> float3"
  g_fShift :: "int \<Rightarrow> float3"
  g_cj4 :: "int \<Rightarrow> nbnxn_cj4_t"

definition component :: "nat \<Rightarrow> fast_float3 \<Rightarrow> float" where
  "component c v = (if c = 0 then ff3_x v else if c = 1 then ff3_y v else ff3_z v)"

text \<open>
  Modelled from the spec: \<^verbatim>\<open>atomic_add_force\<close>, \<^verbatim>\<open>reduce_force_j_warp_shfl\<close> and
  \<^verbatim>\<open>reduce_force_i_warp_shfl\<close> are not in the sources ("reduce the j-force accumulator
  across the lanes of the execution sub-group handling that j-cluster's 3 spatial
  components, and atomically add the reduced result into the global per-atom force
  buffer"; "reduce each i-cluster's force accumulator across its sub-group").  A reduction
  hands to the thread with \<^verbatim>\<open>tidxi = c\<close>, for \<open>c\<close> below 3, component \<open>c\<close> of the sum;
  the sum is taken here in the order of the lanes.
\<close>

definition atomic_add_force :: "(int \<Rightarrow> float3) \<Rightarrow> int \<Rightarrow> nat \<Rightarrow> float \<Rightarrow> (int \<Rightarrow> float3)" where
  "atomic_add_force f a c r =
     f(a := (if c = 0 then (f a)\<lparr>f3_x := f3_x (f a) + r\<rparr>
             else if c = 1 then (f a)\<lparr>f3_y := f3_y (f a) + r\<rparr>
             else (f a)\<lparr>f3_z := f3_z (f a) + r\<rparr>))"

definition reduce_sum :: "float list \<Rightarrow> float" where
  "reduce_sum xs = (case xs of [] \<Rightarrow> 0 | x # rest \<Rightarrow> foldl (+) x rest)"

definition reduce_force_j_warp_shfl ::
  "kernel_constants \<Rightarrow> (nat \<times> nat \<Rightarrow> fast_float3) \<Rightarrow> nat \<times> nat \<Rightarrow> float" where
  "reduce_force_j_warp_shfl kc fcj_buf lane =
     reduce_sum (map (\<lambda>ti. component (fst lane) (fcj_buf (ti, snd lane))) [0..<c_clSize kc])"

definition reduce_force_i_warp_shfl ::
  "kernel_constants \<Rightarrow> (nat \<times> nat \<Rightarrow> fast_float3) \<Rightarrow> nat \<times> nat \<Rightarrow> float" where
  "reduce_force_i_warp_shfl kc fci_buf_i lane =
     reduce_sum (map (\<lambda>tj. component (fst lane) (fci_buf_i (snd lane, tj))) [0..<c_clSize kc])"

text \<open>
  One pass of the loop over \<open>jm\<close> for the block: every thread makes its pass, then each
  thread with \<^verbatim>\<open>tidxi < 3\<close> that was not skipped adds its component of the reduced j-force
  to the force of its j-atom.
\<close>

definition block_jm ::
  "kernel_constants \<Rightarrow> kernel_utils \<Rightarrow> kernel_flavour \<Rightarrow> kernel_args \<Rightarrow> nbnxn_sci_t
   \<Rightarrow> nbnxn_cj4_t \<Rightarrow> block_state \<Rightarrow> nat \<Rightarrow> block_state" where
  "block_jm kc ku fl args nb_sci cj4e st jm =
     (let regs' = (\<lambda>lane. jm_pass kc ku fl args nb_sci cj4e jm lane (b_regs st lane));
          f' = foldl
                 (\<lambda>f lane.
                    if maskSet kc (r_imask (b_regs st lane)) jm \<and> fst lane < 3
                    then atomic_add_force f (atom_index_j kc (cj cj4e ! jm) (snd lane)) (fst lane)
                           (reduce_force_j_warp_shfl kc (\<lambda>l. r_fcj_buf (regs' l)) lane)
                    else f)
                 (g_f st) (lanes kc)
      in st\<lparr>b_regs := regs', g_f := f'\<rparr>)"

text \<open>
  One pass of the loop over the cj4 entries for the block.  Each thread loads the mask of
  its warp; without pruning a thread whose mask is zero skips the entry.  With pruning the
  mask is written back after the loop over \<open>jm\<close>.
\<close>

definition load_cj4 ::
  "kernel_constants \<Rightarrow> kernel_flavour \<Rightarrow> kernel_args \<Rightarrow> nbnxn_cj4_t \<Rightarrow> nat \<times> nat \<Rightarrow> regs \<Rightarrow> regs" where
  "load_cj4 kc fl args cj4e lane rg =
     (let imask0 = imask (imei cj4e ! widx_of kc lane) in
      if \<not> PRUNE_NBL fl \<and> imask0 = 0
      then rg\<lparr>r_imask := imask0\<rparr>
      else rg\<lparr>r_imask := imask0,
              r_wexcl := pair (k_excl args (excl_ind (imei cj4e ! widx_of kc lane)))
                           ! unat ((of_nat (tidx_of kc lane) :: 32 word)
                                     AND (of_nat (c_subWarp kc) - 1))\<rparr>)"

definition store_imask :: "kernel_constants \<Rightarrow> (nat \<times> nat \<Rightarrow> regs) \<Rightarrow> nbnxn_cj4_t \<Rightarrow> nbnxn_cj4_t" where
  "store_imask kc rgs cj4e =
     foldl (\<lambda>e lane. e\<lparr>imei := (imei e)[widx_of kc lane :=
                                   (imei e ! widx_of kc lane)\<lparr>imask := r_imask (rgs lane)\<rparr>]\<rparr>)
       cj4e (lanes kc)"

definition block_j4 ::
  "kernel_constants \<Rightarrow> kernel_utils \<Rightarrow> kernel_flavour \<Rightarrow> kernel_args \<Rightarrow> nbnxn_sci_t
   \<Rightarrow> block_state \<Rightarrow> int \<Rightarrow> block_state" where
  "block_j4 kc ku fl args nb_sci st j4 =
     (let cj4e = g_cj4 st j4;
          st1 = st\<lparr>b_regs := (\<lambda>lane. load_cj4 kc fl args cj4e lane (b_regs st lane))\<rparr>;
          st2 = foldl (block_jm kc ku fl args nb_sci cj4e) st1
                  [0..<c_nbnxnGpuJgroupSize kc]
      in if PRUNE_NBL fl
         then st2\<lparr>g_cj4 := (g_cj4 st2)(j4 := store_imask kc (b_regs st2) cj4e)\<rparr>
         else st2)"

text \<open>
  The self-interaction energies that a thread adds before the loops, for the diagonal
  super-cluster of the central shift: the sum of the squared scaled charges and, with
  LJ-Ewald, of the diagonal C6 parameters, each divided over the j-threads and scaled.
\<close>

definition self_energies ::
  "kernel_constants \<Rightarrow> kernel_utils \<Rightarrow> kernel_flavour \<Rightarrow> kernel_args \<Rightarrow> nbnxn_sci_t
   \<Rightarrow> nat \<times> nat \<Rightarrow> float \<times> float" where
  "self_energies kc ku fl args nb_sci lane =
     (let nbp = k_nbparam args;
          ncl = c_nbnxnGpuNumClusterPerSupercluster kc;
          lje_coeff2 = ewaldcoeff_lj nbp * ewaldcoeff_lj nbp;
          lje_coeff6_6 = lje_coeff2 * lje_coeff2 * lje_coeff2 * c_oneSixth kc
      in if CALC_ENERGIES fl \<and> EXCLUSION_FORCES fl
            \<and> shift nb_sci = c_centralShiftIndex kc
            \<and> cj (pl_cj4 args (cj4_ind_start nb_sci)) ! 0 = sci nb_sci * int ncl
         then
           let E_el0 = foldl (\<lambda>e i. e + f4_w (xqib kc args nb_sci i (fst lane))
                                        * f4_w (xqib kc args nb_sci i (fst lane)))
                         0 [0..<ncl];
               E_lj0 = (if LJ_EWALD fl
                        then foldl (\<lambda>e i. e + fst (fetch_nbfp_c6_c12 ku nbp
                                                     (atib kc args nb_sci i (fst lane)
                                                      * (k_ntypes args + 1))))
                               0 [0..<ncl]
                        else 0);
               E_lj1 = (if LJ_EWALD fl
                        then E_lj0 / Finite (real (c_clSize kc * NTHREAD_Z))
                             * (Finite (1 / 2) * c_oneSixth kc * lje_coeff6_6)
                        else E_lj0);
               E_el1 = E_el0 / (epsfac nbp * Finite (real (c_clSize kc))
                                * Finite (real NTHREAD_Z));
               E_el2 = (if EL fl = EL_RF \<or> EL fl = EL_CUTOFF
                        then E_el1 * (- Finite (1 / 2) * c_rf nbp)
                        else E_el1 * (- ewald_beta nbp * M_FLOAT_1_SQRTPI kc))
           in (E_lj1, E_el2)
         else (0, 0))"

text \<open>
  After the loops: each thread with \<^verbatim>\<open>tidxi < 3\<close> adds its component of the reduced
  i-forces to the forces of the i-atoms and, unless the shift is the central one, its
  component of their sum to the shift force, at the slot of the block.
\<close>

definition reduce_i_forces ::
  "kernel_constants \<Rightarrow> build_constants \<Rightarrow> kernel_args \<Rightarrow> nbnxn_sci_t \<Rightarrow> 32 word
   \<Rightarrow> block_state \<Rightarrow> block_state" where
  "reduce_i_forces kc bc args nb_sci bidx st =
     (let ncl = c_nbnxnGpuNumClusterPerSupercluster kc;
          fci = (\<lambda>lane i. reduce_force_i_warp_shfl kc (\<lambda>l. r_fci_buf (b_regs st l) ! i) lane);
          fshift_buf = (\<lambda>lane. foldl (\<lambda>s i. s + fci lane i) 0 [0..<ncl]);
          f' = foldl
                 (\<lambda>f lane.
                    if fst lane < 3
                    then foldl (\<lambda>f i. atomic_add_force f (atom_index_i kc nb_sci i (snd lane))
                                         (fst lane) (fci lane i))
                           f [0..<ncl]
                    else f)
                 (g_f st) (lanes kc);
          fs' = (if bCalcFshift args \<and> shift nb_sci \<noteq> c_centralShiftIndex kc
                 then foldl
                        (\<lambda>fs lane.
                           if fst lane < 3
                           then atomic_add_force fs
                                  (shift nb_sci + int (unat (shift_index_base bc bidx)))
                                  (fst lane) (fshift_buf lane)
                           else fs)
                        (g_fShift st) (lanes kc)
                 else g_fShift st)
      in st\<lparr>g_f := f', g_fShift := fs'\<rparr>)"

text \<open>
  The kernel, for the block \<open>bidx\<close>: the registers are set up, the loop over the cj4
  entries of the block's super-cluster runs, and the i-forces are reduced.  The result is
  the memory written and the energy sums of the threads, which
  \<^verbatim>\<open>reduce_energy_warp_shfl\<close> adds up into the block's slot when energies are computed.
\<close>

definition nbnxn_kernel ::
  "kernel_constants \<Rightarrow> build_constants \<Rightarrow> kernel_utils \<Rightarrow> kernel_flavour \<Rightarrow> kernel_args
   \<Rightarrow> 32 word \<Rightarrow> (int \<Rightarrow> float3) \<Rightarrow> (int \<Rightarrow> float3) \<Rightarrow> block_state" where
  "nbnxn_kernel kc bc ku fl args bidx f0 fShift0 =
     (let nb_sci = pl_sci args (unat bidx);
          cij4_start = cj4_ind_start nb_sci;
          cij4_end = cj4_ind_start nb_sci + cj4_length nb_sci;
          st0 = \<lparr>b_regs =
                   (\<lambda>lane. \<lparr>r_imask = 0, r_wexcl = 0,
                             r_fcj_buf = make_fast_float3 0,
                             r_fci_buf = replicate (c_nbnxnGpuNumClusterPerSupercluster kc)
                                           (make_fast_float3 0),
                             r_E_lj = fst (self_energies kc ku fl args nb_sci lane),
                             r_E_el = snd (self_energies kc ku fl args nb_sci lane)\<rparr>),
                 g_f = f0, g_fShift = fShift0, g_cj4 = pl_cj4 args\<rparr>;
          st1 = foldl (block_j4 kc ku fl args nb_sci) st0 [cij4_start..cij4_end - 1]
      in reduce_i_forces kc bc args nb_sci bidx st1)"

section \<open>Notions used to state the properties\<close>

text \<open>
  A buffer holds a host array when its leading cells are the array's elements.  A buffer
  agrees with its recorded capacity when it is null for a negative capacity (never
  allocated) and has exactly that many cells otherwise.
\<close>

definition buffer_holds :: "'a DeviceBuffer \<Rightarrow> 'a list \<Rightarrow> bool" where
  "buffer_holds b xs = (take (length xs) (cells b) = map Some xs)"

definition capacity_ok :: "'a DeviceBuffer \<Rightarrow> int \<Rightarrow> bool" where
  "capacity_ok b cap = (if cap < 0 then b = nullptr else length (cells b) = nat cap)"

definition plist_ok :: "gpu_plist \<Rightarrow> bool" where
  "plist_ok pl =
     (capacity_ok (d_sci pl) (sci_nalloc pl) \<and> capacity_ok (d_cj4 pl) (cj4_nalloc pl)
      \<and> capacity_ok (d_imask pl) (imask_nalloc pl) \<and> capacity_ok (d_excl pl) (excl_nalloc pl))"

definition atomdata_ok :: "VdwType \<Rightarrow> NBAtomDataGpu \<Rightarrow> bool" where
  "atomdata_ok vdw a =
     (capacity_ok (d_f a) (numAtomsAlloc a) \<and> capacity_ok (xq a) (numAtomsAlloc a)
      \<and> (if useLjCombRule vdw then capacity_ok (ljComb a) (numAtomsAlloc a)
          else capacity_ok (atomTypes a) (numAtomsAlloc a)))"

text \<open>The answer of \<^verbatim>\<open>haveGpuShortRangeWork\<close> right after \<^verbatim>\<open>setupGpuShortRangeWork\<close>.\<close>

definition work_after_setup ::
  "NbnxmGpu \<Rightarrow> bool option \<Rightarrow> InteractionLocality \<Rightarrow> fatal + bool" where
  "work_after_setup nb listedForcesGpu iloc =
     (case setupGpuShortRangeWork nb listedForcesGpu iloc of
        Inl e \<Rightarrow> Inl e
      | Inr nb' \<Rightarrow> Inr (haveGpuShortRangeWork nb' iloc))"



subsection \<open>Example inputs\<close>

definition bc_example :: build_constants where
  "bc_example =
     \<lparr>over_alloc_small = (\<lambda>n. n + 8), over_alloc_large = (\<lambda>n. n + 4),
      c_nbnxnGpuClusterpairSplit = 1, c_numShiftVectors = 45\<rparr>"

definition nbparam_example :: NBParamGpu where
  "nbparam_example =
     \<lparr>vdwType = VdwCut, elecType = ElecCut, epsfac = Finite 1, rcoulomb_sq = Finite 4,
      rvdw_sq = Finite 4, two_k_rf = Finite 0, ewald_beta = Finite 0, sh_ewald = Finite 0,
      c_rf = Finite 0, rlistOuter_sq = Finite 5, ewaldcoeff_lj = Finite 0,
      repulsion_shift_cpot = Finite 0, dispersion_shift_cpot = Finite 0\<rparr>"

definition nb_fresh :: NbnxmGpu where
  "nb_fresh = gpu_init bc_example nbparam_example 2 False False"

definition env_both :: "string \<Rightarrow> string option" where
  "env_both = [''GMX_GPU_NB_ANA_EWALD'' \<mapsto> ''1'', ''GMX_GPU_NB_TAB_EWALD'' \<mapsto> ''1'']"

definition env_ana :: "string \<Rightarrow> string option" where
  "env_ana = [''GMX_GPU_NB_ANA_EWALD'' \<mapsto> ''1'']"

definition ic_example :: interaction_const_t where
  "ic_example = \<lparr>rcoulomb = Finite 1, rvdw = Finite 1\<rparr>"

definition device_example :: DeviceInformation where
  "device_example = \<lparr>prop_major = 9, prop_minor = 0\<rparr>"

definition h_plist_empty :: NbnxnPairlistGpu where
  "h_plist_empty = \<lparr>na_ci = 8, h_sci = [], h_cj4 = [], h_excl = []\<rparr>"

definition h_plist_one :: NbnxnPairlistGpu where
  "h_plist_one =
     \<lparr>na_ci = 8,
      h_sci = [\<lparr>sci = 0, shift = 22, cj4_ind_start = 0, cj4_length = 1\<rparr>],
      h_cj4 = [\<lparr>cj = [0, 0, 0, 0], imei = [\<lparr>imask = 1, excl_ind = 0\<rparr>]\<rparr>],
      h_excl = [\<lparr>pair = replicate 64 (- 1)\<rparr>]\<rparr>"

definition h_plist_four :: NbnxnPairlistGpu where
  "h_plist_four = h_plist_one\<lparr>na_ci := 4\<rparr>"

definition nb_listed :: NbnxmGpu where
  "nb_listed =
     (case gpu_init_pairlist bc_example nb_fresh h_plist_one Local of
        Inl e \<Rightarrow> nb_fresh
      | Inr nb \<Rightarrow> nb)"

definition nbat_two :: nbnxn_atomdata_t where
  "nbat_two =
     \<lparr>nbat_numAtoms = 2, natoms_local = 2, params_type = [0, 1],
      params_lj_comb = [(Finite 1, Finite 2), (Finite 3, Finite 4)],
      out_f = [None, None]\<rparr>"





text \<open>The part of the kernel's pair test that is not the distance comparison: with exclusion
  forces the pair must not be a self pair of the diagonal, without them its exclusion bit must
  be set.\<close>

definition pair_not_excluded ::
  "kernel_constants \<Rightarrow> kernel_flavour \<Rightarrow> nbnxn_sci_t \<Rightarrow> int \<Rightarrow> nat \<Rightarrow> 32 word \<Rightarrow> nat \<Rightarrow> nat \<times> nat \<Rightarrow> bool"
  where
  "pair_not_excluded kc fl nb_sci cj0 jm wexcl i lane =
     (if EXCLUSION_FORCES fl
      then sci nb_sci * int (c_nbnxnGpuNumClusterPerSupercluster kc) + int i
             \<noteq> (if nonSelfInteraction kc nb_sci lane then - 1 else cj0)
      else int_bit_of kc wexcl jm i = 1)"

subsection \<open>Notions for the forces of a thread block\<close>

text \<open>
  A value is representable when it is an infinity, NaN, zero, or a finite number between
  the underflow and the overflow threshold.  Every result of an operation is representable,
  and zero is neutral for the addition of representable values.
\<close>

definition representable :: "float \<Rightarrow> bool" where
  "representable x =
     (case x of
        Finite r \<Rightarrow> \<bar>r\<bar> < 2 ^ 128 - 2 ^ 103 \<and> (r = 0 \<or> 1 / 2 ^ 150 < \<bar>r\<bar>)
      | _ \<Rightarrow> True)"

definition representable3 :: "float3 \<Rightarrow> bool" where
  "representable3 v = (representable (f3_x v) \<and> representable (f3_y v) \<and> representable (f3_z v))"

text \<open>The negation of a force vector, component by component.\<close>

definition float3_neg :: "float3 \<Rightarrow> float3" where
  "float3_neg v = \<lparr>f3_x = - f3_x v, f3_y = - f3_y v, f3_z = - f3_z v\<rparr>"

text \<open>
  Component \<open>c\<close> of a \<^verbatim>\<open>float3\<close>, and a sequence of \<^verbatim>\<open>atomic_add_force\<close> calls given as the list of
  their arguments.
\<close>

definition f3c :: "nat \<Rightarrow> float3 \<Rightarrow> float" where
  "f3c c v = (if c = 0 then f3_x v else if c = 1 then f3_y v else f3_z v)"

definition apply_adds :: "(int \<Rightarrow> float3) \<Rightarrow> (int \<times> nat \<times> float) list \<Rightarrow> (int \<Rightarrow> float3)" where
  "apply_adds = foldl (\<lambda>f t. atomic_add_force f (fst t) (fst (snd t)) (snd (snd t)))"

text \<open>
  The first \<open>n\<close> passes of the loop over \<open>i\<close> of one thread, and the condition under which the
  pass for \<open>i\<close> accumulates: the bit of the cluster pair is set in the interaction mask and
  the pair passes the cut-off and exclusion check.
\<close>

definition i_loop ::
  "kernel_constants \<Rightarrow> kernel_utils \<Rightarrow> kernel_flavour \<Rightarrow> kernel_args \<Rightarrow> nbnxn_sci_t
   \<Rightarrow> nat \<times> nat \<Rightarrow> int \<Rightarrow> nat \<Rightarrow> regs \<Rightarrow> nat \<Rightarrow> regs \<times> 32 word" where
  "i_loop kc ku fl args nb_sci lane cj0 jm rg n =
     foldl (\<lambda>s i. i_iter kc ku fl args nb_sci lane cj0 jm i s)
       (rg, push_bit (jm * c_nbnxnGpuNumClusterPerSupercluster kc) 1) [0..<n]"

definition pair_hit ::
  "kernel_constants \<Rightarrow> kernel_flavour \<Rightarrow> kernel_args \<Rightarrow> nbnxn_sci_t \<Rightarrow> int \<Rightarrow> nat
   \<Rightarrow> 32 word \<Rightarrow> 32 word \<Rightarrow> nat \<Rightarrow> nat \<times> nat \<Rightarrow> bool" where
  "pair_hit kc fl args nb_sci cj0 jm imask0 wexcl i lane =
     (bit imask0 (jm * c_nbnxnGpuNumClusterPerSupercluster kc + i)
      \<and> cutoff_and_exclusion_check kc fl args nb_sci cj0 jm wexcl i lane)"

text \<open>
  During the loop over \<open>jm\<close> of one cj4 entry the registers of every thread keep the
  exclusion word \<open>W\<close> and, from the bits of \<open>jm\<close> upwards, the interaction mask \<open>M\<close> that were
  loaded for the entry.  The interaction mask is uniform over the threads that share
  \<^verbatim>\<open>tidxj\<close>.
\<close>

definition regs_follow ::
  "kernel_constants \<Rightarrow> nat \<Rightarrow> (nat \<times> nat \<Rightarrow> 32 word) \<Rightarrow> (nat \<times> nat \<Rightarrow> 32 word)
   \<Rightarrow> (nat \<times> nat \<Rightarrow> regs) \<Rightarrow> bool" where
  "regs_follow kc jm M W rgs =
     (\<forall>lane. r_wexcl (rgs lane) = W lane
        \<and> (\<forall>k. jm * c_nbnxnGpuNumClusterPerSupercluster kc \<le> k \<longrightarrow>
               bit (r_imask (rgs lane)) k = bit (M lane) k))"

definition rows_uniform :: "kernel_constants \<Rightarrow> (nat \<times> nat \<Rightarrow> 32 word) \<Rightarrow> bool" where
  "rows_uniform kc M =
     (\<forall>l\<in>set (lanes kc). \<forall>l'\<in>set (lanes kc). snd l = snd l' \<longrightarrow> M l = M l')"

text \<open>
  The state of a block that starts from cleared forces and evaluates the pair of thread
  \<open>lane0\<close> and i-cluster \<open>i0\<close> only: before the pair the force buffer and the i-force
  accumulators are zero; after it the force of the j-atom \<open>aj\<close> is the pair force and the
  accumulator of the thread for \<open>i0\<close> is zero minus the pair force.
\<close>

definition block_matches ::
  "kernel_constants \<Rightarrow> nat \<times> nat \<Rightarrow> nat \<Rightarrow> int \<Rightarrow> fast_float3 \<Rightarrow> bool \<Rightarrow> block_state \<Rightarrow> bool"
  where
  "block_matches kc lane0 i0 aj fij b st =
     (g_f st = (if b then (\<lambda>a. zero_float3)(aj := to_float3 fij) else (\<lambda>a. zero_float3))
      \<and> (\<forall>lane\<in>set (lanes kc).
            r_fci_buf (b_regs st lane)
            = (if b \<and> lane = lane0
               then (replicate (c_nbnxnGpuNumClusterPerSupercluster kc) (make_fast_float3 0))
                      [i0 := ff3_sub (make_fast_float3 0) fij]
               else replicate (c_nbnxnGpuNumClusterPerSupercluster kc) (make_fast_float3 0))))"

text \<open>
  What the kernel evaluates, read off the pair list: the interaction mask and the exclusion
  word that a thread loads for the cj4 entry \<open>j4\<close>, whether the thread accumulates for
  j-cluster \<open>jm\<close> of the entry and i-cluster \<open>i\<close>, and the force of that pair.  The threads
  that share \<^verbatim>\<open>tidxj\<close> lie in one warp when the interaction mask they load is the same.
\<close>

definition imask_word :: "kernel_constants \<Rightarrow> kernel_args \<Rightarrow> int \<Rightarrow> nat \<times> nat \<Rightarrow> 32 word" where
  "imask_word kc args j4 lane = imask (imei (pl_cj4 args j4) ! widx_of kc lane)"

definition excl_word :: "kernel_constants \<Rightarrow> kernel_args \<Rightarrow> int \<Rightarrow> nat \<times> nat \<Rightarrow> 32 word" where
  "excl_word kc args j4 lane =
     pair (k_excl args (excl_ind (imei (pl_cj4 args j4) ! widx_of kc lane)))
       ! unat ((of_nat (tidx_of kc lane) :: 32 word) AND (of_nat (c_subWarp kc) - 1))"

definition pair_evaluated ::
  "kernel_constants \<Rightarrow> kernel_flavour \<Rightarrow> kernel_args \<Rightarrow> nbnxn_sci_t \<Rightarrow> int \<Rightarrow> nat \<Rightarrow> nat
   \<Rightarrow> nat \<times> nat \<Rightarrow> bool" where
  "pair_evaluated kc fl args nb_sci j4 jm i lane =
     pair_hit kc fl args nb_sci (cj (pl_cj4 args j4) ! jm) jm
       (imask_word kc args j4 lane) (excl_word kc args j4 lane) i lane"

definition evaluated_f_ij ::
  "kernel_constants \<Rightarrow> kernel_utils \<Rightarrow> kernel_flavour \<Rightarrow> kernel_args \<Rightarrow> nbnxn_sci_t \<Rightarrow> int
   \<Rightarrow> nat \<Rightarrow> nat \<Rightarrow> nat \<times> nat \<Rightarrow> fast_float3" where
  "evaluated_f_ij kc ku fl args nb_sci j4 jm i lane =
     pair_f_ij kc ku fl args nb_sci (cj (pl_cj4 args j4) ! jm) jm (excl_word kc args j4 lane)
       i lane"

definition rows_in_one_warp :: "kernel_constants \<Rightarrow> bool" where
  "rows_in_one_warp kc =
     (\<forall>l\<in>set (lanes kc). \<forall>l'\<in>set (lanes kc).
        snd l = snd l' \<longrightarrow> widx_of kc l = widx_of kc l')"

text \<open>The cj4 entries of a super-cluster, in the order of the kernel's loop.\<close>

definition cj4_range :: "nbnxn_sci_t \<Rightarrow> int list" where
  "cj4_range nb_sci = [cj4_ind_start nb_sci..cj4_ind_start nb_sci + cj4_length nb_sci - 1]"

subsection \<open>Example kernel inputs\<close>

definition kc_example :: kernel_constants where
  "kc_example =
     \<lparr>c_clSize = 8, c_nbnxnGpuNumClusterPerSupercluster = 8, c_nbnxnGpuJgroupSize = 4,
      warpSize = 64, c_subWarp = 64, c_centralShiftIndex = 22,
      c_nbnxnMinDistanceSquared = Finite (382 / 10 ^ 9),
      c_oneSixth = Finite (1 / 6), c_oneTwelveth = Finite (1 / 12),
      M_FLOAT_1_SQRTPI = Finite (564189583547756 / 10 ^ 15)\<rparr>"

definition ku_example :: kernel_utils where
  "ku_example =
     \<lparr>frsqrt = frsqrt_rn,
      erff = (\<lambda>a. 0),
      pmecorrF = (\<lambda>a. 0),
      interpolate_coulomb_force_r = (\<lambda>p a. 0),
      fetch_nbfp_c6_c12 = (\<lambda>p k. (0, 0)),
      convert_sigma_epsilon_to_c6_c12 = (\<lambda>a b. (0, 0)),
      calculate_force_switch_F = (\<lambda>p c a b F. F),
      calculate_force_switch_F_E = (\<lambda>p c a b F E. (F, E)),
      calculate_lj_ewald_comb_geom_F = (\<lambda>p ti tj a b c d F. F),
      calculate_lj_ewald_comb_geom_F_E = (\<lambda>p ti tj a b c d ib F E. (F, E)),
      calculate_lj_ewald_comb_LB_F_E = (\<lambda>p ti tj a b c d ib F E. (F, E)),
      calculate_potential_switch_F = (\<lambda>p a b F E. F),
      calculate_potential_switch_F_E = (\<lambda>p a b F E. (F, E))\<rparr>"

definition fl_example :: kernel_flavour where
  "fl_example =
     \<lparr>EL = EL_CUTOFF, LJ = LJ_NONE, VDW_CUTOFF_CHECK = False, CALC_ENERGIES = False,
      PRUNE_NBL = False\<rparr>"

definition sci_example :: nbnxn_sci_t where
  "sci_example = \<lparr>sci = 0, shift = 22, cj4_ind_start = 0, cj4_length = 1\<rparr>"

definition args_two_atoms :: kernel_args where
  "args_two_atoms =
     \<lparr>k_xq = (\<lambda>a. if a = 0 then \<lparr>f4_x = 0, f4_y = 0, f4_z = 0, f4_w = 1\<rparr>
                  else if a = 1 then \<lparr>f4_x = 1, f4_y = 0, f4_z = 0, f4_w = - 1\<rparr>
                  else \<lparr>f4_x = Finite (real_of_int a), f4_y = 0, f4_z = 0, f4_w = 0\<rparr>),
      k_atom_types = (\<lambda>a. 0),
      k_lj_comb = (\<lambda>a. (0, 0)),
      k_shift_vec = (\<lambda>k. zero_float3),
      k_ntypes = 1,
      k_nbparam = nbparam_example,
      pl_sci = (\<lambda>k. sci_example),
      pl_cj4 = (\<lambda>k. \<lparr>cj = [0, 0, 0, 0], imei = [\<lparr>imask = 1, excl_ind = 0\<rparr>]\<rparr>),
      k_excl = (\<lambda>k. \<lparr>pair = map (\<lambda>t. if t = 8 then 1 else 0) [0..<64]\<rparr>),
      bCalcFshift = False\<rparr>"

definition regs_example :: regs where
  "regs_example =
     \<lparr>r_imask = 1, r_wexcl = 1, r_fcj_buf = make_fast_float3 0,
      r_fci_buf = replicate 8 (make_fast_float3 0), r_E_lj = 0, r_E_el = 0\<rparr>"

section \<open>Properties of the vector operations\<close>

lemmas float_arith_defs =
  zero_float_def one_float_def plus_float_def minus_float_def uminus_float_def
  times_float_def divide_float_def less_float_def less_eq_float_def

lemmas ff3_defs =
  ff3_x_def ff3_y_def ff3_z_def fast_float3_xyz_def fast_float3_xy_z_def to_float3_def
  ff3_mul_def ff3_scale_def ff3_scale_l_def ff3_add_def ff3_sub_def
  make_fast_float3_def make_fast_float3_4_def norm2_fast_def
  nf2_mul_def nf2_add_def nf2_sub_def nf2_scale_def nf2_scale_l_def

lemmas float3_defs =
  make_float3_def make_float3_s_def make_float3_4_def float3_add_def float3_sub_def
  float3_mul_def float3_scale_def float3_scale_l_def norm2_def

text \<open>
  C10.  The packed operations agree, component by component, with the plain \<^verbatim>\<open>float3\<close>
  ones: addition, subtraction, the elementwise product, the product with a scalar on
  either side, both \<^verbatim>\<open>make_fast_float3\<close> overloads, and \<^verbatim>\<open>norm2\<close>, which is
  \<open>x*x + y*y + z*z\<close> of the components, summed in the same order.
\<close>

theorem fast_float3_refines_float3:
  "to_float3 (ff3_add a b) = float3_add (to_float3 a) (to_float3 b)
   \<and> to_float3 (ff3_sub a b) = float3_sub (to_float3 a) (to_float3 b)
   \<and> to_float3 (ff3_mul a b) = float3_mul (to_float3 a) (to_float3 b)
   \<and> to_float3 (ff3_scale a s) = float3_scale (to_float3 a) s
   \<and> to_float3 (ff3_scale_l s a) = float3_scale_l s (to_float3 a)
   \<and> to_float3 (make_fast_float3 s) = make_float3_s s
   \<and> to_float3 (make_fast_float3_4 q) = make_float3_4 q
   \<and> norm2_fast a = norm2 (to_float3 a)
   \<and> norm2_fast a = ff3_x a * ff3_x a + ff3_y a * ff3_y a + ff3_z a * ff3_z a"
  by (simp add: ff3_defs float3_defs)

section \<open>Properties of \<^verbatim>\<open>cos_angle\<close>\<close>

lemma norm2_zero_vector: "norm2 (make_float3_s 0) = 0"
  by (simp add: norm2_def make_float3_s_def make_float3_def float_arith_defs round_to_float_def)

lemma zero_times_not_positive: "\<not> (0 :: float) < 0 * c" "\<not> (0 :: float) < c * 0"
  by (cases c; simp add: float_arith_defs round_to_float_def)+

text \<open>
  What the two comparisons of the clamp achieve: the result never compares above 1 or below
  -1, so it is NaN or lies in \<open>[-1, 1]\<close>; for a zero vector in either argument it is
  exactly 1.
\<close>

lemma cos_angle_clamp:
  "(cos_angle a b = NaN \<or> (- 1 \<le> cos_angle a b \<and> cos_angle a b \<le> 1))
   \<and> \<not> cos_angle a b > 1
   \<and> \<not> cos_angle a b < - 1
   \<and> cos_angle (make_float3_s 0) b = 1
   \<and> cos_angle a (make_float3_s 0) = 1"
proof -
  define c where
    "c = (if norm2 a * norm2 b > 0 then iprod a b * frsqrt_rn (norm2 a * norm2 b) else 1)"
  have r: "cos_angle a b = (if c > 1 then 1 else if c < - 1 then - 1 else c)"
    by (simp add: cos_angle_def c_def Let_def)
  have "cos_angle a b = NaN \<or> (- 1 \<le> cos_angle a b \<and> cos_angle a b \<le> 1)"
    unfolding r by (cases c) (auto simp: float_arith_defs)
  moreover have "\<not> cos_angle a b > 1" "\<not> cos_angle a b < - 1"
    unfolding r by (cases c; auto simp: float_arith_defs)+
  moreover have "cos_angle (make_float3_s 0) b = 1" "cos_angle a (make_float3_s 0) = 1"
    by (simp_all add: cos_angle_def Let_def norm2_zero_vector zero_times_not_positive)
      (simp_all add: float_arith_defs)
  ultimately show ?thesis by simp
qed

text \<open>
  Where the product of the squared norms underflows the first branch is not taken: for the
  orthogonal vectors \<open>(2^-60, 0, 0)\<close> and \<open>(0, 2^-60, 0)\<close> the squared norms are \<open>2^-120\<close>,
  their product is zero, and the result is 1.
\<close>

lemma cos_angle_underflow:
  "cos_angle (make_float3 (Finite (1 / 2 ^ 60)) 0 0) (make_float3 0 (Finite (1 / 2 ^ 60)) 0) = 1"
  by (simp add: cos_angle_def norm2_def iprod_def make_float3_def float_arith_defs
      round_to_float_def power_divide flip: power_add)

text \<open>
  Claim C9.  The comment of \<^verbatim>\<open>cos_angle\<close> says that the function makes sure that the cosine
  does not leave the interval \<open>[-1, 1]\<close>.  Where a squared norm overflows it does leave it:
  for \<open>a = b = (2^64, 0, 0)\<close> both squared norms and the scalar product are infinite, the
  reciprocal square root of the product of the norms is 0, and \<open>\<infinity> * 0\<close> is NaN, which passes
  both comparisons of the clamp and is returned.
\<close>

theorem cos_angle_overflow_returns_nan:
  "cos_angle (make_float3 (Finite (2 ^ 64)) 0 0) (make_float3 (Finite (2 ^ 64)) 0 0) = NaN
   \<and> \<not> (- 1 \<le> cos_angle (make_float3 (Finite (2 ^ 64)) 0 0) (make_float3 (Finite (2 ^ 64)) 0 0)
         \<and> cos_angle (make_float3 (Finite (2 ^ 64)) 0 0) (make_float3 (Finite (2 ^ 64)) 0 0) \<le> 1)"
  by (simp add: cos_angle_def norm2_def iprod_def make_float3_def float_arith_defs
      round_to_float_def)

section \<open>Properties of the kernel selection\<close>

text \<open>
  C8.  With both \<^verbatim>\<open>GMX_GPU_NB_ANA_EWALD\<close> and \<^verbatim>\<open>GMX_GPU_NB_TAB_EWALD\<close> set, the selection
  of the Ewald kernel ends in the fatal inconsistency error and returns no variant; with
  at most one of them set it returns a variant.
\<close>

theorem pick_ewald_conflicting_overrides:
  "(getenv ''GMX_GPU_NB_ANA_EWALD'' \<noteq> None \<and> getenv ''GMX_GPU_NB_TAB_EWALD'' \<noteq> None
      \<longrightarrow> (\<exists>msg. nbnxn_gpu_pick_ewald_kernel_type backend getenv ic deviceInfo
                  = Inl (Incons msg)))
   \<and> (\<not> (getenv ''GMX_GPU_NB_ANA_EWALD'' \<noteq> None \<and> getenv ''GMX_GPU_NB_TAB_EWALD'' \<noteq> None)
      \<longrightarrow> (\<exists>v. nbnxn_gpu_pick_ewald_kernel_type backend getenv ic deviceInfo = Inr v))"
  by (simp add: nbnxn_gpu_pick_ewald_kernel_type_def Let_def)

theorem pick_ewald_conflicting_overrides_witness:
  "(\<exists>msg. nbnxn_gpu_pick_ewald_kernel_type GMX_GPU_HIP env_both ic_example device_example
           = Inl (Incons msg))
   \<and> (\<exists>v. nbnxn_gpu_pick_ewald_kernel_type GMX_GPU_HIP env_ana ic_example device_example
           = Inr v)"
  using pick_ewald_conflicting_overrides [of env_both GMX_GPU_HIP ic_example device_example]
        pick_ewald_conflicting_overrides [of env_ana GMX_GPU_HIP ic_example device_example]
  by (simp add: env_both_def env_ana_def)

lemma pick_ewald_examples:
  "nbnxn_gpu_pick_ewald_kernel_type GMX_GPU_HIP env_ana ic_example device_example
     = Inr ElecEwaldAna"
  "nbnxn_gpu_pick_ewald_kernel_type GMX_GPU_HIP Map.empty ic_example device_example
     = Inr ElecEwaldTab"
  by (simp_all add: nbnxn_gpu_pick_ewald_kernel_type_def env_ana_def ic_example_def
      float_neq_def)

section \<open>Properties of the device buffers\<close>

lemma copyTo_holds:
  assumes "length xs \<le> length (cells b)"
  shows "buffer_holds (copyToDeviceBuffer b xs 0 (length xs)) xs"
proof (cases b)
  case nullptr
  with assms show ?thesis by (simp add: buffer_holds_def)
next
  case (Buffer cs)
  with assms have le: "length xs \<le> length cs" by simp
  let ?ys = "cells (copyToDeviceBuffer (Buffer cs) xs 0 (length xs))"
  have "take (length xs) ?ys = map Some xs"
  proof (rule nth_equalityI)
    show "length (take (length xs) ?ys) = length (map Some xs)"
      using le by simp
  next
    fix i
    assume "i < length (take (length xs) ?ys)"
    then have i: "i < length xs" by simp
    with le have "i < length cs" by simp
    with i show "take (length xs) ?ys ! i = map Some xs ! i" by simp
  qed
  then show ?thesis by (simp add: buffer_holds_def Buffer)
qed

lemma length_cells_copyTo [simp]:
  "length (cells (copyToDeviceBuffer b xs s n)) = length (cells b)"
  by (cases b) simp_all

lemma copyTo_nullptr_iff [simp]: "copyToDeviceBuffer b xs s n = nullptr \<longleftrightarrow> b = nullptr"
  by (cases b) simp_all

lemma cells_clear_all:
  "cells (clearDeviceBufferAsync z (allocateDeviceBuffer n) 0 n) = replicate n (Some z)"
  by (rule nth_equalityI) (simp_all add: allocateDeviceBuffer_def)

lemma capacity_ok_copy: "capacity_ok b cap \<Longrightarrow> capacity_ok (copyToDeviceBuffer b xs s n) cap"
  by (simp add: capacity_ok_def)

lemma capacity_ok_clear:
  "capacity_ok b cap \<Longrightarrow> capacity_ok (clearDeviceBufferAsync z b s n) cap"
  by (cases b) (auto simp: capacity_ok_def split: if_splits)

lemma capacity_ok_alloc: "0 \<le> cap \<Longrightarrow> capacity_ok (allocateDeviceBuffer (nat cap)) cap"
  by (simp add: capacity_ok_def allocateDeviceBuffer_def)

lemma realloc_capacity:
  assumes "capacity_ok b cap" "\<forall>n. n \<le> oal n"
    "reallocateDeviceBuffer oal b n cap = (b', n', cap')"
  shows "capacity_ok b' cap' \<and> n \<le> length (cells b') \<and> n' = int n \<and> cap \<le> cap'"
proof (cases "int n > cap")
  case True
  with assms(3) have e: "b' = allocateDeviceBuffer (oal n)" "n' = int n" "cap' = int (oal n)"
    by (simp_all add: reallocateDeviceBuffer_def)
  have "n \<le> oal n" using assms(2) by simp
  with True show ?thesis
    unfolding e by (simp add: capacity_ok_def allocateDeviceBuffer_def)
next
  case False
  with assms(3) have e: "b' = b" "n' = int n" "cap' = cap"
    by (simp_all add: reallocateDeviceBuffer_def)
  from False have "0 \<le> cap" "n \<le> nat cap" by linarith+
  with assms(1) show ?thesis
    unfolding e by (simp add: capacity_ok_def)
qed

section \<open>Properties of \<^verbatim>\<open>gpu_init_pairlist\<close>\<close>

lemma gpu_init_pairlist_mismatch:
  assumes "plist nb iloc = Some pl" "0 \<le> na_c pl" "na_c pl \<noteq> na_ci h"
  shows "\<exists>msg. gpu_init_pairlist bc nb h iloc = Inl (Incons msg)"
  using assms by (simp add: gpu_init_pairlist_def)

lemma gpu_init_pairlist_proceeds:
  assumes pl: "plist nb iloc = Some pl" and ok: "plist_ok pl"
    and oal: "\<forall>n. n \<le> over_alloc_large bc n"
    and na: "na_c pl < 0 \<or> na_c pl = na_ci h"
  shows "\<exists>nb' pl'. gpu_init_pairlist bc nb h iloc = Inr nb' \<and> plist nb' iloc = Some pl'
           \<and> na_c pl' = na_ci h \<and> haveFreshList pl'
           \<and> nsci pl' = int (length (h_sci h))
           \<and> buffer_holds (d_sci pl') (h_sci h)
           \<and> buffer_holds (d_cj4 pl') (h_cj4 h)
           \<and> buffer_holds (d_excl pl') (h_excl h)
           \<and> plist_ok pl'"
proof -
  let ?oal = "over_alloc_large bc"
  obtain sb sn sc where s:
    "reallocateDeviceBuffer ?oal (d_sci pl) (length (h_sci h)) (sci_nalloc pl) = (sb, sn, sc)"
    by (metis prod_cases3)
  obtain cb cn cc where c:
    "reallocateDeviceBuffer ?oal (d_cj4 pl) (length (h_cj4 h)) (cj4_nalloc pl) = (cb, cn, cc)"
    by (metis prod_cases3)
  obtain ib inn ic where i:
    "reallocateDeviceBuffer ?oal (d_imask pl)
       (length (h_cj4 h) * c_nbnxnGpuClusterpairSplit bc) (imask_nalloc pl) = (ib, inn, ic)"
    by (metis prod_cases3)
  obtain eb en ec where e:
    "reallocateDeviceBuffer ?oal (d_excl pl) (length (h_excl h)) (excl_nalloc pl) = (eb, en, ec)"
    by (metis prod_cases3)
  from ok have oks:
    "capacity_ok (d_sci pl) (sci_nalloc pl)" "capacity_ok (d_cj4 pl) (cj4_nalloc pl)"
    "capacity_ok (d_imask pl) (imask_nalloc pl)" "capacity_ok (d_excl pl) (excl_nalloc pl)"
    by (simp_all add: plist_ok_def)
  note rs = realloc_capacity [OF oks(1) oal s]
  note rc = realloc_capacity [OF oks(2) oal c]
  note ri = realloc_capacity [OF oks(3) oal i]
  note re = realloc_capacity [OF oks(4) oal e]
  define pl1 where "pl1 = (if na_c pl < 0 then pl\<lparr>na_c := na_ci h\<rparr> else pl)"
  have pl1:
    "d_sci pl1 = d_sci pl" "d_cj4 pl1 = d_cj4 pl" "d_imask pl1 = d_imask pl"
    "d_excl pl1 = d_excl pl" "sci_nalloc pl1 = sci_nalloc pl" "cj4_nalloc pl1 = cj4_nalloc pl"
    "imask_nalloc pl1 = imask_nalloc pl" "excl_nalloc pl1 = excl_nalloc pl"
    "na_c pl1 = na_ci h"
    using na by (auto simp: pl1_def)
  define pl2 where
    "pl2 = pl1
       \<lparr>d_sci := copyToDeviceBuffer sb (h_sci h) 0 (length (h_sci h)),
        nsci := sn, sci_nalloc := sc,
        d_cj4 := copyToDeviceBuffer cb (h_cj4 h) 0 (length (h_cj4 h)),
        ncj4 := cn, cj4_nalloc := cc,
        d_imask := ib, nimask := inn, imask_nalloc := ic,
        d_excl := copyToDeviceBuffer eb (h_excl h) 0 (length (h_excl h)),
        nexcl := en, excl_nalloc := ec,
        haveFreshList := True\<rparr>"
  have run: "gpu_init_pairlist bc nb h iloc =
      Inr (nb\<lparr>plist := (plist nb)(iloc := Some pl2),
              didPairlistH2D :=
                (if bDoTime nb \<and> h_sci h \<noteq> [] then (didPairlistH2D nb)(iloc := True)
                 else didPairlistH2D nb)\<rparr>)"
    using na pl s c i e
    by (simp add: gpu_init_pairlist_def Let_def pl2_def pl1_def [symmetric] pl1)
  have props: "na_c pl2 = na_ci h" "haveFreshList pl2" "nsci pl2 = int (length (h_sci h))"
    using rs by (simp_all add: pl2_def pl1)
  have holds: "buffer_holds (d_sci pl2) (h_sci h)" "buffer_holds (d_cj4 pl2) (h_cj4 h)"
    "buffer_holds (d_excl pl2) (h_excl h)"
    using rs rc re by (simp_all add: pl2_def copyTo_holds)
  have ok2: "plist_ok pl2"
    using rs rc ri re by (simp add: plist_ok_def pl2_def capacity_ok_copy)
  show ?thesis
    unfolding run using props holds ok2 by simp
qed

text \<open>
  C7.  A pair list that has no atoms-per-cluster value yet (the stored value is negative,
  as \<^verbatim>\<open>init_plist\<close> leaves it: the first call) adopts the host list's \<^verbatim>\<open>na_ci\<close>.  Once a
  value is stored, a call whose host list has another \<^verbatim>\<open>na_ci\<close> ends in the fatal
  inconsistency error, and a call with the same \<^verbatim>\<open>na_ci\<close> proceeds.  A call that proceeds
  leaves \<^verbatim>\<open>na_ci\<close> as the stored value, uploads the super-cluster list, the cluster-pair
  groups and the exclusions, and marks the list as fresh, to be pruned.
\<close>

theorem gpu_init_pairlist_atoms_per_cluster:
  assumes "plist nb iloc = Some pl" and "plist_ok pl"
    and "\<forall>n. n \<le> over_alloc_large bc n"
  shows
    "if na_c pl < 0 \<or> na_c pl = na_ci h
     then \<exists>nb' pl'. gpu_init_pairlist bc nb h iloc = Inr nb' \<and> plist nb' iloc = Some pl'
            \<and> na_c pl' = na_ci h \<and> haveFreshList pl'
            \<and> nsci pl' = int (length (h_sci h))
            \<and> buffer_holds (d_sci pl') (h_sci h)
            \<and> buffer_holds (d_cj4 pl') (h_cj4 h)
            \<and> buffer_holds (d_excl pl') (h_excl h)
            \<and> plist_ok pl'
     else \<exists>msg. gpu_init_pairlist bc nb h iloc = Inl (Incons msg)"
proof (cases "na_c pl < 0 \<or> na_c pl = na_ci h")
  case True
  with gpu_init_pairlist_proceeds [OF assms True] show ?thesis by simp
next
  case False
  then have "0 \<le> na_c pl" "na_c pl \<noteq> na_ci h" by simp_all
  from gpu_init_pairlist_mismatch [OF assms(1) this] False show ?thesis by simp
qed

theorem gpu_init_pairlist_atoms_per_cluster_witness:
  "(\<exists>nb' pl'. gpu_init_pairlist bc_example nb_fresh h_plist_one Local = Inr nb'
       \<and> plist nb' Local = Some pl' \<and> na_c pl' = 8 \<and> haveFreshList pl'
       \<and> buffer_holds (d_sci pl') (h_sci h_plist_one))
   \<and> (\<exists>msg. gpu_init_pairlist bc_example nb_listed h_plist_four Local = Inl (Incons msg))
   \<and> (\<exists>nb' pl'. gpu_init_pairlist bc_example nb_listed h_plist_one Local = Inr nb'
       \<and> plist nb' Local = Some pl' \<and> na_c pl' = 8 \<and> haveFreshList pl')"
proof -
  have f: "plist nb_fresh Local = Some init_plist"
    by (simp add: nb_fresh_def gpu_init_def)
  have ok0: "plist_ok init_plist"
    by (simp add: plist_ok_def capacity_ok_def init_plist_def)
  have oal: "\<forall>n. n \<le> over_alloc_large bc_example n"
    by (simp add: bc_example_def)
  have na: "na_ci h_plist_one = 8" "na_ci h_plist_four = 4" "na_c init_plist = - 1"
    by (simp_all add: h_plist_one_def h_plist_four_def init_plist_def)
  from gpu_init_pairlist_atoms_per_cluster [OF f ok0 oal, of h_plist_one]
  obtain nb1 pl1 where r1:
    "gpu_init_pairlist bc_example nb_fresh h_plist_one Local = Inr nb1"
    "plist nb1 Local = Some pl1" "na_c pl1 = 8" "haveFreshList pl1"
    "buffer_holds (d_sci pl1) (h_sci h_plist_one)" "plist_ok pl1"
    by (auto simp: na)
  have l: "nb_listed = nb1" by (simp add: nb_listed_def r1(1))
  from gpu_init_pairlist_atoms_per_cluster [OF r1(2) r1(6) oal, of h_plist_four]
  have r2: "\<exists>msg. gpu_init_pairlist bc_example nb_listed h_plist_four Local = Inl (Incons msg)"
    by (simp add: na r1(3) l)
  from gpu_init_pairlist_atoms_per_cluster [OF r1(2) r1(6) oal, of h_plist_one]
  have r3: "\<exists>nb' pl'. gpu_init_pairlist bc_example nb_listed h_plist_one Local = Inr nb'
       \<and> plist nb' Local = Some pl' \<and> na_c pl' = 8 \<and> haveFreshList pl'"
    by (auto simp: na r1(3) l)
  from r1 r2 r3 show ?thesis by blast
qed

section \<open>Properties of the has-work query\<close>

lemma work_after_setup_eq:
  assumes "plist nb iloc = Some pl"
  shows "work_after_setup nb lf iloc = Inr (nsci pl \<noteq> 0 \<or> lf = Some True)"
  using assms
  by (cases lf)
    (auto simp: work_after_setup_def setupGpuShortRangeWork_def haveGpuShortRangeWork_def)

lemma gpu_init_pairlist_nsci:
  assumes "gpu_init_pairlist bc nb h iloc = Inr nb1"
  shows "\<exists>pl1. plist nb1 iloc = Some pl1 \<and> nsci pl1 = int (length (h_sci h))"
proof -
  from assms obtain pl where pl: "plist nb iloc = Some pl"
    by (auto simp: gpu_init_pairlist_def split: option.splits)
  have n: "\<And>oal b n cap. fst (snd (reallocateDeviceBuffer oal b n cap)) = int n"
    by (simp add: reallocateDeviceBuffer_def)
  from assms pl show ?thesis
    by (auto simp: gpu_init_pairlist_def Let_def n split_beta split: if_splits)
qed

text \<open>
  C6, as the code has it.  Once \<^verbatim>\<open>gpu_init_pairlist\<close> has uploaded a host list for a
  locality, \<^verbatim>\<open>haveGpuShortRangeWork\<close> after \<^verbatim>\<open>setupGpuShortRangeWork\<close> answers true exactly
  when that list has a super-cluster entry or the bonded collaborator is present and reports
  interactions.
\<close>

theorem have_work_after_upload:
  assumes "gpu_init_pairlist bc nb h iloc = Inr nb1"
  shows "work_after_setup nb1 listedForcesGpu iloc
           = Inr (h_sci h \<noteq> [] \<or> listedForcesGpu = Some True)"
proof -
  from gpu_init_pairlist_nsci [OF assms] obtain pl1
    where "plist nb1 iloc = Some pl1" "nsci pl1 = int (length (h_sci h))" by blast
  then show ?thesis by (simp add: work_after_setup_eq)
qed

theorem have_work_after_upload_witness:
  "(case gpu_init_pairlist bc_example nb_fresh h_plist_empty Local of
      Inl e \<Rightarrow> False
    | Inr nb1 \<Rightarrow> work_after_setup nb1 None Local = Inr False
               \<and> work_after_setup nb1 (Some True) Local = Inr True)
   \<and> (case gpu_init_pairlist bc_example nb_fresh h_plist_one Local of
      Inl e \<Rightarrow> False
    | Inr nb1 \<Rightarrow> work_after_setup nb1 None Local = Inr True)"
proof -
  obtain nb1 where 1: "gpu_init_pairlist bc_example nb_fresh h_plist_empty Local = Inr nb1"
    by (auto simp add: gpu_init_pairlist_def nb_fresh_def gpu_init_def init_plist_def Let_def
        split_beta)
  obtain nb2 where 2: "gpu_init_pairlist bc_example nb_fresh h_plist_one Local = Inr nb2"
    by (auto simp add: gpu_init_pairlist_def nb_fresh_def gpu_init_def init_plist_def Let_def
        split_beta)
  have a: "work_after_setup nb1 None Local = Inr False"
    using have_work_after_upload [OF 1, of None] by (simp add: h_plist_empty_def)
  have b: "work_after_setup nb1 (Some True) Local = Inr True"
    using have_work_after_upload [OF 1, of "Some True"] by simp
  have c: "work_after_setup nb2 None Local = Inr True"
    using have_work_after_upload [OF 2, of None] by (simp add: h_plist_one_def)
  show ?thesis
    unfolding 1 2 using a b c by simp
qed

text \<open>
  C6, as the spec states it, fails for a pair list that was never uploaded: \<^verbatim>\<open>init_plist\<close>
  stores the size -1, which differs from 0, so the query answers true although the list
  has no entry and no bonded collaborator is present.
\<close>

theorem have_work_uninitialised_list:
  "plist nb_fresh Local = Some init_plist \<and> cells (d_sci init_plist) = []
   \<and> work_after_setup nb_fresh None Local = Inr True"
  by (simp add: nb_fresh_def gpu_init_def init_plist_def work_after_setup_def
      setupGpuShortRangeWork_def haveGpuShortRangeWork_def)

section \<open>Properties of \<^verbatim>\<open>gpu_init_atomdata\<close>\<close>

lemma gpu_init_atomdata_realloc:
  assumes oas: "\<forall>n. n \<le> over_alloc_small bc n"
    and n0: "0 \<le> nbat_numAtoms nbat"
    and gt: "nbat_numAtoms nbat > numAtomsAlloc (atdat nb)"
  shows "numAtomsAlloc (atdat (gpu_init_atomdata bc nb nbat))
           = over_alloc_small bc (nbat_numAtoms nbat)"
    and "cells (d_f (atdat (gpu_init_atomdata bc nb nbat)))
           = replicate (nat (over_alloc_small bc (nbat_numAtoms nbat))) (Some zero_float3)"
    and "xq (atdat (gpu_init_atomdata bc nb nbat))
           = allocateDeviceBuffer (nat (over_alloc_small bc (nbat_numAtoms nbat)))"
    and "atomdata_ok (vdwType (nbparam nb)) (atdat (gpu_init_atomdata bc nb nbat))"
proof -
  have c0: "0 \<le> over_alloc_small bc (nbat_numAtoms nbat)"
    using oas n0 by (meson order_trans)
  show "numAtomsAlloc (atdat (gpu_init_atomdata bc nb nbat))
          = over_alloc_small bc (nbat_numAtoms nbat)"
    using gt by (simp add: gpu_init_atomdata_def Let_def)
  show "cells (d_f (atdat (gpu_init_atomdata bc nb nbat)))
          = replicate (nat (over_alloc_small bc (nbat_numAtoms nbat))) (Some zero_float3)"
    using gt by (simp add: gpu_init_atomdata_def Let_def cells_clear_all)
  show "xq (atdat (gpu_init_atomdata bc nb nbat))
          = allocateDeviceBuffer (nat (over_alloc_small bc (nbat_numAtoms nbat)))"
    using gt by (simp add: gpu_init_atomdata_def Let_def)
  show "atomdata_ok (vdwType (nbparam nb)) (atdat (gpu_init_atomdata bc nb nbat))"
    using gt c0
    by (simp add: gpu_init_atomdata_def Let_def atomdata_ok_def capacity_ok_copy
        capacity_ok_clear capacity_ok_alloc)
qed

lemma gpu_init_atomdata_keep:
  assumes le: "\<not> nbat_numAtoms nbat > numAtomsAlloc (atdat nb)"
    and ok: "atomdata_ok (vdwType (nbparam nb)) (atdat nb)"
  shows "numAtomsAlloc (atdat (gpu_init_atomdata bc nb nbat)) = numAtomsAlloc (atdat nb)"
    and "d_f (atdat (gpu_init_atomdata bc nb nbat)) = d_f (atdat nb)"
    and "xq (atdat (gpu_init_atomdata bc nb nbat)) = xq (atdat nb)"
    and "atomdata_ok (vdwType (nbparam nb)) (atdat (gpu_init_atomdata bc nb nbat))"
    and "length (cells (atomTypes (atdat (gpu_init_atomdata bc nb nbat))))
           = length (cells (atomTypes (atdat nb)))"
    and "length (cells (ljComb (atdat (gpu_init_atomdata bc nb nbat))))
           = length (cells (ljComb (atdat nb)))"
  using le ok
  by (simp_all add: gpu_init_atomdata_def Let_def atomdata_ok_def capacity_ok_copy)

lemma gpu_init_atomdata_numAtoms:
  "numAtoms (atdat (gpu_init_atomdata bc nb nbat)) = nbat_numAtoms nbat"
  by (simp add: gpu_init_atomdata_def Let_def)

lemma gpu_init_atomdata_nbparam:
  "nbparam (gpu_init_atomdata bc nb nbat) = nbparam nb"
  by (simp add: gpu_init_atomdata_def Let_def)

lemma gpu_init_atomdata_params:
  assumes oas: "\<forall>n. n \<le> over_alloc_small bc n"
    and n0: "0 \<le> nbat_numAtoms nbat"
    and len: "length (params_type nbat) = nat (nbat_numAtoms nbat)"
             "length (params_lj_comb nbat) = nat (nbat_numAtoms nbat)"
    and ok: "atomdata_ok (vdwType (nbparam nb)) (atdat nb)"
  shows "if useLjCombRule (vdwType (nbparam nb))
         then buffer_holds (ljComb (atdat (gpu_init_atomdata bc nb nbat))) (params_lj_comb nbat)
         else buffer_holds (atomTypes (atdat (gpu_init_atomdata bc nb nbat))) (params_type nbat)"
proof (cases "nbat_numAtoms nbat > numAtomsAlloc (atdat nb)")
  case True
  have "nat (nbat_numAtoms nbat) \<le> nat (over_alloc_small bc (nbat_numAtoms nbat))"
    using oas by (simp add: nat_mono)
  then have fits: "\<And>xs :: 'a list. length xs = nat (nbat_numAtoms nbat) \<Longrightarrow>
      length xs \<le> length (cells (allocateDeviceBuffer
                      (nat (over_alloc_small bc (nbat_numAtoms nbat))) :: 'a DeviceBuffer))"
    by (simp add: allocateDeviceBuffer_def)
  show ?thesis
    using True copyTo_holds [OF fits [OF len(1)]] copyTo_holds [OF fits [OF len(2)]] len
    by (simp add: gpu_init_atomdata_def Let_def)
next
  case False
  then have c: "0 \<le> numAtomsAlloc (atdat nb)"
    "nat (nbat_numAtoms nbat) \<le> nat (numAtomsAlloc (atdat nb))"
    using n0 by linarith+
  show ?thesis
  proof (cases "useLjCombRule (vdwType (nbparam nb))")
    case True
    with ok c have "length (params_lj_comb nbat) \<le> length (cells (ljComb (atdat nb)))"
      by (simp add: atomdata_ok_def capacity_ok_def len)
    from copyTo_holds [OF this] True False len show ?thesis
      by (simp add: gpu_init_atomdata_def Let_def)
  next
    case nolj: False
    with ok c have "length (params_type nbat) \<le> length (cells (atomTypes (atdat nb)))"
      by (simp add: atomdata_ok_def capacity_ok_def len)
    from copyTo_holds [OF this] nolj False len show ?thesis
      by (simp add: gpu_init_atomdata_def Let_def)
  qed
qed

text \<open>
  C5.  Let the over-allocation policy never return less than it is asked for, let the host
  hold the parameters of its \<open>n\<close> atoms, and let the device buffers agree with the
  recorded capacity.  Then \<^verbatim>\<open>gpu_init_atomdata\<close> reallocates exactly when \<open>n\<close> exceeds the
  capacity: in that case the capacity becomes \<^verbatim>\<open>over_alloc_small(n)\<close>, the force buffer is
  zero over the whole new capacity and the position buffer is new; otherwise capacity,
  force and position buffers and the size of the parameter buffers stay as they are.  In
  both cases the capacity does not shrink and covers \<open>n\<close>, the parameter buffer in use
  (LJ combination parameters or atom types) holds the host's parameters of all \<open>n\<close> atoms,
  and the buffers agree with the capacity again, so the same holds for the next call.
\<close>

theorem gpu_init_atomdata_capacity:
  assumes oas: "\<forall>n. n \<le> over_alloc_small bc n"
    and n0: "0 \<le> nbat_numAtoms nbat"
    and len: "length (params_type nbat) = nat (nbat_numAtoms nbat)"
             "length (params_lj_comb nbat) = nat (nbat_numAtoms nbat)"
    and ok: "atomdata_ok (vdwType (nbparam nb)) (atdat nb)"
  shows
    "(let a = atdat nb; a' = atdat (gpu_init_atomdata bc nb nbat); n = nbat_numAtoms nbat in
      (if n > numAtomsAlloc a
       then numAtomsAlloc a' = over_alloc_small bc n
            \<and> cells (d_f a') = replicate (nat (numAtomsAlloc a')) (Some zero_float3)
            \<and> xq a' = allocateDeviceBuffer (nat (numAtomsAlloc a'))
       else numAtomsAlloc a' = numAtomsAlloc a \<and> d_f a' = d_f a \<and> xq a' = xq a
            \<and> length (cells (atomTypes a')) = length (cells (atomTypes a))
            \<and> length (cells (ljComb a')) = length (cells (ljComb a)))
      \<and> numAtomsAlloc a \<le> numAtomsAlloc a'
      \<and> n \<le> numAtomsAlloc a'
      \<and> numAtoms a' = n
      \<and> (if useLjCombRule (vdwType (nbparam nb))
          then buffer_holds (ljComb a') (params_lj_comb nbat)
          else buffer_holds (atomTypes a') (params_type nbat))
      \<and> atomdata_ok (vdwType (nbparam (gpu_init_atomdata bc nb nbat))) a')"
proof (cases "nbat_numAtoms nbat > numAtomsAlloc (atdat nb)")
  case True
  note r = gpu_init_atomdata_realloc [OF oas n0 True]
  have "nbat_numAtoms nbat \<le> over_alloc_small bc (nbat_numAtoms nbat)" using oas by simp
  with True r gpu_init_atomdata_params [OF oas n0 len ok] show ?thesis
    by (simp add: Let_def gpu_init_atomdata_numAtoms gpu_init_atomdata_nbparam)
next
  case False
  note k = gpu_init_atomdata_keep [OF False ok]
  from False k gpu_init_atomdata_params [OF oas n0 len ok] show ?thesis
    by (simp add: Let_def gpu_init_atomdata_numAtoms gpu_init_atomdata_nbparam)
qed

theorem gpu_init_atomdata_capacity_witness:
  "numAtomsAlloc (atdat (gpu_init_atomdata bc_example nb_fresh nbat_two)) = 10
   \<and> cells (d_f (atdat (gpu_init_atomdata bc_example nb_fresh nbat_two)))
       = replicate 10 (Some zero_float3)
   \<and> buffer_holds (atomTypes (atdat (gpu_init_atomdata bc_example nb_fresh nbat_two))) [0, 1]
   \<and> numAtomsAlloc (atdat (gpu_init_atomdata bc_example
         (gpu_init_atomdata bc_example nb_fresh nbat_two) nbat_two)) = 10
   \<and> buffer_holds (atomTypes (atdat (gpu_init_atomdata bc_example
         (gpu_init_atomdata bc_example nb_fresh nbat_two) nbat_two))) [0, 1]"
proof -
  have oas: "\<forall>n. n \<le> over_alloc_small bc_example n"
    by (simp add: bc_example_def)
  have n0: "0 \<le> nbat_numAtoms nbat_two"
    and len: "length (params_type nbat_two) = nat (nbat_numAtoms nbat_two)"
      "length (params_lj_comb nbat_two) = nat (nbat_numAtoms nbat_two)"
    by (simp_all add: nbat_two_def)
  have ok: "atomdata_ok (vdwType (nbparam nb_fresh)) (atdat nb_fresh)"
    by (simp add: atomdata_ok_def capacity_ok_def nb_fresh_def gpu_init_def
        initAtomdataFirst_def nbparam_example_def useLjCombRule_def)
  have v: "\<not> useLjCombRule (vdwType (nbparam nb_fresh))"
    "numAtomsAlloc (atdat nb_fresh) = - 1" "nbat_numAtoms nbat_two = 2"
    "params_type nbat_two = [0, 1]" "over_alloc_small bc_example 2 = 10"
    by (simp_all add: nb_fresh_def gpu_init_def initAtomdataFirst_def nbparam_example_def
        useLjCombRule_def nbat_two_def bc_example_def)
  define nb1 where "nb1 = gpu_init_atomdata bc_example nb_fresh nbat_two"
  have first: "numAtomsAlloc (atdat nb1) = 10"
    "cells (d_f (atdat nb1)) = replicate 10 (Some zero_float3)"
    "buffer_holds (atomTypes (atdat nb1)) [0, 1]"
    "atomdata_ok (vdwType (nbparam nb1)) (atdat nb1)"
    using gpu_init_atomdata_capacity [OF oas n0 len ok]
    by (simp_all add: Let_def v nb1_def)
  have v1: "\<not> useLjCombRule (vdwType (nbparam nb1))"
    using v(1) by (simp add: nb1_def gpu_init_atomdata_nbparam)
  have second: "numAtomsAlloc (atdat (gpu_init_atomdata bc_example nb1 nbat_two)) = 10"
    "buffer_holds (atomTypes (atdat (gpu_init_atomdata bc_example nb1 nbat_two))) [0, 1]"
    using gpu_init_atomdata_capacity [OF oas n0 len first(4)]
    by (simp_all add: Let_def v first v1)
  from first second show ?thesis by (simp add: nb1_def)
qed

section \<open>Properties of the multi-slot accumulators\<close>

lemma unat_and_63: "unat ((w :: 32 word) AND 63) = unat w mod 64"
proof -
  have "w AND 63 = take_bit 6 w"
    by (simp add: take_bit_eq_mask mask_eq_exp_minus_1)
  then show ?thesis
    by (simp add: take_bit_eq_mod unat_mod_distrib)
qed


lemma cells_atomicAdd_other:
  "k \<noteq> j \<Longrightarrow> cells (atomicAdd b k v) ! j = cells b ! j"
  by (cases b) simp_all



















section \<open>Properties of the force kernel\<close>

lemma float_less_irrefl: "\<not> (a :: float) < a"
  by (cases a) (simp_all add: less_float_def)

lemma check_iff:
  "cutoff_and_exclusion_check kc fl args nb_sci cj0 jm wexcl i lane
   \<longleftrightarrow> pair_r2 kc args nb_sci cj0 i lane < rcoulomb_sq (k_nbparam args)
        \<and> pair_not_excluded kc fl nb_sci cj0 jm wexcl i lane"
  by (simp add: cutoff_and_exclusion_check_def pair_not_excluded_def Let_def int_bit_of_def
      float_neq_def float_arith_defs round_to_float_def)

lemma i_iter_skip:
  assumes "\<not> (r_imask rg AND mask_ji \<noteq> 0
              \<and> cutoff_and_exclusion_check kc fl args nb_sci cj0 jm (r_wexcl rg) i lane)"
  shows "r_fcj_buf (fst (i_iter kc ku fl args nb_sci lane cj0 jm i (rg, mask_ji))) = r_fcj_buf rg"
    and "r_fci_buf (fst (i_iter kc ku fl args nb_sci lane cj0 jm i (rg, mask_ji))) = r_fci_buf rg"
    and "r_E_lj (fst (i_iter kc ku fl args nb_sci lane cj0 jm i (rg, mask_ji))) = r_E_lj rg"
    and "r_E_el (fst (i_iter kc ku fl args nb_sci lane cj0 jm i (rg, mask_ji))) = r_E_el rg"
  using assms by (auto simp: i_iter_def Let_def)

lemma i_iter_hit:
  assumes "r_imask rg AND mask_ji \<noteq> 0"
    and "cutoff_and_exclusion_check kc fl args nb_sci cj0 jm (r_wexcl rg) i lane"
  shows "r_fcj_buf (fst (i_iter kc ku fl args nb_sci lane cj0 jm i (rg, mask_ji)))
           = ff3_add (r_fcj_buf rg) (pair_f_ij kc ku fl args nb_sci cj0 jm (r_wexcl rg) i lane)"
    and "r_fci_buf (fst (i_iter kc ku fl args nb_sci lane cj0 jm i (rg, mask_ji)))
           = (r_fci_buf rg)[i := ff3_sub (r_fci_buf rg ! i)
                                   (pair_f_ij kc ku fl args nb_sci cj0 jm (r_wexcl rg) i lane)]"
    and "r_E_lj (fst (i_iter kc ku fl args nb_sci lane cj0 jm i (rg, mask_ji)))
           = (if CALC_ENERGIES fl
              then r_E_lj rg + fst (snd (pair_scalars kc ku fl args nb_sci cj0 jm (r_wexcl rg) i lane))
              else r_E_lj rg)"
    and "r_E_el (fst (i_iter kc ku fl args nb_sci lane cj0 jm i (rg, mask_ji)))
           = (if CALC_ENERGIES fl
              then r_E_el rg + snd (snd (pair_scalars kc ku fl args nb_sci cj0 jm (r_wexcl rg) i lane))
              else r_E_el rg)"
  using assms by (simp_all add: i_iter_def Let_def)

lemma i_iter_other_regs:
  "r_wexcl (fst (i_iter kc ku fl args nb_sci lane cj0 jm i (rg, mask_ji))) = r_wexcl rg"
  "snd (i_iter kc ku fl args nb_sci lane cj0 jm i (rg, mask_ji)) = mask_ji + mask_ji"
  by (simp_all add: i_iter_def Let_def)

text \<open>
  Claim C1.  In one pass of the loop over \<open>i\<close> a thread accumulates force and energy for
  its pair only when the squared distance is strictly below the squared Coulomb cut-off.
  When the squared distance is not below the cut-off, and in particular when it equals
  the cut-off, the four accumulators keep their values.  When the bit of the pair is set
  in the interaction mask, the pair is not excluded and the squared distance is strictly
  below the cut-off, the pair force is added to the j-accumulator, subtracted from the
  i-accumulator, and with energies the pair energies are added.
\<close>

theorem cutoff_is_strict:
  "(let rg' = fst (i_iter kc ku fl args nb_sci lane cj0 jm i (rg, mask_ji));
        r2 = pair_r2 kc args nb_sci cj0 i lane;
        f_ij = pair_f_ij kc ku fl args nb_sci cj0 jm (r_wexcl rg) i lane;
        sc = pair_scalars kc ku fl args nb_sci cj0 jm (r_wexcl rg) i lane
    in (\<not> r2 < rcoulomb_sq (k_nbparam args) \<longrightarrow>
          r_fcj_buf rg' = r_fcj_buf rg \<and> r_fci_buf rg' = r_fci_buf rg
          \<and> r_E_lj rg' = r_E_lj rg \<and> r_E_el rg' = r_E_el rg)
     \<and> (r2 = rcoulomb_sq (k_nbparam args) \<longrightarrow>
          r_fcj_buf rg' = r_fcj_buf rg \<and> r_fci_buf rg' = r_fci_buf rg
          \<and> r_E_lj rg' = r_E_lj rg \<and> r_E_el rg' = r_E_el rg)
     \<and> (r_imask rg AND mask_ji \<noteq> 0 \<and> r2 < rcoulomb_sq (k_nbparam args)
          \<and> pair_not_excluded kc fl nb_sci cj0 jm (r_wexcl rg) i lane \<longrightarrow>
          r_fcj_buf rg' = ff3_add (r_fcj_buf rg) f_ij
          \<and> r_fci_buf rg' = (r_fci_buf rg)[i := ff3_sub (r_fci_buf rg ! i) f_ij]
          \<and> (CALC_ENERGIES fl \<longrightarrow>
                r_E_lj rg' = r_E_lj rg + fst (snd sc) \<and> r_E_el rg' = r_E_el rg + snd (snd sc))))"
proof -
  have skip: "\<not> pair_r2 kc args nb_sci cj0 i lane < rcoulomb_sq (k_nbparam args) \<Longrightarrow>
      \<not> (r_imask rg AND mask_ji \<noteq> 0
          \<and> cutoff_and_exclusion_check kc fl args nb_sci cj0 jm (r_wexcl rg) i lane)"
    by (simp add: check_iff)
  have eq: "pair_r2 kc args nb_sci cj0 i lane = rcoulomb_sq (k_nbparam args) \<Longrightarrow>
      \<not> pair_r2 kc args nb_sci cj0 i lane < rcoulomb_sq (k_nbparam args)"
    by (simp add: float_less_irrefl)
  show ?thesis
    unfolding Let_def
    using i_iter_skip [OF skip] i_iter_skip [OF skip [OF eq]]
      i_iter_hit [of rg mask_ji kc fl args nb_sci cj0 jm i lane ku]
    by (simp add: check_iff)
qed

lemma fmax_ge_floor: "c \<noteq> NaN \<Longrightarrow> c \<le> fmax r c"
  by (cases r; cases c) (auto simp: float_arith_defs)

lemma pair_after_clamp_frsqrt:
  assumes "rsq r = frsqrt ku r"
  shows "pair_after_clamp kc (ku\<lparr>frsqrt := rsq\<rparr>) fl nbp ntypes qi qj_f typei typej ljcp_i ljcp_j r ib
         = pair_after_clamp kc ku fl nbp ntypes qi qj_f typei typej ljcp_i ljcp_j r ib"
proof -
  define ku' where "ku' = ku\<lparr>frsqrt := rsq\<rparr>"
  have sel:
    "erff ku' = erff ku" "pmecorrF ku' = pmecorrF ku"
    "interpolate_coulomb_force_r ku' = interpolate_coulomb_force_r ku"
    "fetch_nbfp_c6_c12 ku' = fetch_nbfp_c6_c12 ku"
    "convert_sigma_epsilon_to_c6_c12 ku' = convert_sigma_epsilon_to_c6_c12 ku"
    "calculate_force_switch_F ku' = calculate_force_switch_F ku"
    "calculate_force_switch_F_E ku' = calculate_force_switch_F_E ku"
    "calculate_lj_ewald_comb_geom_F ku' = calculate_lj_ewald_comb_geom_F ku"
    "calculate_lj_ewald_comb_geom_F_E ku' = calculate_lj_ewald_comb_geom_F_E ku"
    "calculate_lj_ewald_comb_LB_F_E ku' = calculate_lj_ewald_comb_LB_F_E ku"
    "calculate_potential_switch_F ku' = calculate_potential_switch_F ku"
    "calculate_potential_switch_F_E ku' = calculate_potential_switch_F_E ku"
    by (simp_all add: ku'_def)
  have r: "frsqrt ku' r = frsqrt ku r"
    using assms by (simp add: ku'_def)
  have "pair_after_clamp kc ku' fl nbp ntypes qi qj_f typei typej ljcp_i ljcp_j r ib
         = pair_after_clamp kc ku fl nbp ntypes qi qj_f typei typej ljcp_i ljcp_j r ib"
    unfolding pair_after_clamp_def sel r ..
  then show ?thesis by (simp add: ku'_def)
qed

lemma pair_interaction_frsqrt:
  assumes "c_nbnxnMinDistanceSquared kc \<noteq> NaN"
    and "\<forall>x. c_nbnxnMinDistanceSquared kc \<le> x \<longrightarrow> rsq x = frsqrt ku x"
  shows "pair_interaction kc (ku\<lparr>frsqrt := rsq\<rparr>) fl nbp ntypes qi qj_f typei typej ljcp_i ljcp_j r2 ib
         = pair_interaction kc ku fl nbp ntypes qi qj_f typei typej ljcp_i ljcp_j r2 ib"
proof -
  have "rsq (fmax r2 (c_nbnxnMinDistanceSquared kc))
        = frsqrt ku (fmax r2 (c_nbnxnMinDistanceSquared kc))"
    using assms fmax_ge_floor by blast
  then show ?thesis
    unfolding pair_interaction_def by (rule pair_after_clamp_frsqrt)
qed

lemmas example_defs = kc_example_def ku_example_def fl_example_def sci_example_def
  args_two_atoms_def regs_example_def nbparam_example_def

lemmas kernel_pair_defs = pair_r2_def pair_rv_def xqib_def atom_index_j_def atom_index_i_def
  atib_def ljcpib_def int_bit_of_def nonSelfInteraction_def pair_not_excluded_def
  pair_f_ij_def pair_scalars_def pair_interaction_def pair_after_clamp_def
  EXCLUSION_FORCES_def EL_EWALD_ANY_def LJ_EWALD_def LJ_COMB_def

lemma r2_boundary: "pair_r2 kc_example args_two_atoms sci_example 0 0 (0, 2) = Finite 4"
  by (simp add: example_defs kernel_pair_defs ff3_defs zero_float3_def make_float3_def
      float_arith_defs round_to_float_def Let_def)

lemma r2_inside: "pair_r2 kc_example args_two_atoms sci_example 0 0 (0, 1) = Finite 1"
  by (simp add: example_defs kernel_pair_defs ff3_defs zero_float3_def make_float3_def
      float_arith_defs round_to_float_def Let_def)

lemma f_ij_inside:
  "pair_f_ij kc_example ku_example fl_example args_two_atoms sci_example 0 0 1 0 (0, 1)
     = fast_float3_xyz (Finite (- 1)) (Finite 0) (Finite 0)"
  by (simp add: example_defs kernel_pair_defs ff3_defs zero_float3_def make_float3_def
      float_arith_defs round_to_float_def Let_def)


theorem cutoff_is_strict_witness:
  "r_fcj_buf (fst (i_iter kc_example ku_example fl_example args_two_atoms sci_example (0, 2) 0 0 0
                     (regs_example, 1))) = r_fcj_buf regs_example
   \<and> r_fci_buf (fst (i_iter kc_example ku_example fl_example args_two_atoms sci_example (0, 2) 0 0 0
                     (regs_example, 1))) = r_fci_buf regs_example
   \<and> r_fcj_buf (fst (i_iter kc_example ku_example fl_example args_two_atoms sci_example (0, 1) 0 0 0
                     (regs_example, 1)))
       = ff3_add (r_fcj_buf regs_example) (fast_float3_xyz (Finite (- 1)) (Finite 0) (Finite 0))"
proof -
  have ne: "pair_not_excluded kc_example fl_example sci_example 0 0 (r_wexcl regs_example) 0 (0, 1)"
    by (simp add: example_defs kernel_pair_defs)
  have bit: "r_imask regs_example AND 1 \<noteq> 0" "r_wexcl regs_example = 1"
    by (simp_all add: regs_example_def)
  have rc: "rcoulomb_sq (k_nbparam args_two_atoms) = Finite 4"
    by (simp add: args_two_atoms_def nbparam_example_def)
  have lt: "Finite 1 < Finite 4"
    by (simp add: less_float_def)
  show ?thesis
    using cutoff_is_strict [of kc_example ku_example fl_example args_two_atoms sci_example
        "(0, 2)" 0 0 0 regs_example 1]
      cutoff_is_strict [of kc_example ku_example fl_example args_two_atoms sci_example
        "(0, 1)" 0 0 0 regs_example 1]
      ne bit lt
    unfolding Let_def r2_boundary r2_inside rc bit(2) f_ij_inside
    by simp
qed

lemma i_iter_frsqrt:
  assumes "c_nbnxnMinDistanceSquared kc \<noteq> NaN"
    and "\<forall>x. c_nbnxnMinDistanceSquared kc \<le> x \<longrightarrow> rsq x = frsqrt ku x"
  shows "i_iter kc (ku\<lparr>frsqrt := rsq\<rparr>) = i_iter kc ku"
proof -
  have sc: "pair_scalars kc (ku\<lparr>frsqrt := rsq\<rparr>) = pair_scalars kc ku"
    unfolding pair_scalars_def pair_interaction_frsqrt [OF assms] ..
  have f: "pair_f_ij kc (ku\<lparr>frsqrt := rsq\<rparr>) = pair_f_ij kc ku"
    unfolding pair_f_ij_def sc ..
  show ?thesis
    unfolding i_iter_def sc f ..
qed

lemma self_energies_frsqrt: "self_energies kc (ku\<lparr>frsqrt := rsq\<rparr>) = self_energies kc ku"
proof -
  have sel: "fetch_nbfp_c6_c12 (ku\<lparr>frsqrt := rsq\<rparr>) = fetch_nbfp_c6_c12 ku"
    by simp
  show ?thesis
    unfolding self_energies_def sel ..
qed

lemma nbnxn_kernel_frsqrt:
  assumes "c_nbnxnMinDistanceSquared kc \<noteq> NaN"
    and "\<forall>x. c_nbnxnMinDistanceSquared kc \<le> x \<longrightarrow> rsq x = frsqrt ku x"
  shows "nbnxn_kernel kc bc (ku\<lparr>frsqrt := rsq\<rparr>) = nbnxn_kernel kc bc ku"
proof -
  note i = i_iter_frsqrt [OF assms]
  have jm: "jm_pass kc (ku\<lparr>frsqrt := rsq\<rparr>) = jm_pass kc ku"
    unfolding jm_pass_def i ..
  have bjm: "block_jm kc (ku\<lparr>frsqrt := rsq\<rparr>) = block_jm kc ku"
    unfolding block_jm_def jm ..
  have bj4: "block_j4 kc (ku\<lparr>frsqrt := rsq\<rparr>) = block_j4 kc ku"
    unfolding block_j4_def bjm ..
  show ?thesis
    unfolding nbnxn_kernel_def bj4 self_energies_frsqrt ..
qed

text \<open>
  Claim C4.  The constant \<^verbatim>\<open>c_nbnxnMinDistanceSquared\<close> is a number.  Then the value
  \<^verbatim>\<open>fmax(r2, c_nbnxnMinDistanceSquared)\<close> that replaces \<^verbatim>\<open>r2\<close> is at least the constant, the
  interaction of a pair is computed from that value alone, and the reciprocal square root
  is taken of nothing smaller: replacing \<^verbatim>\<open>__frsqrt_rn\<close> by any function that agrees with it
  from the constant upwards changes neither the interaction of a pair nor the result of the
  kernel.
\<close>

theorem rsqrt_argument_clamped:
  assumes "c_nbnxnMinDistanceSquared kc \<noteq> NaN"
  shows "c_nbnxnMinDistanceSquared kc \<le> fmax r2 (c_nbnxnMinDistanceSquared kc)
    \<and> pair_interaction kc ku fl nbp ntypes qi qj_f typei typej ljcp_i ljcp_j r2 ib
        = pair_after_clamp kc ku fl nbp ntypes qi qj_f typei typej ljcp_i ljcp_j
            (fmax r2 (c_nbnxnMinDistanceSquared kc)) ib
    \<and> ((\<forall>x. c_nbnxnMinDistanceSquared kc \<le> x \<longrightarrow> rsq x = frsqrt ku x) \<longrightarrow>
           pair_interaction kc (ku\<lparr>frsqrt := rsq\<rparr>) fl nbp ntypes qi qj_f typei typej ljcp_i ljcp_j
               r2 ib
             = pair_interaction kc ku fl nbp ntypes qi qj_f typei typej ljcp_i ljcp_j r2 ib
           \<and> nbnxn_kernel kc bc (ku\<lparr>frsqrt := rsq\<rparr>) fl args bidx f0 fShift0
             = nbnxn_kernel kc bc ku fl args bidx f0 fShift0)"
proof (intro conjI impI)
  show "c_nbnxnMinDistanceSquared kc \<le> fmax r2 (c_nbnxnMinDistanceSquared kc)"
    using assms by (rule fmax_ge_floor)
next
  show "pair_interaction kc ku fl nbp ntypes qi qj_f typei typej ljcp_i ljcp_j r2 ib
        = pair_after_clamp kc ku fl nbp ntypes qi qj_f typei typej ljcp_i ljcp_j
            (fmax r2 (c_nbnxnMinDistanceSquared kc)) ib"
    by (simp add: pair_interaction_def)
next
  assume agree: "\<forall>x. c_nbnxnMinDistanceSquared kc \<le> x \<longrightarrow> rsq x = frsqrt ku x"
  show "pair_interaction kc (ku\<lparr>frsqrt := rsq\<rparr>) fl nbp ntypes qi qj_f typei typej ljcp_i ljcp_j
               r2 ib
             = pair_interaction kc ku fl nbp ntypes qi qj_f typei typej ljcp_i ljcp_j r2 ib"
    using assms agree by (rule pair_interaction_frsqrt)
  show "nbnxn_kernel kc bc (ku\<lparr>frsqrt := rsq\<rparr>) fl args bidx f0 fShift0
             = nbnxn_kernel kc bc ku fl args bidx f0 fShift0"
    using nbnxn_kernel_frsqrt [OF assms agree] by simp
qed

theorem rsqrt_argument_clamped_witness:
  "c_nbnxnMinDistanceSquared kc_example \<le> fmax (Finite 0) (c_nbnxnMinDistanceSquared kc_example)
   \<and> fmax (Finite 0) (c_nbnxnMinDistanceSquared kc_example) = Finite (382 / 10 ^ 9)
   \<and> nbnxn_kernel kc_example bc_example
         (ku_example\<lparr>frsqrt := (\<lambda>x. if Finite (382 / 10 ^ 9) \<le> x then frsqrt_rn x else NaN)\<rparr>)
         fl_example args_two_atoms 0 (\<lambda>a. zero_float3) (\<lambda>a. zero_float3)
       = nbnxn_kernel kc_example bc_example ku_example fl_example args_two_atoms 0
           (\<lambda>a. zero_float3) (\<lambda>a. zero_float3)"
proof -
  have c: "c_nbnxnMinDistanceSquared kc_example = Finite (382 / 10 ^ 9)"
    by (simp add: kc_example_def)
  have ne: "c_nbnxnMinDistanceSquared kc_example \<noteq> NaN"
    by (simp add: c)
  have agree: "\<forall>x. c_nbnxnMinDistanceSquared kc_example \<le> x \<longrightarrow>
      (\<lambda>x. if Finite (382 / 10 ^ 9) \<le> x then frsqrt_rn x else NaN) x = frsqrt ku_example x"
    by (simp add: c ku_example_def)
  have m: "fmax (Finite 0) (c_nbnxnMinDistanceSquared kc_example) = Finite (382 / 10 ^ 9)"
    by (simp add: c less_float_def)
  show ?thesis
    using rsqrt_argument_clamped [OF ne, of "Finite 0" ku_example
        fl_example nbparam_example 1 1 1 0 0 "(0, 0)" "(0, 0)" 1
        "\<lambda>x. if Finite (382 / 10 ^ 9) \<le> x then frsqrt_rn x else NaN"
        bc_example args_two_atoms 0 "\<lambda>a. zero_float3" "\<lambda>a. zero_float3"]
      agree m
    by blast
qed

section \<open>Action and reaction in the force kernel\<close>

subsection \<open>Zero is neutral for representable values\<close>

lemma representable_special [simp]: "representable PInf" "representable NInf" "representable NaN"
  by (simp_all add: representable_def)

lemma representable_round [simp]: "representable (round_to_float r)"
proof -
  define T :: real where "T = 2 ^ 128 - 2 ^ 103"
  define U :: real where "U = 1 / 2 ^ 150"
  have rep: "representable (Finite x) = (\<bar>x\<bar> < T \<and> (x = 0 \<or> U < \<bar>x\<bar>))" for x
    by (simp only: representable_def float.case T_def U_def)
  have rtf: "round_to_float r
      = (if T \<le> r then PInf else if r \<le> - T then NInf
         else if \<bar>r\<bar> \<le> U then Finite 0 else Finite r)"
    by (simp only: round_to_float_def T_def U_def)
  have "0 < T"
    by (simp add: T_def)
  then show ?thesis
    unfolding rtf by (auto simp add: rep abs_less_iff not_le)
qed

lemma round_representable: "representable (Finite r) \<Longrightarrow> round_to_float r = Finite r"
proof -
  define T :: real where "T = 2 ^ 128 - 2 ^ 103"
  define U :: real where "U = 1 / 2 ^ 150"
  have rep: "representable (Finite r) = (\<bar>r\<bar> < T \<and> (r = 0 \<or> U < \<bar>r\<bar>))"
    by (simp only: representable_def float.case T_def U_def)
  have rtf: "round_to_float r
      = (if T \<le> r then PInf else if r \<le> - T then NInf
         else if \<bar>r\<bar> \<le> U then Finite 0 else Finite r)"
    by (simp only: round_to_float_def T_def U_def)
  show "representable (Finite r) \<Longrightarrow> round_to_float r = Finite r"
    unfolding rtf rep by (auto simp add: abs_less_iff)
qed

lemma representable_zero [simp]: "representable 0"
  by (simp add: zero_float_def representable_def)

lemma representable_add [simp]: "representable (a + b)"
  by (cases a; cases b) (simp_all add: plus_float_def)

lemma representable_mult [simp]: "representable (a * b)"
  by (cases a; cases b) (simp_all add: times_float_def)

lemma representable_uminus [simp]: "representable (- a) = representable a"
  by (cases a) (simp_all add: uminus_float_def representable_def)

lemma add_zero_float:
  assumes "representable x"
  shows "x + 0 = x" and "0 + x = x" and "0 - x = - x"
proof -
  show "x + 0 = x"
    using assms
    by (cases x) (simp_all add: plus_float_def zero_float_def round_representable
       )
  show "0 + x = x"
    using assms
    by (cases x) (simp_all add: plus_float_def zero_float_def round_representable
       )
  have "representable (- x)"
    using assms by simp
  then show "0 - x = - x"
    by (cases x) (simp_all add: minus_float_def uminus_float_def zero_float_def
        round_representable)
qed

lemma foldl_add_zeros:
  assumes "representable x" and "\<forall>z\<in>set zs. z = 0"
  shows "foldl (+) x zs = x"
  using assms by (induction zs) (simp_all add: add_zero_float)

lemma foldl_add_one:
  assumes "distinct ys" and "y0 \<in> set ys" and "\<forall>y\<in>set ys. y \<noteq> y0 \<longrightarrow> g y = 0"
    and "representable x"
  shows "foldl (+) x (map g ys) = x + g y0"
proof -
  from assms(2) obtain as bs where ys: "ys = as @ y0 # bs"
    by (auto dest: split_list)
  with assms(1) have "y0 \<notin> set as" "y0 \<notin> set bs"
    by auto
  with assms(3) ys have za: "\<forall>z\<in>set (map g as). z = 0" and zb: "\<forall>z\<in>set (map g bs). z = 0"
    by auto
  have "foldl (+) x (map g ys) = foldl (+) (foldl (+) x (map g as) + g y0) (map g bs)"
    by (simp add: ys)
  also have "foldl (+) x (map g as) = x"
    using assms(4) za by (rule foldl_add_zeros)
  also have "foldl (+) (x + g y0) (map g bs) = x + g y0"
    using representable_add zb by (rule foldl_add_zeros)
  finally show ?thesis .
qed

lemma reduce_sum_foldl:
  assumes "xs = [] \<or> representable (hd xs)"
  shows "reduce_sum xs = foldl (+) 0 xs"
  using assms by (cases xs) (simp_all add: reduce_sum_def add_zero_float)

lemma reduce_sum_zeros:
  assumes "\<forall>i<n. g i = 0"
  shows "reduce_sum (map g [0..<n]) = 0"
proof -
  have "reduce_sum (map g [0..<n]) = foldl (+) 0 (map g [0..<n])"
    using assms by (intro reduce_sum_foldl) (cases n, simp_all add: upt_rec)
  also have "\<dots> = 0"
    using assms by (intro foldl_add_zeros) auto
  finally show ?thesis .
qed

lemma reduce_sum_one:
  assumes "k < n" and "\<forall>i<n. i \<noteq> k \<longrightarrow> g i = 0" and "representable (g k)"
  shows "reduce_sum (map g [0..<n]) = g k"
proof -
  have "representable (g 0)"
    using assms by (cases "k = 0") auto
  then have "reduce_sum (map g [0..<n]) = foldl (+) 0 (map g [0..<n])"
    using assms(1) by (intro reduce_sum_foldl) (cases n, simp_all add: upt_rec)
  also have "\<dots> = 0 + g k"
    using assms by (intro foldl_add_one) auto
  finally show ?thesis
    using assms(3) by (simp add: add_zero_float)
qed

subsection \<open>Sequences of atomic adds\<close>

lemma float3_eqI:
  assumes "\<And>c. c < 3 \<Longrightarrow> f3c c u = f3c c v"
  shows "u = v"
proof -
  have "f3c 0 u = f3c 0 v" "f3c 1 u = f3c 1 v" "f3c 2 u = f3c 2 v"
    using assms by simp_all
  then show ?thesis
    by (simp add: f3c_def)
qed

lemma f3c_atomic_add_force:
  assumes "c' < 3"
  shows "f3c c' (atomic_add_force f a c r a')
         = (if a' = a \<and> min c 2 = c' then f3c c' (f a) + r else f3c c' (f a'))"
  using assms by (auto simp: f3c_def atomic_add_force_def)

lemma f3c_apply_adds:
  assumes "c' < 3"
  shows "f3c c' (apply_adds f (map (\<lambda>k. (A k, C k, Rv k)) ks) a)
         = foldl (+) (f3c c' (f a)) (map Rv (filter (\<lambda>k. A k = a \<and> min (C k) 2 = c') ks))"
proof (induction ks arbitrary: f)
  case Nil
  show ?case by (simp add: apply_adds_def)
next
  case (Cons k ks)
  have "apply_adds f (map (\<lambda>k. (A k, C k, Rv k)) (k # ks))
        = apply_adds (atomic_add_force f (A k) (C k) (Rv k)) (map (\<lambda>k. (A k, C k, Rv k)) ks)"
    by (simp add: apply_adds_def)
  then show ?case
    using assms by (simp add: Cons.IH f3c_atomic_add_force)
qed

lemma apply_adds_zero:
  assumes "\<forall>a. representable3 (f a)" and "\<forall>k\<in>set ks. Rv k = 0"
  shows "apply_adds f (map (\<lambda>k. (A k, C k, Rv k)) ks) = f"
proof (rule ext, rule float3_eqI)
  fix a c' :: _ and c :: nat
  assume c: "c < 3"
  have r: "representable (f3c c (f a))"
    using assms(1) by (auto simp: representable3_def f3c_def)
  show "f3c c (apply_adds f (map (\<lambda>k. (A k, C k, Rv k)) ks) a) = f3c c (f a)"
    unfolding f3c_apply_adds [OF c]
    using r assms(2) by (intro foldl_add_zeros) auto
qed

lemma apply_adds_three:
  assumes dist: "distinct ks" and repr: "\<forall>a. representable3 (f a)"
    and zero: "\<forall>k\<in>set ks. (\<forall>c<3. k \<noteq> K c) \<longrightarrow> Rv k = 0"
    and keys: "\<forall>c<3. K c \<in> set ks \<and> A (K c) = a0 \<and> C (K c) = c"
    and only: "\<forall>k\<in>set ks. \<forall>c<3. A k = a0 \<and> min (C k) 2 = c \<longrightarrow> k = K c"
  shows "apply_adds f (map (\<lambda>k. (A k, C k, Rv k)) ks)
         = f(a0 := \<lparr>f3_x = f3_x (f a0) + Rv (K 0), f3_y = f3_y (f a0) + Rv (K 1),
                    f3_z = f3_z (f a0) + Rv (K 2)\<rparr>)"
proof (rule ext, rule float3_eqI)
  fix a and c :: nat
  assume c: "c < 3"
  let ?ks = "filter (\<lambda>k. A k = a \<and> min (C k) 2 = c) ks"
  have r: "representable (f3c c (f a))"
    using repr by (auto simp: representable3_def f3c_def)
  show "f3c c (apply_adds f (map (\<lambda>k. (A k, C k, Rv k)) ks) a)
        = f3c c ((f(a0 := \<lparr>f3_x = f3_x (f a0) + Rv (K 0), f3_y = f3_y (f a0) + Rv (K 1),
                    f3_z = f3_z (f a0) + Rv (K 2)\<rparr>)) a)"
  proof (cases "a = a0")
    case False
    have "\<forall>z\<in>set (map Rv ?ks). z = 0"
      using zero keys False by auto
    with r have "foldl (+) (f3c c (f a)) (map Rv ?ks) = f3c c (f a)"
      by (rule foldl_add_zeros)
    then show ?thesis
      using False by (simp add: f3c_apply_adds [OF c])
  next
    case True
    have mem: "K c \<in> set ?ks"
      using keys c True by auto
    have others: "\<forall>y\<in>set ?ks. y \<noteq> K c \<longrightarrow> Rv y = 0"
      using only c True by auto
    have "foldl (+) (f3c c (f a)) (map Rv ?ks) = f3c c (f a) + Rv (K c)"
      using dist mem others r by (intro foldl_add_one) auto
    then have lhs: "f3c c (apply_adds f (map (\<lambda>k. (A k, C k, Rv k)) ks) a)
        = f3c c (f a) + Rv (K c)"
      by (simp add: f3c_apply_adds [OF c])
    have "c = 0 \<or> c = 1 \<or> c = 2"
      using c by arith
    then have rhs: "f3c c ((f(a0 := \<lparr>f3_x = f3_x (f a0) + Rv (K 0), f3_y = f3_y (f a0) + Rv (K 1),
                    f3_z = f3_z (f a0) + Rv (K 2)\<rparr>)) a) = f3c c (f a) + Rv (K c)"
      unfolding True f3c_def by (elim disjE) simp_all
    show ?thesis
      unfolding lhs rhs ..
  qed
qed

subsection \<open>The interaction mask in the loop over i\<close>

lemma test_bit_iff: "(w AND push_bit k 1 \<noteq> 0) = bit w k" for w :: "32 word"
  by (simp add: push_bit_of_1 and_exp_eq_0_iff_not_bit)

lemma mask_double: "push_bit k 1 + push_bit k 1 = (push_bit (Suc k) 1 :: 32 word)"
  by (simp add: push_bit_of_1)

lemma bit_clear_other:
  "k \<noteq> m \<Longrightarrow> bit (w AND NOT (2 ^ m)) k = bit w k" for w :: "32 word"
  by (auto simp: bit_and_iff bit_not_iff bit_exp_iff dest: bit_imp_le_length)

lemma i_iter_imask_bit:
  assumes "k \<noteq> m"
  shows "bit (r_imask (fst (i_iter kc ku fl args nb_sci lane cj0 jm i (rg, push_bit m 1)))) k
         = bit (r_imask rg) k"
  using assms by (simp add: i_iter_def Let_def bit_clear_other push_bit_of_1)

lemma i_loop_Suc:
  "i_loop kc ku fl args nb_sci lane cj0 jm rg (Suc n)
   = i_iter kc ku fl args nb_sci lane cj0 jm n (i_loop kc ku fl args nb_sci lane cj0 jm rg n)"
  by (simp add: i_loop_def)

lemma i_loop_inv:
  "snd (i_loop kc ku fl args nb_sci lane cj0 jm rg n)
     = push_bit (jm * c_nbnxnGpuNumClusterPerSupercluster kc + n) 1
   \<and> r_wexcl (fst (i_loop kc ku fl args nb_sci lane cj0 jm rg n)) = r_wexcl rg
   \<and> (\<forall>k. k < jm * c_nbnxnGpuNumClusterPerSupercluster kc
            \<or> jm * c_nbnxnGpuNumClusterPerSupercluster kc + n \<le> k \<longrightarrow>
          bit (r_imask (fst (i_loop kc ku fl args nb_sci lane cj0 jm rg n))) k
          = bit (r_imask rg) k)"
proof (induction n)
  case 0
  show ?case by (simp add: i_loop_def)
next
  case (Suc n)
  let ?s = "i_loop kc ku fl args nb_sci lane cj0 jm rg n"
  let ?m = "jm * c_nbnxnGpuNumClusterPerSupercluster kc + n"
  have s: "?s = (fst ?s, push_bit ?m 1)"
    using Suc.IH by (simp add: prod_eq_iff)
  have a: "snd (i_iter kc ku fl args nb_sci lane cj0 jm n (fst ?s, push_bit ?m 1))
           = push_bit (Suc ?m) 1"
    by (simp add: i_iter_other_regs mask_double)
  have b: "r_wexcl (fst (i_iter kc ku fl args nb_sci lane cj0 jm n (fst ?s, push_bit ?m 1)))
           = r_wexcl rg"
    using Suc.IH by (simp add: i_iter_other_regs)
  have c: "bit (r_imask (fst (i_iter kc ku fl args nb_sci lane cj0 jm n (fst ?s, push_bit ?m 1)))) k
           = bit (r_imask rg) k"
    if "k < jm * c_nbnxnGpuNumClusterPerSupercluster kc \<or> Suc ?m \<le> k" for k
  proof -
    from that have "k \<noteq> ?m" by auto
    then have "bit (r_imask (fst (i_iter kc ku fl args nb_sci lane cj0 jm n
                 (fst ?s, push_bit ?m 1)))) k = bit (r_imask (fst ?s)) k"
      by (rule i_iter_imask_bit)
    also from that Suc.IH have "\<dots> = bit (r_imask rg) k"
      by auto
    finally show ?thesis .
  qed
  show ?case
    unfolding i_loop_Suc
    using a b c by (subst (1 2 3) s) simp
qed

subsection \<open>The accumulators of one thread\<close>

lemma maskSet_if_bit:
  assumes "bit w (jm * c_nbnxnGpuNumClusterPerSupercluster kc + i)"
    and "i < c_nbnxnGpuNumClusterPerSupercluster kc"
  shows "maskSet kc w jm"
proof -
  let ?n = "c_nbnxnGpuNumClusterPerSupercluster kc"
  let ?x = "w AND push_bit (jm * ?n) (push_bit ?n 1 - 1)"
  have m: "push_bit ?n 1 - 1 = (mask ?n :: 32 word)"
    by (simp add: mask_eq_exp_minus_1 push_bit_of_1)
  have "jm * ?n + i < 32"
    using assms(1) by (auto dest: bit_imp_le_length)
  then have "bit ?x (jm * ?n + i)"
    using assms unfolding m by (simp add: bit_and_iff bit_push_bit_iff bit_mask_iff)
  then have "?x \<noteq> 0"
    by auto
  then show ?thesis
    by (simp add: maskSet_def superClInteractionMask_def)
qed

lemma i_iter_test:
  "(r_imask rg AND push_bit (jm * c_nbnxnGpuNumClusterPerSupercluster kc + i) 1 \<noteq> 0
     \<and> cutoff_and_exclusion_check kc fl args nb_sci cj0 jm (r_wexcl rg) i lane)
   = pair_hit kc fl args nb_sci cj0 jm (r_imask rg) (r_wexcl rg) i lane"
  unfolding pair_hit_def test_bit_iff ..

lemma pair_hit_cong:
  assumes "bit w (jm * c_nbnxnGpuNumClusterPerSupercluster kc + i)
           = bit w' (jm * c_nbnxnGpuNumClusterPerSupercluster kc + i)"
  shows "pair_hit kc fl args nb_sci cj0 jm w x i lane = pair_hit kc fl args nb_sci cj0 jm w' x i lane"
  using assms by (simp add: pair_hit_def)

lemma i_loop_acc:
  assumes "\<forall>i<n. pair_hit kc fl args nb_sci cj0 jm (r_imask rg) (r_wexcl rg) i lane \<longrightarrow> i = i0"
  shows "r_fcj_buf (fst (i_loop kc ku fl args nb_sci lane cj0 jm rg n))
         = (if i0 < n \<and> pair_hit kc fl args nb_sci cj0 jm (r_imask rg) (r_wexcl rg) i0 lane
            then ff3_add (r_fcj_buf rg) (pair_f_ij kc ku fl args nb_sci cj0 jm (r_wexcl rg) i0 lane)
            else r_fcj_buf rg)
       \<and> r_fci_buf (fst (i_loop kc ku fl args nb_sci lane cj0 jm rg n))
         = (if i0 < n \<and> pair_hit kc fl args nb_sci cj0 jm (r_imask rg) (r_wexcl rg) i0 lane
            then (r_fci_buf rg)[i0 := ff3_sub (r_fci_buf rg ! i0)
                   (pair_f_ij kc ku fl args nb_sci cj0 jm (r_wexcl rg) i0 lane)]
            else r_fci_buf rg)"
  using assms
proof (induction n)
  case 0
  show ?case by (simp add: i_loop_def)
next
  case (Suc n)
  let ?s = "i_loop kc ku fl args nb_sci lane cj0 jm rg n"
  let ?m = "jm * c_nbnxnGpuNumClusterPerSupercluster kc + n"
  note inv = i_loop_inv [of kc ku fl args nb_sci lane cj0 jm rg n]
  have s: "?s = (fst ?s, push_bit ?m 1)"
    using inv by (simp add: prod_eq_iff)
  have w: "r_wexcl (fst ?s) = r_wexcl rg"
    using inv by simp
  have "bit (r_imask (fst ?s)) ?m = bit (r_imask rg) ?m"
    using inv by simp
  then have hit: "pair_hit kc fl args nb_sci cj0 jm (r_imask (fst ?s)) (r_wexcl (fst ?s)) n lane
             = pair_hit kc fl args nb_sci cj0 jm (r_imask rg) (r_wexcl rg) n lane"
    unfolding w by (rule pair_hit_cong)
  have IH: "r_fcj_buf (fst ?s)
         = (if i0 < n \<and> pair_hit kc fl args nb_sci cj0 jm (r_imask rg) (r_wexcl rg) i0 lane
            then ff3_add (r_fcj_buf rg) (pair_f_ij kc ku fl args nb_sci cj0 jm (r_wexcl rg) i0 lane)
            else r_fcj_buf rg)"
      "r_fci_buf (fst ?s)
         = (if i0 < n \<and> pair_hit kc fl args nb_sci cj0 jm (r_imask rg) (r_wexcl rg) i0 lane
            then (r_fci_buf rg)[i0 := ff3_sub (r_fci_buf rg ! i0)
                   (pair_f_ij kc ku fl args nb_sci cj0 jm (r_wexcl rg) i0 lane)]
            else r_fci_buf rg)"
    using Suc by simp_all
  have step: "i_loop kc ku fl args nb_sci lane cj0 jm rg (Suc n)
      = i_iter kc ku fl args nb_sci lane cj0 jm n (fst ?s, push_bit ?m 1)"
    unfolding i_loop_Suc by (subst s) (rule refl)
  show ?case
  proof (cases "pair_hit kc fl args nb_sci cj0 jm (r_imask rg) (r_wexcl rg) n lane")
    case True
    then have n: "n = i0"
      using Suc.prems by simp
    have t: "r_imask (fst ?s) AND push_bit ?m 1 \<noteq> 0"
        "cutoff_and_exclusion_check kc fl args nb_sci cj0 jm (r_wexcl (fst ?s)) n lane"
      using True hit i_iter_test [of "fst ?s" jm kc n fl args nb_sci cj0 lane] by simp_all
    have "r_fcj_buf (fst (i_loop kc ku fl args nb_sci lane cj0 jm rg (Suc n)))
          = ff3_add (r_fcj_buf (fst ?s))
              (pair_f_ij kc ku fl args nb_sci cj0 jm (r_wexcl (fst ?s)) n lane)"
      unfolding step by (rule i_iter_hit(1) [OF t])
    moreover have "r_fci_buf (fst (i_loop kc ku fl args nb_sci lane cj0 jm rg (Suc n)))
          = (r_fci_buf (fst ?s))[n := ff3_sub (r_fci_buf (fst ?s) ! n)
              (pair_f_ij kc ku fl args nb_sci cj0 jm (r_wexcl (fst ?s)) n lane)]"
      unfolding step by (rule i_iter_hit(2) [OF t])
    ultimately show ?thesis
      unfolding IH w using True n by simp
  next
    case False
    then have t: "\<not> (r_imask (fst ?s) AND push_bit ?m 1 \<noteq> 0
        \<and> cutoff_and_exclusion_check kc fl args nb_sci cj0 jm (r_wexcl (fst ?s)) n lane)"
      using hit i_iter_test [of "fst ?s" jm kc n fl args nb_sci cj0 lane] by simp
    have eq: "(i0 < Suc n \<and> pair_hit kc fl args nb_sci cj0 jm (r_imask rg) (r_wexcl rg) i0 lane)
          = (i0 < n \<and> pair_hit kc fl args nb_sci cj0 jm (r_imask rg) (r_wexcl rg) i0 lane)"
      using False by (cases "i0 = n") auto
    have "r_fcj_buf (fst (i_loop kc ku fl args nb_sci lane cj0 jm rg (Suc n)))
          = r_fcj_buf (fst ?s)"
      unfolding step by (rule i_iter_skip(1) [OF t])
    moreover have "r_fci_buf (fst (i_loop kc ku fl args nb_sci lane cj0 jm rg (Suc n)))
          = r_fci_buf (fst ?s)"
      unfolding step by (rule i_iter_skip(2) [OF t])
    ultimately show ?thesis
      unfolding IH eq by simp
  qed
qed

lemma maskSet_iff:
  "maskSet kc w jm
   \<longleftrightarrow> (\<exists>i<c_nbnxnGpuNumClusterPerSupercluster kc.
          bit w (jm * c_nbnxnGpuNumClusterPerSupercluster kc + i))"
proof
  let ?n = "c_nbnxnGpuNumClusterPerSupercluster kc"
  let ?x = "w AND push_bit (jm * ?n) (push_bit ?n 1 - 1)"
  have m: "push_bit ?n 1 - 1 = (mask ?n :: 32 word)"
    by (simp add: mask_eq_exp_minus_1 push_bit_of_1)
  assume "maskSet kc w jm"
  then have "?x \<noteq> 0"
    by (simp add: maskSet_def superClInteractionMask_def)
  then obtain k where k: "bit ?x k"
    by (auto simp: bit_eq_iff)
  then have "bit w k" "jm * ?n \<le> k" "k - jm * ?n < ?n"
    unfolding m by (simp_all add: bit_and_iff bit_push_bit_iff bit_mask_iff)
  then have "k - jm * ?n < ?n \<and> bit w (jm * ?n + (k - jm * ?n))"
    by simp
  then show "\<exists>i<?n. bit w (jm * ?n + i)"
    by blast
next
  assume "\<exists>i<c_nbnxnGpuNumClusterPerSupercluster kc.
          bit w (jm * c_nbnxnGpuNumClusterPerSupercluster kc + i)"
  then show "maskSet kc w jm"
    using maskSet_if_bit by blast
qed

lemma jm_pass_i_loop:
  "jm_pass kc ku fl args nb_sci cj4e jm lane rg
   = (if maskSet kc (r_imask rg) jm
      then fst (i_loop kc ku fl args nb_sci lane (cj cj4e ! jm) jm
                  (rg\<lparr>r_fcj_buf := make_fast_float3 0\<rparr>)
                  (c_nbnxnGpuNumClusterPerSupercluster kc))
      else rg)"
  by (simp add: jm_pass_def i_loop_def)

lemma jm_pass_inv:
  "r_wexcl (jm_pass kc ku fl args nb_sci cj4e jm lane rg) = r_wexcl rg"
  "k < jm * c_nbnxnGpuNumClusterPerSupercluster kc
     \<or> jm * c_nbnxnGpuNumClusterPerSupercluster kc + c_nbnxnGpuNumClusterPerSupercluster kc \<le> k
   \<Longrightarrow> bit (r_imask (jm_pass kc ku fl args nb_sci cj4e jm lane rg)) k = bit (r_imask rg) k"
proof -
  let ?rg = "rg\<lparr>r_fcj_buf := make_fast_float3 0\<rparr>"
  let ?s = "i_loop kc ku fl args nb_sci lane (cj cj4e ! jm) jm ?rg
              (c_nbnxnGpuNumClusterPerSupercluster kc)"
  note inv = i_loop_inv [of kc ku fl args nb_sci lane "cj cj4e ! jm" jm ?rg
      "c_nbnxnGpuNumClusterPerSupercluster kc"]
  from inv have a: "r_wexcl (fst ?s) = r_wexcl ?rg"
    by blast
  then show "r_wexcl (jm_pass kc ku fl args nb_sci cj4e jm lane rg) = r_wexcl rg"
    by (simp add: jm_pass_i_loop)
  assume k: "k < jm * c_nbnxnGpuNumClusterPerSupercluster kc
     \<or> jm * c_nbnxnGpuNumClusterPerSupercluster kc + c_nbnxnGpuNumClusterPerSupercluster kc \<le> k"
  with inv have "bit (r_imask (fst ?s)) k = bit (r_imask ?rg) k"
    by blast
  then show "bit (r_imask (jm_pass kc ku fl args nb_sci cj4e jm lane rg)) k = bit (r_imask rg) k"
    by (simp add: jm_pass_i_loop)
qed

lemma jm_pass_acc:
  assumes "\<forall>i<c_nbnxnGpuNumClusterPerSupercluster kc.
      pair_hit kc fl args nb_sci (cj cj4e ! jm) jm (r_imask rg) (r_wexcl rg) i lane \<longrightarrow> i = i0"
  shows "r_fci_buf (jm_pass kc ku fl args nb_sci cj4e jm lane rg)
         = (if i0 < c_nbnxnGpuNumClusterPerSupercluster kc
               \<and> pair_hit kc fl args nb_sci (cj cj4e ! jm) jm (r_imask rg) (r_wexcl rg) i0 lane
            then (r_fci_buf rg)[i0 := ff3_sub (r_fci_buf rg ! i0)
                   (pair_f_ij kc ku fl args nb_sci (cj cj4e ! jm) jm (r_wexcl rg) i0 lane)]
            else r_fci_buf rg)"
    and "maskSet kc (r_imask rg) jm \<Longrightarrow>
         r_fcj_buf (jm_pass kc ku fl args nb_sci cj4e jm lane rg)
         = (if i0 < c_nbnxnGpuNumClusterPerSupercluster kc
               \<and> pair_hit kc fl args nb_sci (cj cj4e ! jm) jm (r_imask rg) (r_wexcl rg) i0 lane
            then ff3_add (make_fast_float3 0)
                   (pair_f_ij kc ku fl args nb_sci (cj cj4e ! jm) jm (r_wexcl rg) i0 lane)
            else make_fast_float3 0)"
proof -
  let ?rg = "rg\<lparr>r_fcj_buf := make_fast_float3 0\<rparr>"
  have u: "\<forall>i<c_nbnxnGpuNumClusterPerSupercluster kc.
      pair_hit kc fl args nb_sci (cj cj4e ! jm) jm (r_imask ?rg) (r_wexcl ?rg) i lane \<longrightarrow> i = i0"
    using assms by simp
  note acc = i_loop_acc [OF u, of ku]
  have nohit: "\<not> (i0 < c_nbnxnGpuNumClusterPerSupercluster kc
               \<and> pair_hit kc fl args nb_sci (cj cj4e ! jm) jm (r_imask rg) (r_wexcl rg) i0 lane)"
    if "\<not> maskSet kc (r_imask rg) jm"
    using that by (auto simp: maskSet_iff pair_hit_def)
  show "r_fci_buf (jm_pass kc ku fl args nb_sci cj4e jm lane rg)
         = (if i0 < c_nbnxnGpuNumClusterPerSupercluster kc
               \<and> pair_hit kc fl args nb_sci (cj cj4e ! jm) jm (r_imask rg) (r_wexcl rg) i0 lane
            then (r_fci_buf rg)[i0 := ff3_sub (r_fci_buf rg ! i0)
                   (pair_f_ij kc ku fl args nb_sci (cj cj4e ! jm) jm (r_wexcl rg) i0 lane)]
            else r_fci_buf rg)"
  proof (cases "maskSet kc (r_imask rg) jm")
    case True
    then show ?thesis
      using acc by (simp add: jm_pass_i_loop)
  next
    case False
    then show ?thesis
      using nohit by (auto simp: jm_pass_i_loop)
  qed
  show "r_fcj_buf (jm_pass kc ku fl args nb_sci cj4e jm lane rg)
         = (if i0 < c_nbnxnGpuNumClusterPerSupercluster kc
               \<and> pair_hit kc fl args nb_sci (cj cj4e ! jm) jm (r_imask rg) (r_wexcl rg) i0 lane
            then ff3_add (make_fast_float3 0)
                   (pair_f_ij kc ku fl args nb_sci (cj cj4e ! jm) jm (r_wexcl rg) i0 lane)
            else make_fast_float3 0)"
    if "maskSet kc (r_imask rg) jm"
    using that acc by (simp add: jm_pass_i_loop)
qed

subsection \<open>The threads of a block\<close>

lemma lanes_product:
  "lanes kc = map prod.swap (List.product [0..<c_clSize kc] [0..<c_clSize kc])"
  by (simp add: lanes_def List.product_concat_map map_concat comp_def)

lemma set_lanes: "set (lanes kc) = {l. fst l < c_clSize kc \<and> snd l < c_clSize kc}"
  by (auto simp: lanes_product)

lemma distinct_lanes: "distinct (lanes kc)"
  unfolding lanes_product by (simp add: distinct_map distinct_product)

lemma foldl_cond_adds:
  "foldl (\<lambda>f k. if P k then atomic_add_force f (A k) (C k) (Rv k) else f) f ks
   = apply_adds f (map (\<lambda>k. (A k, C k, Rv k)) (filter P ks))"
  by (induction ks arbitrary: f) (simp_all add: apply_adds_def)

subsection \<open>One j-cluster for the whole block\<close>

lemma component_zero [simp]: "component c (make_fast_float3 0) = 0"
  by (simp add: component_def make_fast_float3_def fast_float3_xyz_def ff3_defs)

lemma component_add_zero:
  assumes "representable3 (to_float3 v)"
  shows "component c (ff3_add (make_fast_float3 0) v) = component c v"
  using assms
  by (simp add: component_def make_fast_float3_def fast_float3_xyz_def ff3_defs
      representable3_def to_float3_def add_zero_float)

lemma to_float3_components:
  "to_float3 v = \<lparr>f3_x = component 0 v, f3_y = component 1 v, f3_z = component 2 v\<rparr>"
  by (simp add: to_float3_def component_def)

lemma representable_component:
  assumes "representable3 (to_float3 v)"
  shows "representable (component c v)"
  using assms by (simp add: to_float3_def component_def representable3_def)

lemma representable3_zero [simp]: "representable3 zero_float3"
  by (simp add: representable3_def zero_float3_def make_float3_def)

lemma zero_float3_add:
  assumes "representable3 (to_float3 v)"
  shows "\<lparr>f3_x = f3_x zero_float3 + component 0 v, f3_y = f3_y zero_float3 + component 1 v,
          f3_z = f3_z zero_float3 + component 2 v\<rparr> = to_float3 v"
proof -
  have "representable (component 0 v)" "representable (component 1 v)"
    "representable (component 2 v)"
    using assms by (rule representable_component)+
  then show ?thesis
    unfolding to_float3_components
    by (simp add: zero_float3_def make_float3_def add_zero_float)
qed

lemma block_jm_apply_adds:
  "block_jm kc ku fl args nb_sci cj4e st jm
   = st\<lparr>b_regs := (\<lambda>lane. jm_pass kc ku fl args nb_sci cj4e jm lane (b_regs st lane)),
        g_f := apply_adds (g_f st)
                 (map (\<lambda>lane. (atom_index_j kc (cj cj4e ! jm) (snd lane), fst lane,
                         reduce_force_j_warp_shfl kc
                           (\<lambda>l. r_fcj_buf (jm_pass kc ku fl args nb_sci cj4e jm l (b_regs st l)))
                           lane))
                    (filter (\<lambda>lane. maskSet kc (r_imask (b_regs st lane)) jm \<and> fst lane < 3)
                       (lanes kc)))\<rparr>"
  by (simp add: block_jm_def Let_def foldl_cond_adds)

lemma block_jm_step:
  fixes M W :: "nat \<times> nat \<Rightarrow> 32 word"
  assumes follow: "regs_follow kc jm M W (b_regs st)"
    and rows: "rows_uniform kc M"
    and cl3: "3 \<le> c_clSize kc"
    and lane0: "lane0 \<in> set (lanes kc)"
    and i0: "i0 < c_nbnxnGpuNumClusterPerSupercluster kc"
    and uniq: "\<forall>lane\<in>set (lanes kc). \<forall>i<c_nbnxnGpuNumClusterPerSupercluster kc.
        pair_hit kc fl args nb_sci (cj cj4e ! jm) jm (M lane) (W lane) i lane
        \<longrightarrow> E \<and> i = i0 \<and> lane = lane0"
    and here: "E \<Longrightarrow> pair_hit kc fl args nb_sci (cj cj4e ! jm) jm (M lane0) (W lane0) i0 lane0"
    and fresh: "E \<Longrightarrow> \<not> b"
    and fij: "E \<Longrightarrow> fij = pair_f_ij kc ku fl args nb_sci (cj cj4e ! jm) jm (W lane0) i0 lane0"
    and aj: "E \<Longrightarrow> aj = atom_index_j kc (cj cj4e ! jm) (snd lane0)"
    and st: "block_matches kc lane0 i0 aj fij b st"
    and repr: "representable3 (to_float3 fij)"
  shows "block_matches kc lane0 i0 aj fij (b \<or> E) (block_jm kc ku fl args nb_sci cj4e st jm)"
    and "regs_follow kc (Suc jm) M W (b_regs (block_jm kc ku fl args nb_sci cj4e st jm))"
    and "g_cj4 (block_jm kc ku fl args nb_sci cj4e st jm) = g_cj4 st"
proof -
  define N where "N = c_nbnxnGpuNumClusterPerSupercluster kc"
  define cj0 where "cj0 = cj cj4e ! jm"
  define z where "z = make_fast_float3 0"
  define regs' where
    "regs' = (\<lambda>lane. jm_pass kc ku fl args nb_sci cj4e jm lane (b_regs st lane))"
  define P where "P = (\<lambda>lane. maskSet kc (r_imask (b_regs st lane)) jm \<and> fst lane < 3)"
  define Rv where
    "Rv = (\<lambda>lane. reduce_force_j_warp_shfl kc (\<lambda>l. r_fcj_buf (regs' l)) lane)"
  have bj: "block_jm kc ku fl args nb_sci cj4e st jm
      = st\<lparr>b_regs := regs',
           g_f := apply_adds (g_f st)
                    (map (\<lambda>lane. (atom_index_j kc cj0 (snd lane), fst lane, Rv lane))
                       (filter P (lanes kc)))\<rparr>"
    unfolding block_jm_apply_adds regs'_def P_def Rv_def cj0_def ..
  show "g_cj4 (block_jm kc ku fl args nb_sci cj4e st jm) = g_cj4 st"
    by (simp add: bj)
  have wx: "r_wexcl (b_regs st lane) = W lane" for lane
    using follow unfolding regs_follow_def by blast
  have bits: "bit (r_imask (b_regs st lane)) k = bit (M lane) k" if "jm * N \<le> k" for lane k
    using follow that unfolding regs_follow_def N_def by blast
  have hit_eq: "pair_hit kc fl args nb_sci cj0 jm (r_imask (b_regs st lane))
                  (r_wexcl (b_regs st lane)) i lane
                = pair_hit kc fl args nb_sci cj0 jm (M lane) (W lane) i lane" for lane i
    unfolding wx by (rule pair_hit_cong) (simp add: bits N_def [symmetric])
  have ms_eq: "maskSet kc (r_imask (b_regs st lane)) jm = maskSet kc (M lane) jm" for lane
    unfolding maskSet_iff N_def [symmetric] by (simp add: bits)
  show "regs_follow kc (Suc jm) M W (b_regs (block_jm kc ku fl args nb_sci cj4e st jm))"
    unfolding regs_follow_def
  proof (intro allI conjI impI)
    fix lane k
    show "r_wexcl (b_regs (block_jm kc ku fl args nb_sci cj4e st jm) lane) = W lane"
      by (simp add: bj regs'_def jm_pass_inv(1) wx)
    assume "Suc jm * c_nbnxnGpuNumClusterPerSupercluster kc \<le> k"
    then have k: "jm * N + N \<le> k"
      by (simp add: N_def)
    then have "bit (r_imask (regs' lane)) k = bit (r_imask (b_regs st lane)) k"
      unfolding regs'_def N_def by (intro jm_pass_inv(2)) simp
    also have "\<dots> = bit (M lane) k"
      using k by (intro bits) simp
    finally show "bit (r_imask (b_regs (block_jm kc ku fl args nb_sci cj4e st jm) lane)) k
        = bit (M lane) k"
      by (simp add: bj)
  qed
  have hit_iff: "(i0 < N \<and> pair_hit kc fl args nb_sci cj0 jm (r_imask (b_regs st lane))
                  (r_wexcl (b_regs st lane)) i0 lane) = (E \<and> lane = lane0)"
    if "lane \<in> set (lanes kc)" for lane
    unfolding hit_eq
    using that uniq i0 here by (auto simp: N_def cj0_def)
  have uniq': "\<forall>i<c_nbnxnGpuNumClusterPerSupercluster kc.
      pair_hit kc fl args nb_sci (cj cj4e ! jm) jm (r_imask (b_regs st lane))
        (r_wexcl (b_regs st lane)) i lane \<longrightarrow> i = i0"
    if "lane \<in> set (lanes kc)" for lane
    using that uniq hit_eq [of lane] by (simp add: cj0_def)
  have fij': "pair_f_ij kc ku fl args nb_sci cj0 jm (r_wexcl (b_regs st lane0)) i0 lane0 = fij"
    if E
    using fij [OF that] by (simp add: wx cj0_def)
  have fci': "r_fci_buf (regs' lane)
      = (if E \<and> lane = lane0
         then (r_fci_buf (b_regs st lane))[i0 := ff3_sub (r_fci_buf (b_regs st lane) ! i0) fij]
         else r_fci_buf (b_regs st lane))"
    if "lane \<in> set (lanes kc)" for lane
    unfolding regs'_def jm_pass_acc(1) [OF uniq' [OF that]]
      hit_iff [OF that, unfolded N_def cj0_def]
    using fij' by (auto simp: cj0_def)
  have fcj': "r_fcj_buf (regs' lane) = (if E \<and> lane = lane0 then ff3_add z fij else z)"
    if "lane \<in> set (lanes kc)" and "maskSet kc (M lane) jm" for lane
  proof -
    have m: "maskSet kc (r_imask (b_regs st lane)) jm"
      using that(2) by (simp add: ms_eq)
    show ?thesis
      unfolding regs'_def jm_pass_acc(2) [OF uniq' [OF that(1)] m]
        hit_iff [OF that(1), unfolded N_def cj0_def]
      using fij' by (auto simp: cj0_def z_def)
  qed
  have fci_st: "r_fci_buf (b_regs st lane)
      = (if b \<and> lane = lane0 then (replicate N z)[i0 := ff3_sub z fij] else replicate N z)"
    if "lane \<in> set (lanes kc)" for lane
    using st that by (simp add: block_matches_def N_def z_def)
  have fci_new: "r_fci_buf (regs' lane)
      = (if (b \<or> E) \<and> lane = lane0 then (replicate N z)[i0 := ff3_sub z fij]
         else replicate N z)"
    if "lane \<in> set (lanes kc)" for lane
    unfolding fci' [OF that] fci_st [OF that]
    using fresh i0 by (auto simp: N_def)
  have rv: "Rv lane = (if E \<and> snd lane = snd lane0 then component (fst lane) fij else 0)"
    if "lane \<in> set (filter P (lanes kc))" for lane
  proof -
    have l: "lane \<in> set (lanes kc)" and m: "maskSet kc (M lane) jm"
      using that by (simp_all add: P_def ms_eq)
    have row: "r_fcj_buf (regs' (ti, snd lane))
               = (if E \<and> (ti, snd lane) = lane0 then ff3_add z fij else z)"
      if "ti < c_clSize kc" for ti
    proof -
      have in_l: "(ti, snd lane) \<in> set (lanes kc)"
        using l that by (simp add: set_lanes)
      with rows l have "M (ti, snd lane) = M lane"
        unfolding rows_uniform_def by (metis snd_conv)
      with m have "maskSet kc (M (ti, snd lane)) jm"
        by simp
      with in_l show ?thesis
        by (rule fcj')
    qed
    have comp: "component (fst lane) (r_fcj_buf (regs' (ti, snd lane)))
               = (if E \<and> (ti, snd lane) = lane0 then component (fst lane) fij else 0)"
      if "ti < c_clSize kc" for ti
      unfolding row [OF that]
      using repr by (simp add: z_def component_add_zero)
    show ?thesis
    proof (cases "E \<and> snd lane = snd lane0")
      case True
      have k: "fst lane0 < c_clSize kc"
        using lane0 by (simp add: set_lanes)
      have "reduce_sum (map (\<lambda>ti. component (fst lane) (r_fcj_buf (regs' (ti, snd lane))))
                         [0..<c_clSize kc])
            = component (fst lane) (r_fcj_buf (regs' (fst lane0, snd lane)))"
      proof (rule reduce_sum_one [OF k])
        show "\<forall>i<c_clSize kc. i \<noteq> fst lane0 \<longrightarrow>
            component (fst lane) (r_fcj_buf (regs' (i, snd lane))) = 0"
          using comp by (auto simp: prod_eq_iff)
        show "representable (component (fst lane) (r_fcj_buf (regs' (fst lane0, snd lane))))"
          using comp [OF k] repr by (auto simp: representable_component)
      qed
      also have "\<dots> = component (fst lane) fij"
        using comp [OF k] True by (simp add: prod_eq_iff)
      finally show ?thesis
        using True by (simp add: Rv_def reduce_force_j_warp_shfl_def)
    next
      case False
      then have "\<forall>ti<c_clSize kc.
          component (fst lane) (r_fcj_buf (regs' (ti, snd lane))) = 0"
        using comp by (auto simp: prod_eq_iff)
      then have "reduce_sum (map (\<lambda>ti. component (fst lane) (r_fcj_buf (regs' (ti, snd lane))))
                         [0..<c_clSize kc]) = 0"
        by (rule reduce_sum_zeros)
      then show ?thesis
        using False by (auto simp: Rv_def reduce_force_j_warp_shfl_def)
    qed
  qed
  have gf_st: "g_f st = (if b then (\<lambda>a. zero_float3)(aj := to_float3 fij) else (\<lambda>a. zero_float3))"
    using st by (simp add: block_matches_def)
  have repr_st: "\<forall>a. representable3 (g_f st a)"
    using repr by (simp add: gf_st)
  have gf_new: "apply_adds (g_f st)
                    (map (\<lambda>lane. (atom_index_j kc cj0 (snd lane), fst lane, Rv lane))
                       (filter P (lanes kc)))
      = (if b \<or> E then (\<lambda>a. zero_float3)(aj := to_float3 fij) else (\<lambda>a. zero_float3))"
  proof (cases E)
    case False
    then have "\<forall>k\<in>set (filter P (lanes kc)). Rv k = 0"
      using rv by simp
    with repr_st have "apply_adds (g_f st)
                    (map (\<lambda>lane. (atom_index_j kc cj0 (snd lane), fst lane, Rv lane))
                       (filter P (lanes kc))) = g_f st"
      by (rule apply_adds_zero)
    then show ?thesis
      using False by (simp add: gf_st)
  next
    case True
    have gf0: "g_f st = (\<lambda>a. zero_float3)"
      using fresh [OF True] by (simp add: gf_st)
    have m0: "maskSet kc (M lane0) jm"
      using here [OF True] i0 by (auto simp: maskSet_iff pair_hit_def)
    have l0: "fst lane0 < c_clSize kc" "snd lane0 < c_clSize kc"
      using lane0 by (simp_all add: set_lanes)
    have key: "(c, snd lane0) \<in> set (filter P (lanes kc))" if "c < 3" for c
    proof -
      have in_l: "(c, snd lane0) \<in> set (lanes kc)"
        using that cl3 l0 by (simp add: set_lanes)
      with rows lane0 have "M (c, snd lane0) = M lane0"
        unfolding rows_uniform_def by (metis snd_conv)
      with m0 in_l that show ?thesis
        by (simp add: P_def ms_eq)
    qed
    have "apply_adds (g_f st)
            (map (\<lambda>lane. (atom_index_j kc cj0 (snd lane), fst lane, Rv lane))
               (filter P (lanes kc)))
          = (g_f st)(aj := \<lparr>f3_x = f3_x (g_f st aj) + Rv (0, snd lane0),
                             f3_y = f3_y (g_f st aj) + Rv (1, snd lane0),
                             f3_z = f3_z (g_f st aj) + Rv (2, snd lane0)\<rparr>)"
    proof (rule apply_adds_three [where K = "\<lambda>c. (c, snd lane0)"])
      show "distinct (filter P (lanes kc))"
        by (simp add: distinct_lanes)
      show "\<forall>a. representable3 (g_f st a)"
        by (rule repr_st)
      show "\<forall>k\<in>set (filter P (lanes kc)). (\<forall>c<3. k \<noteq> (c, snd lane0)) \<longrightarrow> Rv k = 0"
      proof (intro ballI impI)
        fix k
        assume k: "k \<in> set (filter P (lanes kc))" and ne: "\<forall>c<3. k \<noteq> (c, snd lane0)"
        from k have "fst k < 3"
          by (simp add: P_def)
        with ne have "snd k \<noteq> snd lane0"
          by (auto simp: prod_eq_iff)
        then show "Rv k = 0"
          by (simp add: rv [OF k])
      qed
      show "\<forall>c<3. (c, snd lane0) \<in> set (filter P (lanes kc))
          \<and> atom_index_j kc cj0 (snd (c, snd lane0)) = aj \<and> fst (c, snd lane0) = c"
        using key aj [OF True] by (simp add: cj0_def)
      show "\<forall>k\<in>set (filter P (lanes kc)). \<forall>c<3.
          atom_index_j kc cj0 (snd k) = aj \<and> min (fst k) 2 = c \<longrightarrow> k = (c, snd lane0)"
        using aj [OF True] by (auto simp: P_def cj0_def atom_index_j_def prod_eq_iff)
    qed
    also have "\<dots> = (\<lambda>a. zero_float3)(aj := to_float3 fij)"
      using True zero_float3_add [OF repr] by (simp add: gf0 rv [OF key])
    finally show ?thesis
      using True by simp
  qed
  show "block_matches kc lane0 i0 aj fij (b \<or> E) (block_jm kc ku fl args nb_sci cj4e st jm)"
    unfolding block_matches_def bj
    using gf_new fci_new by (simp add: N_def z_def)
qed

subsection \<open>One cj4 entry and the loop over the entries\<close>

lemma load_cj4_regs:
  assumes "g = pl_cj4 args j4"
  shows "r_imask (load_cj4 kc fl args g lane rg) = imask_word kc args j4 lane"
    and "imask_word kc args j4 lane \<noteq> 0 \<Longrightarrow>
         r_wexcl (load_cj4 kc fl args g lane rg) = excl_word kc args j4 lane"
    and "r_fci_buf (load_cj4 kc fl args g lane rg) = r_fci_buf rg"
  using assms by (simp_all add: load_cj4_def Let_def imask_word_def excl_word_def)

lemma pair_hit_mask_nonzero:
  "pair_hit kc fl args nb_sci cj0 jm w x i lane \<Longrightarrow> w \<noteq> 0"
  by (auto simp: pair_hit_def)

lemma block_jm_fold:
  fixes M W :: "nat \<times> nat \<Rightarrow> 32 word"
  assumes rows: "rows_uniform kc M"
    and cl3: "3 \<le> c_clSize kc"
    and lane0: "lane0 \<in> set (lanes kc)"
    and i0: "i0 < c_nbnxnGpuNumClusterPerSupercluster kc"
    and uniq: "\<forall>jm<n. \<forall>lane\<in>set (lanes kc). \<forall>i<c_nbnxnGpuNumClusterPerSupercluster kc.
        pair_hit kc fl args nb_sci (cj cj4e ! jm) jm (M lane) (W lane) i lane
        \<longrightarrow> E4 \<and> jm = jm0 \<and> i = i0 \<and> lane = lane0"
    and here: "E4 \<Longrightarrow> pair_hit kc fl args nb_sci (cj cj4e ! jm0) jm0 (M lane0) (W lane0) i0 lane0"
    and fresh: "E4 \<Longrightarrow> \<not> b"
    and fij: "E4 \<Longrightarrow> fij = pair_f_ij kc ku fl args nb_sci (cj cj4e ! jm0) jm0 (W lane0) i0 lane0"
    and aj: "E4 \<Longrightarrow> aj = atom_index_j kc (cj cj4e ! jm0) (snd lane0)"
    and repr: "representable3 (to_float3 fij)"
    and follow: "regs_follow kc 0 M W (b_regs st)"
    and st: "block_matches kc lane0 i0 aj fij b st"
  shows "block_matches kc lane0 i0 aj fij (b \<or> (E4 \<and> jm0 < n))
           (foldl (block_jm kc ku fl args nb_sci cj4e) st [0..<n])
         \<and> regs_follow kc n M W
             (b_regs (foldl (block_jm kc ku fl args nb_sci cj4e) st [0..<n]))
         \<and> g_cj4 (foldl (block_jm kc ku fl args nb_sci cj4e) st [0..<n]) = g_cj4 st"
  using uniq
proof (induction n)
  case 0
  show ?case
    using follow st by simp
next
  case (Suc n)
  let ?st = "foldl (block_jm kc ku fl args nb_sci cj4e) st [0..<n]"
  let ?E = "E4 \<and> n = jm0"
  let ?b = "b \<or> (E4 \<and> jm0 < n)"
  have p: "\<forall>jm<n. \<forall>lane\<in>set (lanes kc). \<forall>i<c_nbnxnGpuNumClusterPerSupercluster kc.
        pair_hit kc fl args nb_sci (cj cj4e ! jm) jm (M lane) (W lane) i lane
        \<longrightarrow> E4 \<and> jm = jm0 \<and> i = i0 \<and> lane = lane0"
    using Suc.prems less_SucI by blast
  have IH: "block_matches kc lane0 i0 aj fij ?b ?st" "regs_follow kc n M W (b_regs ?st)"
    "g_cj4 ?st = g_cj4 st"
    using Suc.IH [OF p] by blast+
  have u: "\<forall>lane\<in>set (lanes kc). \<forall>i<c_nbnxnGpuNumClusterPerSupercluster kc.
        pair_hit kc fl args nb_sci (cj cj4e ! n) n (M lane) (W lane) i lane
        \<longrightarrow> ?E \<and> i = i0 \<and> lane = lane0"
    using Suc.prems lessI by blast
  have h: "pair_hit kc fl args nb_sci (cj cj4e ! n) n (M lane0) (W lane0) i0 lane0" if "?E"
    using that here by auto
  have f: "\<not> ?b" if "?E"
    using that fresh by auto
  have fe: "fij = pair_f_ij kc ku fl args nb_sci (cj cj4e ! n) n (W lane0) i0 lane0" if "?E"
    using that fij by auto
  have ae: "aj = atom_index_j kc (cj cj4e ! n) (snd lane0)" if "?E"
    using that aj by auto
  note step = block_jm_step [OF IH(2) rows cl3 lane0 i0 u h f fe ae IH(1) repr]
  have eq: "(?b \<or> ?E) = (b \<or> (E4 \<and> jm0 < Suc n))"
    by auto
  show ?case
    using step IH(3) unfolding eq by simp
qed

lemma block_matches_cong:
  assumes "g_f st' = g_f st" and "\<forall>lane\<in>set (lanes kc). r_fci_buf (b_regs st' lane) = r_fci_buf (b_regs st lane)"
  shows "block_matches kc lane0 i0 aj fij b st' = block_matches kc lane0 i0 aj fij b st"
  using assms by (simp add: block_matches_def)

lemma block_j4_step:
  assumes cj4: "g_cj4 st j4 = pl_cj4 args j4"
    and warp: "rows_in_one_warp kc"
    and cl3: "3 \<le> c_clSize kc"
    and lane0: "lane0 \<in> set (lanes kc)"
    and i0: "i0 < c_nbnxnGpuNumClusterPerSupercluster kc"
    and uniq: "\<forall>jm<c_nbnxnGpuJgroupSize kc. \<forall>lane\<in>set (lanes kc).
        \<forall>i<c_nbnxnGpuNumClusterPerSupercluster kc.
        pair_evaluated kc fl args nb_sci j4 jm i lane
        \<longrightarrow> E4 \<and> jm = jm0 \<and> i = i0 \<and> lane = lane0"
    and jm0: "E4 \<Longrightarrow> jm0 < c_nbnxnGpuJgroupSize kc"
    and here: "E4 \<Longrightarrow> pair_evaluated kc fl args nb_sci j4 jm0 i0 lane0"
    and fresh: "E4 \<Longrightarrow> \<not> b"
    and fij: "E4 \<Longrightarrow> fij = evaluated_f_ij kc ku fl args nb_sci j4 jm0 i0 lane0"
    and aj: "E4 \<Longrightarrow> aj = atom_index_j kc (cj (pl_cj4 args j4) ! jm0) (snd lane0)"
    and repr: "representable3 (to_float3 fij)"
    and st: "block_matches kc lane0 i0 aj fij b st"
  shows "block_matches kc lane0 i0 aj fij (b \<or> E4) (block_j4 kc ku fl args nb_sci st j4)"
    and "j \<noteq> j4 \<Longrightarrow> g_cj4 (block_j4 kc ku fl args nb_sci st j4) j = g_cj4 st j"
proof -
  define cj4e where "cj4e = pl_cj4 args j4"
  define M where "M = imask_word kc args j4"
  define regs1 where "regs1 = (\<lambda>lane. load_cj4 kc fl args cj4e lane (b_regs st lane))"
  define W where "W = (\<lambda>lane. r_wexcl (regs1 lane))"
  define st1 where "st1 = st\<lparr>b_regs := regs1\<rparr>"
  define st2 where
    "st2 = foldl (block_jm kc ku fl args nb_sci cj4e) st1 [0..<c_nbnxnGpuJgroupSize kc]"
  have b4: "block_j4 kc ku fl args nb_sci st j4
      = (if PRUNE_NBL fl
         then st2\<lparr>g_cj4 := (g_cj4 st2)(j4 := store_imask kc (b_regs st2) cj4e)\<rparr>
         else st2)"
    unfolding block_j4_def Let_def cj4 st2_def st1_def regs1_def cj4e_def ..
  have im: "r_imask (regs1 lane) = M lane" for lane
    unfolding regs1_def M_def by (rule load_cj4_regs(1) [OF cj4e_def])
  have follow: "regs_follow kc 0 M W (b_regs st1)"
    unfolding regs_follow_def by (simp add: st1_def im W_def)
  have rows: "rows_uniform kc M"
    unfolding rows_uniform_def
  proof (intro ballI impI)
    fix l l'
    assume "l \<in> set (lanes kc)" "l' \<in> set (lanes kc)" "snd l = snd l'"
    with warp have "widx_of kc l = widx_of kc l'"
      unfolding rows_in_one_warp_def by blast
    then show "M l = M l'"
      by (simp add: M_def imask_word_def)
  qed
  have W_eq: "W lane = excl_word kc args j4 lane" if "M lane \<noteq> 0" for lane
    using that by (simp add: W_def regs1_def M_def load_cj4_regs(2) [OF cj4e_def])
  have hit: "pair_hit kc fl args nb_sci (cj cj4e ! jm) jm (M lane) (W lane) i lane
      = pair_evaluated kc fl args nb_sci j4 jm i lane" for jm i lane
  proof (cases "M lane = 0")
    case True
    then show ?thesis
      by (auto simp: pair_evaluated_def M_def dest: pair_hit_mask_nonzero)
  next
    case False
    then show ?thesis
      by (simp add: W_eq pair_evaluated_def M_def cj4e_def)
  qed
  have W0: "W lane0 = excl_word kc args j4 lane0" if E4
  proof -
    have "M lane0 \<noteq> 0"
      using here [OF that] by (auto simp: pair_evaluated_def M_def dest: pair_hit_mask_nonzero)
    then show ?thesis
      by (rule W_eq)
  qed
  have u: "\<forall>jm<c_nbnxnGpuJgroupSize kc. \<forall>lane\<in>set (lanes kc).
        \<forall>i<c_nbnxnGpuNumClusterPerSupercluster kc.
        pair_hit kc fl args nb_sci (cj cj4e ! jm) jm (M lane) (W lane) i lane
        \<longrightarrow> E4 \<and> jm = jm0 \<and> i = i0 \<and> lane = lane0"
    unfolding hit by (rule uniq)
  have h: "pair_hit kc fl args nb_sci (cj cj4e ! jm0) jm0 (M lane0) (W lane0) i0 lane0" if E4
    unfolding hit using that by (rule here)
  have fe: "fij = pair_f_ij kc ku fl args nb_sci (cj cj4e ! jm0) jm0 (W lane0) i0 lane0" if E4
    using fij [OF that] W0 [OF that] by (simp add: evaluated_f_ij_def cj4e_def)
  have ae: "aj = atom_index_j kc (cj cj4e ! jm0) (snd lane0)" if E4
    using aj [OF that] by (simp add: cj4e_def)
  have st1: "block_matches kc lane0 i0 aj fij b st1"
    using st
    by (simp add: block_matches_def st1_def regs1_def load_cj4_regs(3) [OF cj4e_def])
  note fold = block_jm_fold [OF rows cl3 lane0 i0 u h fresh fe ae repr follow st1]
  have eq: "(b \<or> (E4 \<and> jm0 < c_nbnxnGpuJgroupSize kc)) = (b \<or> E4)"
    using jm0 by auto
  from fold have m2: "block_matches kc lane0 i0 aj fij (b \<or> E4) st2"
    and c2: "g_cj4 st2 = g_cj4 st1"
    unfolding eq st2_def by blast+
  show "block_matches kc lane0 i0 aj fij (b \<or> E4) (block_j4 kc ku fl args nb_sci st j4)"
    using m2 by (simp add: b4 block_matches_def)
  show "g_cj4 (block_j4 kc ku fl args nb_sci st j4) j = g_cj4 st j" if "j \<noteq> j4"
    using that c2 by (simp add: b4 st1_def)
qed

lemma block_j4_fold:
  assumes warp: "rows_in_one_warp kc"
    and cl3: "3 \<le> c_clSize kc"
    and lane0: "lane0 \<in> set (lanes kc)"
    and i0: "i0 < c_nbnxnGpuNumClusterPerSupercluster kc"
    and jm0: "jm0 < c_nbnxnGpuJgroupSize kc"
    and fij: "fij = evaluated_f_ij kc ku fl args nb_sci j40 jm0 i0 lane0"
    and aj: "aj = atom_index_j kc (cj (pl_cj4 args j40) ! jm0) (snd lane0)"
    and repr: "representable3 (to_float3 fij)"
    and dist: "distinct js"
    and cj4: "\<forall>j\<in>set js. g_cj4 st j = pl_cj4 args j"
    and uniq: "\<forall>j4\<in>set js. \<forall>jm<c_nbnxnGpuJgroupSize kc. \<forall>lane\<in>set (lanes kc).
        \<forall>i<c_nbnxnGpuNumClusterPerSupercluster kc.
        pair_evaluated kc fl args nb_sci j4 jm i lane
        \<longrightarrow> j4 = j40 \<and> jm = jm0 \<and> i = i0 \<and> lane = lane0"
    and here: "j40 \<in> set js \<Longrightarrow> pair_evaluated kc fl args nb_sci j40 jm0 i0 lane0"
    and fresh: "j40 \<in> set js \<Longrightarrow> \<not> b"
    and st: "block_matches kc lane0 i0 aj fij b st"
  shows "block_matches kc lane0 i0 aj fij (b \<or> j40 \<in> set js)
           (foldl (block_j4 kc ku fl args nb_sci) st js)"
  using dist cj4 uniq here fresh st
proof (induction js arbitrary: st b)
  case Nil
  then show ?case by simp
next
  case (Cons j js)
  let ?E = "j = j40"
  let ?st = "block_j4 kc ku fl args nb_sci st j"
  have c: "g_cj4 st j = pl_cj4 args j"
    using Cons.prems(2) by simp
  have u: "\<forall>jm<c_nbnxnGpuJgroupSize kc. \<forall>lane\<in>set (lanes kc).
        \<forall>i<c_nbnxnGpuNumClusterPerSupercluster kc.
        pair_evaluated kc fl args nb_sci j jm i lane
        \<longrightarrow> ?E \<and> jm = jm0 \<and> i = i0 \<and> lane = lane0"
    using Cons.prems(3) by simp
  have h: "pair_evaluated kc fl args nb_sci j jm0 i0 lane0" if "?E"
    using that Cons.prems(4) by simp
  have f: "\<not> b" if "?E"
    using that Cons.prems(5) by simp
  have fe: "fij = evaluated_f_ij kc ku fl args nb_sci j jm0 i0 lane0" if "?E"
    using that fij by simp
  have ae: "aj = atom_index_j kc (cj (pl_cj4 args j) ! jm0) (snd lane0)" if "?E"
    using that aj by simp
  note step = block_j4_step [OF c warp cl3 lane0 i0 u jm0 h f fe ae repr Cons.prems(6)]
  have d: "distinct js" and nj: "j \<notin> set js"
    using Cons.prems(1) by simp_all
  have c': "\<forall>j'\<in>set js. g_cj4 ?st j' = pl_cj4 args j'"
  proof
    fix j'
    assume j': "j' \<in> set js"
    with nj have "j' \<noteq> j" by auto
    then have "g_cj4 ?st j' = g_cj4 st j'"
      using step(2) by blast
    with j' Cons.prems(2) show "g_cj4 ?st j' = pl_cj4 args j'"
      by simp
  qed
  have u': "\<forall>j4\<in>set js. \<forall>jm<c_nbnxnGpuJgroupSize kc. \<forall>lane\<in>set (lanes kc).
        \<forall>i<c_nbnxnGpuNumClusterPerSupercluster kc.
        pair_evaluated kc fl args nb_sci j4 jm i lane
        \<longrightarrow> j4 = j40 \<and> jm = jm0 \<and> i = i0 \<and> lane = lane0"
    using Cons.prems(3) by simp
  have h': "pair_evaluated kc fl args nb_sci j40 jm0 i0 lane0" if "j40 \<in> set js"
    using that Cons.prems(4) by simp
  have f': "\<not> (b \<or> ?E)" if "j40 \<in> set js"
    using that Cons.prems(5) nj by auto
  have "block_matches kc lane0 i0 aj fij ((b \<or> ?E) \<or> j40 \<in> set js)
           (foldl (block_j4 kc ku fl args nb_sci) ?st js)"
    using d c' u' h' f' step(1) by (rule Cons.IH)
  moreover have "((b \<or> ?E) \<or> j40 \<in> set js) = (b \<or> j40 \<in> set (j # js))"
    by auto
  ultimately show ?case
    by simp
qed

subsection \<open>The reduction of the i-forces\<close>

lemma apply_adds_append: "apply_adds f (xs @ ys) = apply_adds (apply_adds f xs) ys"
  by (simp add: apply_adds_def)

lemma foldl_inner_adds:
  "foldl (\<lambda>f i. atomic_add_force f (A i) c (Rv i)) f xs
   = apply_adds f (map (\<lambda>i. (A i, c, Rv i)) xs)"
  by (induction xs arbitrary: f) (simp_all add: apply_adds_def)

lemma foldl_nested_adds:
  "foldl (\<lambda>f l. if P l then foldl (\<lambda>f i. atomic_add_force f (A l i) (C l) (Rv l i)) f xs
                  else f) f ls
   = apply_adds f (map (\<lambda>k. (A (fst k) (snd k), C (fst k), Rv (fst k) (snd k)))
                    (List.product (filter P ls) xs))"
proof (induction ls arbitrary: f)
  case Nil
  show ?case by (simp add: apply_adds_def)
next
  case (Cons l ls)
  show ?case
  proof (cases "P l")
    case True
    then show ?thesis
      by (simp add: Cons.IH foldl_inner_adds apply_adds_append comp_def)
  next
    case False
    then show ?thesis
      by (simp add: Cons.IH)
  qed
qed

lemma atom_index_i_inj:
  assumes "atom_index_i kc nb_sci i ti = atom_index_i kc nb_sci i' ti'"
    and "ti < c_clSize kc" and "ti' < c_clSize kc"
  shows "i = i' \<and> ti = ti'"
proof -
  define c where "c = int (c_clSize kc)"
  define a where "a = sci nb_sci * int (c_nbnxnGpuNumClusterPerSupercluster kc) + int i"
  define a' where "a' = sci nb_sci * int (c_nbnxnGpuNumClusterPerSupercluster kc) + int i'"
  have eq: "a * c + int ti = a' * c + int ti'"
    using assms(1) by (simp add: atom_index_i_def a_def a'_def c_def)
  have b: "0 \<le> int ti" "int ti < c" "0 \<le> int ti'" "int ti' < c"
    using assms(2,3) by (simp_all add: c_def)
  have "(a * c + int ti) div c = a" "(a' * c + int ti') div c = a'"
    using b by simp_all
  with eq have "a = a'"
    by simp
  with eq show ?thesis
    by (simp add: a_def a'_def)
qed

lemma reduce_i_forces_apply_adds:
  "g_f (reduce_i_forces kc bc args nb_sci bidx st)
   = apply_adds (g_f st)
       (map (\<lambda>k. (atom_index_i kc nb_sci (snd k) (snd (fst k)), fst (fst k),
                   reduce_force_i_warp_shfl kc (\<lambda>l. r_fci_buf (b_regs st l) ! snd k) (fst k)))
          (List.product (filter (\<lambda>l. fst l < 3) (lanes kc))
             [0..<c_nbnxnGpuNumClusterPerSupercluster kc]))"
  by (simp add: reduce_i_forces_def Let_def foldl_nested_adds)

lemma component_sub_zero:
  assumes "representable3 (to_float3 v)"
  shows "component c (ff3_sub (make_fast_float3 0) v) = - component c v"
  using assms
  by (simp add: component_def make_fast_float3_def fast_float3_xyz_def ff3_defs
      representable3_def to_float3_def add_zero_float)

lemma zero_float3_sub:
  assumes "representable3 (to_float3 v)"
  shows "\<lparr>f3_x = f3_x zero_float3 + - component 0 v, f3_y = f3_y zero_float3 + - component 1 v,
          f3_z = f3_z zero_float3 + - component 2 v\<rparr> = float3_neg (to_float3 v)"
proof -
  have "representable (- component 0 v)" "representable (- component 1 v)"
    "representable (- component 2 v)"
    using assms by (simp_all add: representable_component)
  then show ?thesis
    unfolding to_float3_components float3_neg_def
    by (simp add: zero_float3_def make_float3_def add_zero_float)
qed

lemma reduce_i_forces_result:
  assumes st: "block_matches kc lane0 i0 aj fij True st"
    and cl3: "3 \<le> c_clSize kc"
    and lane0: "lane0 \<in> set (lanes kc)"
    and i0: "i0 < c_nbnxnGpuNumClusterPerSupercluster kc"
    and repr: "representable3 (to_float3 fij)"
    and ai: "ai = atom_index_i kc nb_sci i0 (fst lane0)"
    and ne: "ai \<noteq> aj"
  shows "g_f (reduce_i_forces kc bc args nb_sci bidx st)
         = (\<lambda>a. zero_float3)(aj := to_float3 fij, ai := float3_neg (to_float3 fij))"
proof -
  define N where "N = c_nbnxnGpuNumClusterPerSupercluster kc"
  define z where "z = make_fast_float3 0"
  define ks where "ks = List.product (filter (\<lambda>l. fst l < 3) (lanes kc)) [0..<N]"
  define Rv where
    "Rv = (\<lambda>k. reduce_force_i_warp_shfl kc (\<lambda>l. r_fci_buf (b_regs st l) ! snd k) (fst k))"
  have gf: "g_f (reduce_i_forces kc bc args nb_sci bidx st)
      = apply_adds (g_f st)
          (map (\<lambda>k. (atom_index_i kc nb_sci (snd k) (snd (fst k)), fst (fst k), Rv k)) ks)"
    unfolding reduce_i_forces_apply_adds ks_def Rv_def N_def ..
  have l0: "fst lane0 < c_clSize kc" "snd lane0 < c_clSize kc"
    using lane0 by (simp_all add: set_lanes)
  have gf_st: "g_f st = (\<lambda>a. zero_float3)(aj := to_float3 fij)"
    using st by (simp add: block_matches_def)
  have repr_st: "\<forall>a. representable3 (g_f st a)"
    using repr by (simp add: gf_st)
  have fci_st: "r_fci_buf (b_regs st lane) ! i
      = (if lane = lane0 \<and> i = i0 then ff3_sub z fij else z)"
    if "lane \<in> set (lanes kc)" and "i < N" for lane i
    using st that i0 by (simp add: block_matches_def N_def z_def nth_list_update)
  have ks_mem: "k \<in> set ks \<longleftrightarrow> fst k \<in> set (lanes kc) \<and> fst (fst k) < 3 \<and> snd k < N" for k
    by (cases k) (auto simp: ks_def)
  have rv: "Rv k = (if snd k = i0 \<and> snd (fst k) = fst lane0
                    then - component (fst (fst k)) fij else 0)"
    if "k \<in> set ks" for k
  proof -
    have l: "fst k \<in> set (lanes kc)" and i: "snd k < N"
      using that by (simp_all add: ks_mem)
    have comp: "component (fst (fst k)) (r_fci_buf (b_regs st (snd (fst k), tj)) ! snd k)
        = (if (snd (fst k), tj) = lane0 \<and> snd k = i0 then - component (fst (fst k)) fij else 0)"
      if "tj < c_clSize kc" for tj
    proof -
      have "(snd (fst k), tj) \<in> set (lanes kc)"
        using l that by (simp add: set_lanes)
      then show ?thesis
        using repr by (simp add: fci_st [OF _ i] z_def component_sub_zero)
    qed
    show ?thesis
    proof (cases "snd k = i0 \<and> snd (fst k) = fst lane0")
      case True
      have "reduce_sum (map (\<lambda>tj. component (fst (fst k))
                               (r_fci_buf (b_regs st (snd (fst k), tj)) ! snd k))
                         [0..<c_clSize kc])
            = component (fst (fst k)) (r_fci_buf (b_regs st (snd (fst k), snd lane0)) ! snd k)"
      proof (rule reduce_sum_one [OF l0(2)])
        show "\<forall>i<c_clSize kc. i \<noteq> snd lane0 \<longrightarrow>
            component (fst (fst k)) (r_fci_buf (b_regs st (snd (fst k), i)) ! snd k) = 0"
          using comp by (auto simp: prod_eq_iff)
        show "representable (component (fst (fst k))
                (r_fci_buf (b_regs st (snd (fst k), snd lane0)) ! snd k))"
          using comp [OF l0(2)] repr by (auto simp: representable_component)
      qed
      also have "\<dots> = - component (fst (fst k)) fij"
        using comp [OF l0(2)] True by (simp add: prod_eq_iff)
      finally show ?thesis
        using True by (simp add: Rv_def reduce_force_i_warp_shfl_def)
    next
      case False
      then have "\<forall>tj<c_clSize kc. component (fst (fst k))
                   (r_fci_buf (b_regs st (snd (fst k), tj)) ! snd k) = 0"
        using comp by (auto simp: prod_eq_iff)
      then have "reduce_sum (map (\<lambda>tj. component (fst (fst k))
                               (r_fci_buf (b_regs st (snd (fst k), tj)) ! snd k))
                         [0..<c_clSize kc]) = 0"
        by (rule reduce_sum_zeros)
      then show ?thesis
        using False by (auto simp: Rv_def reduce_force_i_warp_shfl_def)
    qed
  qed
  have key: "((c, fst lane0), i0) \<in> set ks" if "c < 3" for c
    using that cl3 l0 i0 by (simp add: ks_mem set_lanes N_def)
  have "apply_adds (g_f st)
          (map (\<lambda>k. (atom_index_i kc nb_sci (snd k) (snd (fst k)), fst (fst k), Rv k)) ks)
        = (g_f st)(ai := \<lparr>f3_x = f3_x (g_f st ai) + Rv ((0, fst lane0), i0),
                           f3_y = f3_y (g_f st ai) + Rv ((1, fst lane0), i0),
                           f3_z = f3_z (g_f st ai) + Rv ((2, fst lane0), i0)\<rparr>)"
  proof (rule apply_adds_three [where K = "\<lambda>c. ((c, fst lane0), i0)"])
    show "distinct ks"
      unfolding ks_def by (intro distinct_product) (simp_all add: distinct_lanes)
    show "\<forall>a. representable3 (g_f st a)"
      by (rule repr_st)
    show "\<forall>k\<in>set ks. (\<forall>c<3. k \<noteq> ((c, fst lane0), i0)) \<longrightarrow> Rv k = 0"
    proof (intro ballI impI)
      fix k
      assume k: "k \<in> set ks" and n: "\<forall>c<3. k \<noteq> ((c, fst lane0), i0)"
      from k have "fst (fst k) < 3"
        by (simp add: ks_mem)
      with n have "\<not> (snd k = i0 \<and> snd (fst k) = fst lane0)"
        by (auto simp: prod_eq_iff)
      then show "Rv k = 0"
        by (auto simp: rv [OF k])
    qed
    show "\<forall>c<3. ((c, fst lane0), i0) \<in> set ks
        \<and> atom_index_i kc nb_sci (snd ((c, fst lane0), i0)) (snd (fst ((c, fst lane0), i0))) = ai
        \<and> fst (fst ((c, fst lane0), i0)) = c"
      using key ai by simp
    show "\<forall>k\<in>set ks. \<forall>c<3.
        atom_index_i kc nb_sci (snd k) (snd (fst k)) = ai \<and> min (fst (fst k)) 2 = c
        \<longrightarrow> k = ((c, fst lane0), i0)"
    proof (intro ballI allI impI)
      fix k c
      assume k: "k \<in> set ks" and c: "c < 3"
        and e: "atom_index_i kc nb_sci (snd k) (snd (fst k)) = ai \<and> min (fst (fst k)) 2 = c"
      from k have b: "snd (fst k) < c_clSize kc" "fst (fst k) < 3"
        by (simp_all add: ks_mem set_lanes)
      from e have "atom_index_i kc nb_sci (snd k) (snd (fst k))
          = atom_index_i kc nb_sci i0 (fst lane0)"
        by (simp add: ai)
      then have "snd k = i0 \<and> snd (fst k) = fst lane0"
        using b(1) l0(1) by (rule atom_index_i_inj)
      moreover from e b(2) have "fst (fst k) = c"
        by simp
      ultimately show "k = ((c, fst lane0), i0)"
        by (simp add: prod_eq_iff)
    qed
  qed
  also have "\<dots> = (\<lambda>a. zero_float3)(aj := to_float3 fij, ai := float3_neg (to_float3 fij))"
    using ne zero_float3_sub [OF repr] by (simp add: gf_st rv [OF key])
  finally show ?thesis
    unfolding gf .
qed

subsection \<open>The kernel with a single evaluated pair\<close>

lemma pair_f_ij_representable:
  "representable3 (to_float3 (pair_f_ij kc ku fl args nb_sci cj0 jm wexcl i lane))"
  by (simp add: pair_f_ij_def representable3_def to_float3_def ff3_defs)

lemma nbnxn_kernel_single_pair:
  assumes sci: "nb_sci = pl_sci args (unat bidx)"
    and warp: "rows_in_one_warp kc"
    and cl3: "3 \<le> c_clSize kc"
    and j4: "j4 \<in> set (cj4_range nb_sci)"
    and jm: "jm < c_nbnxnGpuJgroupSize kc"
    and i: "i < c_nbnxnGpuNumClusterPerSupercluster kc"
    and lane: "lane \<in> set (lanes kc)"
    and ev: "pair_evaluated kc fl args nb_sci j4 jm i lane"
    and only: "\<forall>j4'\<in>set (cj4_range nb_sci). \<forall>jm'<c_nbnxnGpuJgroupSize kc.
        \<forall>lane'\<in>set (lanes kc). \<forall>i'<c_nbnxnGpuNumClusterPerSupercluster kc.
        pair_evaluated kc fl args nb_sci j4' jm' i' lane'
        \<longrightarrow> j4' = j4 \<and> jm' = jm \<and> i' = i \<and> lane' = lane"
    and fij: "fij = evaluated_f_ij kc ku fl args nb_sci j4 jm i lane"
    and aj: "aj = atom_index_j kc (cj (pl_cj4 args j4) ! jm) (snd lane)"
    and ai: "ai = atom_index_i kc nb_sci i (fst lane)"
    and two: "ai \<noteq> aj"
  shows "g_f (nbnxn_kernel kc bc ku fl args bidx (\<lambda>a. zero_float3) fShift0)
         = (\<lambda>a. zero_float3)(aj := to_float3 fij, ai := float3_neg (to_float3 fij))"
proof -
  define st0 where
    "st0 = \<lparr>b_regs =
              (\<lambda>lane. \<lparr>r_imask = 0, r_wexcl = 0,
                        r_fcj_buf = make_fast_float3 0,
                        r_fci_buf = replicate (c_nbnxnGpuNumClusterPerSupercluster kc)
                                      (make_fast_float3 0),
                        r_E_lj = fst (self_energies kc ku fl args nb_sci lane),
                        r_E_el = snd (self_energies kc ku fl args nb_sci lane)\<rparr>),
            g_f = (\<lambda>a. zero_float3), g_fShift = fShift0, g_cj4 = pl_cj4 args\<rparr>"
  define st1 where "st1 = foldl (block_j4 kc ku fl args nb_sci) st0 (cj4_range nb_sci)"
  have k: "nbnxn_kernel kc bc ku fl args bidx (\<lambda>a. zero_float3) fShift0
      = reduce_i_forces kc bc args nb_sci bidx st1"
    unfolding nbnxn_kernel_def Let_def st1_def st0_def cj4_range_def sci ..
  have repr: "representable3 (to_float3 fij)"
    unfolding fij evaluated_f_ij_def by (rule pair_f_ij_representable)
  have m0: "block_matches kc lane i aj fij False st0"
    by (simp add: block_matches_def st0_def)
  have c0: "\<forall>j\<in>set (cj4_range nb_sci). g_cj4 st0 j = pl_cj4 args j"
    by (simp add: st0_def)
  have d: "distinct (cj4_range nb_sci)"
    by (simp add: cj4_range_def)
  have "block_matches kc lane i aj fij (False \<or> j4 \<in> set (cj4_range nb_sci)) st1"
    unfolding st1_def
    by (rule block_j4_fold [OF warp cl3 lane i jm fij aj repr d c0 only ev _ m0]) simp
  then have m1: "block_matches kc lane i aj fij True st1"
    using j4 by simp
  show ?thesis
    unfolding k by (rule reduce_i_forces_result [OF m1 cl3 lane i repr ai two])
qed

text \<open>
  Claim C2.  In a pass of the loop over \<open>i\<close> in which the mask bit is set and the pair passes
  the check, the pair force \<^verbatim>\<open>f_ij\<close> is added to the j-force accumulator and subtracted from
  the i-force accumulator of cluster \<open>i\<close>.  Consequently, when the kernel starts from a
  cleared force buffer and the block evaluates exactly one pair, of two different atoms,
  the force written for the j-atom is the pair force, the force written for the i-atom is
  its exact negation, and every other force stays zero.  The threads that share \<^verbatim>\<open>tidxj\<close>
  lie in one warp and the cluster size is at least three, as the reductions require.
\<close>

theorem pair_force_action_reaction:
  assumes "nb_sci = pl_sci args (unat bidx)"
    and "rows_in_one_warp kc"
    and "3 \<le> c_clSize kc"
    and "j4 \<in> set (cj4_range nb_sci)"
    and "jm < c_nbnxnGpuJgroupSize kc"
    and "i < c_nbnxnGpuNumClusterPerSupercluster kc"
    and "lane \<in> set (lanes kc)"
    and "pair_evaluated kc fl args nb_sci j4 jm i lane"
    and "\<forall>j4'\<in>set (cj4_range nb_sci). \<forall>jm'<c_nbnxnGpuJgroupSize kc.
        \<forall>lane'\<in>set (lanes kc). \<forall>i'<c_nbnxnGpuNumClusterPerSupercluster kc.
        pair_evaluated kc fl args nb_sci j4' jm' i' lane'
        \<longrightarrow> j4' = j4 \<and> jm' = jm \<and> i' = i \<and> lane' = lane"
    and "atom_index_i kc nb_sci i (fst lane) \<noteq> atom_index_j kc (cj (pl_cj4 args j4) ! jm) (snd lane)"
  shows "(r_imask rg AND mask_ji \<noteq> 0
            \<and> cutoff_and_exclusion_check kc fl args sci1 cj1 jm1 (r_wexcl rg) i1 lane1 \<longrightarrow>
          (let f_ij = pair_f_ij kc ku fl args sci1 cj1 jm1 (r_wexcl rg) i1 lane1;
               rg' = fst (i_iter kc ku fl args sci1 lane1 cj1 jm1 i1 (rg, mask_ji))
           in r_fcj_buf rg' = ff3_add (r_fcj_buf rg) f_ij
              \<and> r_fci_buf rg' = (r_fci_buf rg)[i1 := ff3_sub (r_fci_buf rg ! i1) f_ij]))
       \<and> (let f = g_f (nbnxn_kernel kc bc ku fl args bidx (\<lambda>a. zero_float3) fShift0);
               f_ij = to_float3 (evaluated_f_ij kc ku fl args nb_sci j4 jm i lane);
               ai = atom_index_i kc nb_sci i (fst lane);
               aj = atom_index_j kc (cj (pl_cj4 args j4) ! jm) (snd lane)
           in f aj = f_ij \<and> f ai = float3_neg f_ij \<and> f ai = float3_neg (f aj)
              \<and> (\<forall>a. a \<noteq> ai \<and> a \<noteq> aj \<longrightarrow> f a = zero_float3))"
proof -
  have a: "r_fcj_buf (fst (i_iter kc ku fl args sci1 lane1 cj1 jm1 i1 (rg, mask_ji)))
           = ff3_add (r_fcj_buf rg) (pair_f_ij kc ku fl args sci1 cj1 jm1 (r_wexcl rg) i1 lane1)
         \<and> r_fci_buf (fst (i_iter kc ku fl args sci1 lane1 cj1 jm1 i1 (rg, mask_ji)))
           = (r_fci_buf rg)[i1 := ff3_sub (r_fci_buf rg ! i1)
                (pair_f_ij kc ku fl args sci1 cj1 jm1 (r_wexcl rg) i1 lane1)]"
    if "r_imask rg AND mask_ji \<noteq> 0"
      and "cutoff_and_exclusion_check kc fl args sci1 cj1 jm1 (r_wexcl rg) i1 lane1"
    using i_iter_hit(1,2) [OF that] by blast
  have b: "g_f (nbnxn_kernel kc bc ku fl args bidx (\<lambda>a. zero_float3) fShift0)
      = (\<lambda>a. zero_float3)
          (atom_index_j kc (cj (pl_cj4 args j4) ! jm) (snd lane)
             := to_float3 (evaluated_f_ij kc ku fl args nb_sci j4 jm i lane),
           atom_index_i kc nb_sci i (fst lane)
             := float3_neg (to_float3 (evaluated_f_ij kc ku fl args nb_sci j4 jm i lane)))"
    using assms(1-9) refl refl refl assms(10) by (rule nbnxn_kernel_single_pair)
  show ?thesis
    unfolding Let_def b using a assms(10) by simp
qed

lemma excl_word_example:
  assumes "lane \<in> set (lanes kc_example)"
  shows "excl_word kc_example args_two_atoms j4 lane = (if lane = (0, 1) then 1 else 0)"
proof -
  define n where "n = snd lane * 8 + fst lane"
  have b: "fst lane < 8" "snd lane < 8"
    using assms by (simp_all add: set_lanes kc_example_def)
  then have t: "n < 64"
    by (simp add: n_def)
  have tid: "tidx_of kc_example lane = n"
    by (simp add: tidx_of_def kc_example_def n_def)
  have "unat ((of_nat n :: 32 word) AND 63) = n"
    using t by (simp add: unat_and_63 unat_of_nat)
  then have "excl_word kc_example args_two_atoms j4 lane
      = map (\<lambda>t. if t = 8 then 1 else 0) [0..<64] ! n"
    unfolding excl_word_def tid
    by (simp add: args_two_atoms_def kc_example_def widx_of_def)
  also have "\<dots> = (if n = 8 then 1 else 0)"
    using t by (simp del: upt_Suc)
  also have "(n = 8) = (lane = (0, 1))"
    unfolding n_def prod_eq_iff using b by (simp, arith)
  finally show ?thesis .
qed

lemma pair_evaluated_example:
  assumes "lane \<in> set (lanes kc_example)"
  shows "pair_evaluated kc_example fl_example args_two_atoms sci_example j4 jm i lane
         \<longleftrightarrow> jm = 0 \<and> i = 0 \<and> lane = (0, 1)"
proof -
  have im: "imask_word kc_example args_two_atoms j4 lane = 1"
    by (simp add: imask_word_def args_two_atoms_def kc_example_def widx_of_def)
  have c: "cj (pl_cj4 args_two_atoms j4) ! 0 = 0"
    by (simp add: args_two_atoms_def)
  have n: "\<not> EXCLUSION_FORCES fl_example"
    by (simp add: EXCLUSION_FORCES_def EL_EWALD_ANY_def LJ_EWALD_def fl_example_def)
  have rc: "rcoulomb_sq (k_nbparam args_two_atoms) = Finite 4"
    by (simp add: args_two_atoms_def nbparam_example_def)
  have lt: "Finite 1 < Finite 4"
    by (simp add: less_float_def)
  have ex: "pair_not_excluded kc_example fl_example sci_example 0 0 w 0 lane
      = (w AND 1 = 1)" for w
    using n by (simp add: pair_not_excluded_def int_bit_of_def float_arith_defs)
  have A: "pair_evaluated kc_example fl_example args_two_atoms sci_example j4 0 0 lane
        \<longleftrightarrow> lane = (0, 1)"
    unfolding pair_evaluated_def pair_hit_def im c check_iff excl_word_example [OF assms] ex
    using r2_inside lt by (auto simp: rc)
  have B: "\<not> pair_evaluated kc_example fl_example args_two_atoms sci_example j4 jm i lane"
    if "jm \<noteq> 0 \<or> i \<noteq> 0"
    using that unfolding pair_evaluated_def pair_hit_def im
    by (auto simp: bit_1_iff kc_example_def)
  show ?thesis
  proof (cases "jm = 0 \<and> i = 0")
    case True
    then show ?thesis
      using A by simp
  next
    case False
    then show ?thesis
      using B by auto
  qed
qed

theorem pair_force_action_reaction_witness:
  "g_f (nbnxn_kernel kc_example bc_example ku_example fl_example args_two_atoms 0
          (\<lambda>a. zero_float3) (\<lambda>a. zero_float3)) 1
     = \<lparr>f3_x = Finite (- 1), f3_y = Finite 0, f3_z = Finite 0\<rparr>
   \<and> g_f (nbnxn_kernel kc_example bc_example ku_example fl_example args_two_atoms 0
          (\<lambda>a. zero_float3) (\<lambda>a. zero_float3)) 0
     = \<lparr>f3_x = Finite 1, f3_y = Finite 0, f3_z = Finite 0\<rparr>
   \<and> g_f (nbnxn_kernel kc_example bc_example ku_example fl_example args_two_atoms 0
          (\<lambda>a. zero_float3) (\<lambda>a. zero_float3)) 0
     = float3_neg (g_f (nbnxn_kernel kc_example bc_example ku_example fl_example args_two_atoms 0
          (\<lambda>a. zero_float3) (\<lambda>a. zero_float3)) 1)"
proof -
  have h1: "sci_example = pl_sci args_two_atoms (unat (0 :: 32 word))"
    by (simp add: args_two_atoms_def)
  have h2: "rows_in_one_warp kc_example"
    by (simp add: rows_in_one_warp_def widx_of_def kc_example_def)
  have h3: "3 \<le> c_clSize kc_example"
    by (simp add: kc_example_def)
  have h4: "0 \<in> set (cj4_range sci_example)"
    by (simp add: cj4_range_def sci_example_def)
  have h5: "0 < c_nbnxnGpuJgroupSize kc_example"
    by (simp add: kc_example_def)
  have h6: "0 < c_nbnxnGpuNumClusterPerSupercluster kc_example"
    by (simp add: kc_example_def)
  have h7: "(0, 1) \<in> set (lanes kc_example)"
    by (simp add: set_lanes kc_example_def)
  have h8: "pair_evaluated kc_example fl_example args_two_atoms sci_example 0 0 0 (0, 1)"
    unfolding pair_evaluated_example [OF h7] by simp
  have h9: "\<forall>j4'\<in>set (cj4_range sci_example). \<forall>jm'<c_nbnxnGpuJgroupSize kc_example.
        \<forall>lane'\<in>set (lanes kc_example). \<forall>i'<c_nbnxnGpuNumClusterPerSupercluster kc_example.
        pair_evaluated kc_example fl_example args_two_atoms sci_example j4' jm' i' lane'
        \<longrightarrow> j4' = 0 \<and> jm' = 0 \<and> i' = 0 \<and> lane' = (0, 1)"
  proof (intro ballI allI impI)
    fix j4' jm' lane' i'
    assume j: "j4' \<in> set (cj4_range sci_example)" and l: "lane' \<in> set (lanes kc_example)"
      and e: "pair_evaluated kc_example fl_example args_two_atoms sci_example j4' jm' i' lane'"
    from j have "j4' = 0"
      by (simp add: cj4_range_def sci_example_def)
    with e show "j4' = 0 \<and> jm' = 0 \<and> i' = 0 \<and> lane' = (0, 1)"
      unfolding pair_evaluated_example [OF l] by simp
  qed
  have ai: "atom_index_i kc_example sci_example 0 (fst (0 :: nat, 1 :: nat)) = 0"
    by (simp add: atom_index_i_def kc_example_def sci_example_def)
  have aj: "atom_index_j kc_example (cj (pl_cj4 args_two_atoms 0) ! 0) (snd (0 :: nat, 1 :: nat)) = 1"
    by (simp add: atom_index_j_def kc_example_def args_two_atoms_def)
  have h10: "atom_index_i kc_example sci_example 0 (fst (0 :: nat, 1 :: nat))
      \<noteq> atom_index_j kc_example (cj (pl_cj4 args_two_atoms 0) ! 0) (snd (0 :: nat, 1 :: nat))"
    unfolding ai aj by simp
  have f: "to_float3 (evaluated_f_ij kc_example ku_example fl_example args_two_atoms sci_example
             0 0 0 (0, 1)) = \<lparr>f3_x = Finite (- 1), f3_y = Finite 0, f3_z = Finite 0\<rparr>"
    unfolding evaluated_f_ij_def excl_word_example [OF h7]
    using f_ij_inside
    by (simp add: args_two_atoms_def to_float3_def fast_float3_xyz_def ff3_defs)
  have n: "float3_neg \<lparr>f3_x = Finite (- 1), f3_y = Finite 0, f3_z = Finite 0\<rparr>
      = \<lparr>f3_x = Finite 1, f3_y = Finite 0, f3_z = Finite 0\<rparr>"
    by (simp add: float3_neg_def uminus_float_def)
  note w = pair_force_action_reaction [OF h1 h2 h3 h4 h5 h6 h7 h8 h9 h10, THEN conjunct2,
      of bc_example ku_example "\<lambda>a. zero_float3", unfolded Let_def ai aj f n]
  from w show ?thesis
    by (simp add: n)
qed

end
